theory Spec2Isabelle
  imports Complex_Main "HOL-Library.Sublist"
begin

unbundle bit_operations_syntax

section \<open>JavaScript values\<close>

text \<open>
  A thrown value is an \<open>Error\<close> carrying its message, or some other value
  (the handlers test \<open>e instanceof Error\<close>).
\<close>

datatype exn = JsError string | Thrown

fun message_of :: "exn \<Rightarrow> string" where
  "message_of (JsError m) = m"
| "message_of Thrown = ''Unknown error''"

text \<open>
  A JavaScript number is \<open>NaN\<close>, an infinity or a finite value: a double, taken as
  the real it denotes.
\<close>

datatype jsnum = NaN | Fin real | PosInf | NegInf

datatype json =
    JNull
  | JBool bool
  | JNum jsnum
  | JStr string
  | JArr "json list"
  | JObj "(string \<times> json) list"

text \<open>
  \<open>obj?.key\<close>: \<open>None\<close> is \<open>undefined\<close>. An object is the list of its own properties,
  each key once, and only objects carry the keys read here.
\<close>

fun js_get :: "json \<Rightarrow> string \<Rightarrow> json option" where
  "js_get (JObj kvs) k = map_of kvs k"
| "js_get _ k = None"

text \<open>\<open>typeof v === "number"\<close> on a property that may be absent.\<close>

fun number_of :: "json option \<Rightarrow> jsnum option" where
  "number_of (Some (JNum n)) = Some n"
| "number_of _ = None"

text \<open>\<open>typeof v === "string" ? v : ""\<close>\<close>

fun string_or_empty :: "json option \<Rightarrow> string" where
  "string_or_empty (Some (JStr s)) = s"
| "string_or_empty _ = []"

subsection \<open>Strings\<close>

text \<open>
  A string is the list of its characters, for the characters below 256. The white space
  and line terminators of ECMAScript among them are the five control characters, the
  space and the no-break space.
\<close>

definition is_space :: "char \<Rightarrow> bool" where
  "is_space c =
     (c \<in> set [CHR '' '', CHR 0x09, CHR 0x0A, CHR 0x0B, CHR 0x0C, CHR 0x0D, CHR 0xA0])"

text \<open>\<open>String.prototype.trim\<close>\<close>

definition trim :: "string \<Rightarrow> string" where
  "trim s = rev (dropWhile is_space (rev (dropWhile is_space s)))"

text \<open>Case mapping on the ASCII letters.\<close>

definition lower_char :: "char \<Rightarrow> char" where
  "lower_char c =
     (case map_of (zip ''ABCDEFGHIJKLMNOPQRSTUVWXYZ'' ''abcdefghijklmnopqrstuvwxyz'') c of
        Some d \<Rightarrow> d
      | None \<Rightarrow> c)"

definition upper_char :: "char \<Rightarrow> char" where
  "upper_char c =
     (case map_of (zip ''abcdefghijklmnopqrstuvwxyz'' ''ABCDEFGHIJKLMNOPQRSTUVWXYZ'') c of
        Some d \<Rightarrow> d
      | None \<Rightarrow> c)"

definition toLowerCase :: "string \<Rightarrow> string" where
  "toLowerCase s = map lower_char s"

definition toUpperCase :: "string \<Rightarrow> string" where
  "toUpperCase s = map upper_char s"

text \<open>\<open>s.includes(sub)\<close>: \<open>sub\<close> occurs in \<open>s\<close> as a contiguous run.\<close>

fun str_includes :: "string \<Rightarrow> string \<Rightarrow> bool" where
  "str_includes [] sub = (sub = [])"
| "str_includes (c # cs) sub = (prefix sub (c # cs) \<or> str_includes cs sub)"

subsection \<open>Numbers\<close>

text \<open>
  Comparisons, \<open>Math.max\<close>, \<open>Math.min\<close> and \<open>Math.round\<close> are exact on doubles. A
  product or a quotient of doubles is rounded to the nearest double. The rounding belongs
  to the runtime and is a parameter; what is known of it is that it is monotone and keeps
  0, 1 and 100, which are doubles.
\<close>

typedef double_rounding = "{f :: real \<Rightarrow> real. mono f \<and> f 0 = 0 \<and> f 1 = 1 \<and> f 100 = 100}"
  by (rule exI [of _ "\<lambda>x. x"]) (simp add: mono_def)

definition nearest :: "double_rounding \<Rightarrow> real \<Rightarrow> real" where
  "nearest rd = Rep_double_rounding rd"

text \<open>The rounding that changes nothing, for inputs whose products and quotients are doubles.\<close>

definition exact_rounding :: double_rounding where
  "exact_rounding = Abs_double_rounding (\<lambda>x. x)"

text \<open>\<open>percent > 0 && percent <= 1\<close>\<close>

fun is_fraction :: "jsnum \<Rightarrow> bool" where
  "is_fraction (Fin r) = (0 < r \<and> r \<le> 1)"
| "is_fraction _ = False"

text \<open>\<open>percent * 100\<close>, used on finite values only.\<close>

fun times100 :: "double_rounding \<Rightarrow> jsnum \<Rightarrow> jsnum" where
  "times100 rd (Fin r) = Fin (nearest rd (r * 100))"
| "times100 rd PosInf = PosInf"
| "times100 rd NegInf = NegInf"
| "times100 rd NaN = NaN"

text \<open>\<open>Math.max(0, Math.min(100, percent))\<close> for a value that is not \<open>NaN\<close>.\<close>

fun clamp100 :: "jsnum \<Rightarrow> real" where
  "clamp100 (Fin r) = max 0 (min 100 r)"
| "clamp100 PosInf = 100"
| "clamp100 NegInf = 0"
| "clamp100 NaN = 0"

text \<open>\<open>Math.round\<close>: the nearest integer, a tie going up; exact on every double.\<close>

definition Math_round :: "real \<Rightarrow> int" where
  "Math_round r = \<lfloor>r + 1 / 2\<rfloor>"

text \<open>\<open>parseInt(s, 10)\<close>: leading white space, a sign, then digits; \<open>None\<close> is \<open>NaN\<close>.\<close>

definition digit_of :: "char \<Rightarrow> nat option" where
  "digit_of c = map_of (zip ''0123456789'' [0, 1, 2, 3, 4, 5, 6, 7, 8, 9]) c"

definition digits_value :: "string \<Rightarrow> nat" where
  "digits_value ds = foldl (\<lambda>a c. 10 * a + the (digit_of c)) 0 ds"

definition parseInt10 :: "string \<Rightarrow> int option" where
  "parseInt10 s =
     (let t = dropWhile is_space s;
          neg = (t \<noteq> [] \<and> hd t = CHR ''-'');
          r = (if t \<noteq> [] \<and> (hd t = CHR ''-'' \<or> hd t = CHR ''+'') then tl t else t);
          ds = takeWhile (\<lambda>c. digit_of c \<noteq> None) r
      in if ds = [] then None
         else Some (if neg then - int (digits_value ds) else int (digits_value ds)))"

text \<open>A number in a template string, for the integers that index builds.\<close>

definition digit_char :: "nat \<Rightarrow> char" where
  "digit_char n = ''0123456789'' ! n"

fun show_nat :: "nat \<Rightarrow> string" where
  "show_nat n = (if n < 10 then [digit_char n] else show_nat (n div 10) @ [digit_char (n mod 10)])"

declare show_nat.simps [simp del]

definition show_int :: "int \<Rightarrow> string" where
  "show_int i = (if i < 0 then CHR ''-'' # show_nat (nat (- i)) else show_nat (nat i))"

section \<open>The file system\<close>

text \<open>
  A path is its list of components (\<open>path.join\<close> appends, \<open>path.dirname\<close> drops the
  last one). The disk maps a path to what is there. Calls of \<open>fs\<close> fail for the
  structural reasons written out below, and whenever the operating system refuses
  them (permissions, a file held open by another process): the refusals are the
  parameter \<open>flt\<close>.
\<close>

type_synonym path = "string list"

datatype node = Dir | File (content: string) (mode: nat)

type_synonym disk = "path \<Rightarrow> node option"

datatype fs_op =
    OpMkdir path
  | OpRm path
  | OpRename path path
  | OpUnlink path
  | OpStat path
  | OpChmod path nat
  | OpRead path
  | OpWrite path
  | OpCopy path path

type_synonym faults = "fs_op \<Rightarrow> exn option"

definition existsSync :: "disk \<Rightarrow> path \<Rightarrow> bool" where
  "existsSync d p = (d p \<noteq> None)"

definition is_file :: "node option \<Rightarrow> bool" where
  "is_file n = (case n of Some (File c m) \<Rightarrow> True | _ \<Rightarrow> False)"

text \<open>\<open>fs.mkdirSync(p, { recursive: true })\<close>\<close>

definition mkdirSync :: "faults \<Rightarrow> path \<Rightarrow> disk \<Rightarrow> exn + disk" where
  "mkdirSync flt p d =
     (case flt (OpMkdir p) of
        Some e \<Rightarrow> Inl e
      | None \<Rightarrow>
          if list_ex (\<lambda>q. is_file (d q)) (prefixes p) then Inl (JsError ''EEXIST'')
          else Inr (\<lambda>q. case d q of
                           None \<Rightarrow> if prefix q p then Some Dir else None
                         | Some n \<Rightarrow> Some n))"

text \<open>\<open>fs.rmSync(p, { recursive: true, force: true })\<close>\<close>

definition rmSync :: "faults \<Rightarrow> path \<Rightarrow> disk \<Rightarrow> exn + disk" where
  "rmSync flt p d =
     (case flt (OpRm p) of
        Some e \<Rightarrow> Inl e
      | None \<Rightarrow> Inr (\<lambda>q. if prefix p q then None else d q))"

text \<open>
  \<open>fs.renameSync(src, dst)\<close> moves a file or a whole directory. A file replaces a
  file that is at \<open>dst\<close>; every other move onto something that exists is taken as
  failing.
\<close>

definition renameSync :: "faults \<Rightarrow> path \<Rightarrow> path \<Rightarrow> disk \<Rightarrow> exn + disk" where
  "renameSync flt src dst d =
     (case flt (OpRename src dst) of
        Some e \<Rightarrow> Inl e
      | None \<Rightarrow>
          if d src = None \<or> d (butlast dst) \<noteq> Some Dir then Inl (JsError ''ENOENT'')
          else if prefix src dst then Inl (JsError ''EINVAL'')
          else if d dst \<noteq> None \<and> \<not> (is_file (d src) \<and> is_file (d dst))
            then Inl (JsError ''ENOTEMPTY'')
          else Inr (\<lambda>q. if prefix dst q then d (src @ drop (length dst) q)
                         else if prefix src q then None
                         else d q))"

definition unlinkSync :: "faults \<Rightarrow> path \<Rightarrow> disk \<Rightarrow> exn + disk" where
  "unlinkSync flt p d =
     (case flt (OpUnlink p) of
        Some e \<Rightarrow> Inl e
      | None \<Rightarrow>
          (case d p of
             None \<Rightarrow> Inl (JsError ''ENOENT'')
           | Some Dir \<Rightarrow> Inl (JsError ''EPERM'')
           | Some (File c m) \<Rightarrow> Inr (d(p := None))))"

text \<open>\<open>fs.statSync(p).mode\<close>; a directory reports the bits \<open>0o755\<close>.\<close>

definition statSync :: "faults \<Rightarrow> path \<Rightarrow> disk \<Rightarrow> exn + nat" where
  "statSync flt p d =
     (case flt (OpStat p) of
        Some e \<Rightarrow> Inl e
      | None \<Rightarrow>
          (case d p of
             None \<Rightarrow> Inl (JsError ''ENOENT'')
           | Some Dir \<Rightarrow> Inr 493
           | Some (File c m) \<Rightarrow> Inr m))"

definition chmodSync :: "faults \<Rightarrow> path \<Rightarrow> nat \<Rightarrow> disk \<Rightarrow> exn + disk" where
  "chmodSync flt p m d =
     (case flt (OpChmod p m) of
        Some e \<Rightarrow> Inl e
      | None \<Rightarrow>
          (case d p of
             None \<Rightarrow> Inl (JsError ''ENOENT'')
           | Some Dir \<Rightarrow> Inr d
           | Some (File c m') \<Rightarrow> Inr (d(p \<mapsto> File c m))))"

text \<open>Reading a whole file (\<open>fs.createReadStream\<close> to its end).\<close>

definition readFile :: "faults \<Rightarrow> path \<Rightarrow> disk \<Rightarrow> exn + string" where
  "readFile flt p d =
     (case flt (OpRead p) of
        Some e \<Rightarrow> Inl e
      | None \<Rightarrow>
          (case d p of
             None \<Rightarrow> Inl (JsError ''ENOENT'')
           | Some Dir \<Rightarrow> Inl (JsError ''EISDIR'')
           | Some (File c m) \<Rightarrow> Inr c))"

text \<open>
  Writing a whole file (\<open>fs.writeFileSync\<close>, \<open>fs.createWriteStream\<close> to its end): the
  directory has to be there, a file that exists keeps its mode.
\<close>

definition writeFile :: "faults \<Rightarrow> path \<Rightarrow> string \<Rightarrow> disk \<Rightarrow> exn + disk" where
  "writeFile flt p c d =
     (case flt (OpWrite p) of
        Some e \<Rightarrow> Inl e
      | None \<Rightarrow>
          if d (butlast p) \<noteq> Some Dir \<or> p = [] then Inl (JsError ''ENOENT'')
          else
            (case d p of
               Some Dir \<Rightarrow> Inl (JsError ''EISDIR'')
             | Some (File c' m) \<Rightarrow> Inr (d(p \<mapsto> File c m))
             | None \<Rightarrow> Inr (d(p \<mapsto> File c 420))))"

definition copyFileSync :: "faults \<Rightarrow> path \<Rightarrow> path \<Rightarrow> disk \<Rightarrow> exn + disk" where
  "copyFileSync flt src dst d =
     (case flt (OpCopy src dst) of
        Some e \<Rightarrow> Inl e
      | None \<Rightarrow>
          (case d src of
             Some (File c m) \<Rightarrow>
               if d (butlast dst) \<noteq> Some Dir \<or> dst = [] \<or> d dst = Some Dir
               then Inl (JsError ''ENOENT'')
               else Inr (d(dst \<mapsto> File c m))
           | _ \<Rightarrow> Inl (JsError ''ENOENT'')))"

section \<open>Versions, events and the environment\<close>

datatype VersionType = Release | PreRelease

fun type_name :: "VersionType \<Rightarrow> string" where
  "type_name Release = ''release''"
| "type_name PreRelease = ''pre-release''"

record GameVersion =
  url :: string
  vtype :: VersionType
  build_index :: int
  build_name :: string
  isLatest :: "bool option"
  patch_url :: "string option"
  patch_hash :: "string option"
  original_url :: "string option"
  patch_note :: "string option"
  installed :: "bool option"

text \<open>
  The content length as the download code holds it: \<open>undefined\<close>, \<open>NaN\<close> (a header
  that \<open>parseInt\<close> rejects) or a number.
\<close>

datatype total = Undefined | NotANumber | Num int

record InstallProgress =
  phase :: string
  percent :: int
  total :: total
  current :: "nat option"

text \<open>
  \<open>win.webContents.send(channel, payload)\<close>: the events sent, oldest first. Once the
  window has been destroyed the call throws instead.
\<close>

datatype payload =
    NoPayload
  | ProgressPayload InstallProgress
  | VersionPayload GameVersion
  | MessagePayload string

type_synonym event = "string \<times> payload"

text \<open>The network calls and subprocesses of a run, oldest first.\<close>

datatype arg = Word string | PathArg path

datatype action = Fetch string | Spawn path "arg list" | RunInstallJRE path

record state =
  fsys :: disk
  sent :: "event list"
  acts :: "action list"

text \<open>
  Sending to a window that is there. The functions of \<open>install.ts\<close> are modelled for such
  a window; those of \<open>onlinePatch.ts\<close> are modelled for any window, through \<open>win_send\<close>
  below.
\<close>

definition send :: "string \<Rightarrow> payload \<Rightarrow> state \<Rightarrow> state" where
  "send ch p s = s\<lparr>sent := sent s @ [(ch, p)]\<rparr>"

definition send_progress :: "string \<Rightarrow> InstallProgress list \<Rightarrow> state \<Rightarrow> state" where
  "send_progress ch ps s = s\<lparr>sent := sent s @ map (\<lambda>p. (ch, ProgressPayload p)) ps\<rparr>"

definition act :: "action \<Rightarrow> state \<Rightarrow> state" where
  "act a s = s\<lparr>acts := acts s @ [a]\<rparr>"

text \<open>A call that throws leaves the disk as it was; \<open>try { ... } catch { }\<close> around one call.\<close>

definition on_disk :: "(disk \<Rightarrow> exn + disk) \<Rightarrow> state \<Rightarrow> (exn + unit) \<times> state" where
  "on_disk f s = (case f (fsys s) of Inl e \<Rightarrow> (Inl e, s) | Inr d \<Rightarrow> (Inr (), s\<lparr>fsys := d\<rparr>))"

definition ignoring :: "(disk \<Rightarrow> exn + disk) \<Rightarrow> state \<Rightarrow> state" where
  "ignoring f s = (case f (fsys s) of Inl e \<Rightarrow> s | Inr d \<Rightarrow> s\<lparr>fsys := d\<rparr>)"

text \<open>A response of \<open>fetch\<close>: the body is a finite run of chunks that may end in an error.\<close>

record stream_body =
  chunks :: "string list"
  stream_error :: "exn option"

record response =
  ok :: bool
  status :: nat
  statusText :: string
  content_length :: "string option"
  body :: "stream_body option"

text \<open>
  The child process: it fails to start, or it closes with an exit code (none when a
  signal ended it), the lines it wrote to its standard output and the disk it leaves.
\<close>

datatype spawn_result = SpawnFailed exn | Closed "int option" "string list" disk

text \<open>
  Modelled from the spec: the modules \<open>./manifest\<close>, \<open>./check\<close>, \<open>./paths\<close> and \<open>./jre\<close>
  are not among the sources. The manifest is the record of section 3, the check reports
  the presence of the client, the server and the runtime, and the operations of these
  modules are parameters of the environment below, with the signatures of sections 4.1,
  4.2 and 6. An operation that changes the disk returns the disk it leaves and the
  error it throws, if any.
\<close>

record InstallManifest =
  m_build_index :: int
  m_build_name :: "string option"

record check =
  client :: bool
  server :: bool
  jre :: bool

record jre_result =
  jre_path :: "path option"
  jre_disk :: disk
  jre_events :: "event list"

type_synonym disk_effect = "disk \<Rightarrow> exn option \<times> disk"

text \<open>
  The environment of a run: the platform, the runtime (\<open>fetch\<close>, \<open>spawn\<close>,
  \<open>JSON.parse\<close>, the rounding of doubles, the hash, the refusals of the operating
  system), whether the window handed to \<open>patchOnlineClientIfNeeded\<close> has been destroyed,
  the constant \<open>META_DIRECTORY\<close>, the library \<open>extract-zip\<close> and the modules that are
  not among the sources.
\<close>

record world =
  platform :: string
  fault :: faults
  fetch :: "string \<Rightarrow> exn + response"
  spawn :: "path \<Rightarrow> arg list \<Rightarrow> disk \<Rightarrow> spawn_result"
  JSON_parse :: "string \<Rightarrow> json option"
  rounding :: double_rounding
  window_destroyed :: bool
  sha256 :: "string \<Rightarrow> string"
  META_DIRECTORY :: path
  extract_zip :: "path \<Rightarrow> path \<Rightarrow> disk_effect"
  migrateLegacyChannelInstallIfNeeded :: "path \<Rightarrow> VersionType \<Rightarrow> disk_effect"
  getLatestDir :: "path \<Rightarrow> path"
  getReleaseBuildDir :: "path \<Rightarrow> int \<Rightarrow> path"
  resolveInstallDir :: "path \<Rightarrow> GameVersion \<Rightarrow> path"
  resolveClientPath :: "path \<Rightarrow> disk \<Rightarrow> exn + path"
  readInstallManifest :: "path \<Rightarrow> disk \<Rightarrow> InstallManifest option"
  writeInstallManifest :: "path \<Rightarrow> GameVersion \<Rightarrow> disk_effect"
  checkGameInstallation :: "path \<Rightarrow> GameVersion \<Rightarrow> disk \<Rightarrow> check"
  installJRE :: "path \<Rightarrow> disk \<Rightarrow> jre_result"

definition effect :: "disk_effect \<Rightarrow> state \<Rightarrow> (exn + unit) \<times> state" where
  "effect f s =
     (case f (fsys s) of
        (Some e, d) \<Rightarrow> (Inl e, s\<lparr>fsys := d\<rparr>)
      | (None, d) \<Rightarrow> (Inr (), s\<lparr>fsys := d\<rparr>))"

text \<open>
  \<open>win.webContents.send\<close> on a window that may have been destroyed: the call then throws
  a \<open>TypeError\<close> and nothing is sent.
\<close>

definition destroyed_error :: exn where
  "destroyed_error = JsError ''Object has been destroyed''"

definition win_send :: "world \<Rightarrow> string \<Rightarrow> payload \<Rightarrow> state \<Rightarrow> exn + state" where
  "win_send w ch p s = (if window_destroyed w then Inl destroyed_error else Inr (send ch p s))"

definition win_send_progress ::
  "world \<Rightarrow> string \<Rightarrow> InstallProgress list \<Rightarrow> state \<Rightarrow> exn + state" where
  "win_send_progress w ch ps s =
     (if window_destroyed w then Inl destroyed_error else Inr (send_progress ch ps s))"

section \<open>Downloads\<close>

text \<open>The events of the \<open>data\<close> handler: one for each chunk, with the bytes so far.\<close>

fun data_events :: "(nat \<Rightarrow> InstallProgress) \<Rightarrow> nat \<Rightarrow> string list \<Rightarrow> InstallProgress list" where
  "data_events mk n [] = []"
| "data_events mk n (c # cs) = mk (n + length c) # data_events mk (n + length c) cs"

text \<open>
  \<open>Math.round((downloadedLength / totalLength) * 100)\<close>: the quotient is rounded to a
  double, and so is the product.
\<close>

definition ratio_percent :: "double_rounding \<Rightarrow> nat \<Rightarrow> int \<Rightarrow> int" where
  "ratio_percent rd n t = Math_round (nearest rd (nearest rd (real n / real_of_int t) * 100))"

text \<open>
  \<open>pipeline(body, progressStream, fs.createWriteStream(p))\<close>: the chunks that arrived
  have passed the handler of \<open>data\<close> and are in the file, also when the stream ends in
  an error. The pipeline fails when the file cannot be written or the stream breaks.
\<close>

definition pipeline :: "faults \<Rightarrow> stream_body \<Rightarrow> path \<Rightarrow> disk_effect" where
  "pipeline flt b p d =
     (case writeFile flt p (concat (chunks b)) d of
        Inl e \<Rightarrow> (Some e, d)
      | Inr d' \<Rightarrow> (stream_error b, d'))"

section \<open>Patch tool output (install.ts, applyPWR, the line handler)\<close>

text \<open>
  \<open>JSON.parse\<close> belongs to the runtime and is a parameter: \<open>None\<close> when it throws.
  The result of \<open>on_line\<close> is the percentage of the progress event sent for the line,
  \<open>None\<close> when the handler returns without sending.
\<close>

definition line_percent :: "json \<Rightarrow> jsnum option" where
  "line_percent obj =
     (case number_of (js_get obj ''percentage'') of
        Some n \<Rightarrow> Some n
      | None \<Rightarrow>
          (case number_of (js_get obj ''percent'') of
             Some n \<Rightarrow> Some n
           | None \<Rightarrow> number_of (js_get obj ''progress'')))"

definition isProgress :: "json \<Rightarrow> bool" where
  "isProgress obj =
     (str_includes (toLowerCase (string_or_empty (js_get obj ''type''))) ''progress''
      \<or> number_of (js_get obj ''percentage'') \<noteq> None
      \<or> number_of (js_get obj ''percent'') \<noteq> None)"

text \<open>
  \<open>if (percent > 0 && percent <= 1) percent = percent * 100;
  percent = Math.max(0, Math.min(100, percent)); Math.round(percent)\<close>
\<close>

definition normalize_percent :: "double_rounding \<Rightarrow> jsnum \<Rightarrow> int" where
  "normalize_percent rd p =
     Math_round (clamp100 (if is_fraction p then times100 rd p else p))"

definition on_line :: "world \<Rightarrow> string \<Rightarrow> int option" where
  "on_line w line =
     (let trimmed = trim line in
      if trimmed = [] then None
      else
        (case JSON_parse w trimmed of
           None \<Rightarrow> None
         | Some obj \<Rightarrow>
             if \<not> isProgress obj then None
             else
               (case line_percent obj of
                  None \<Rightarrow> None
                | Some NaN \<Rightarrow> None
                | Some p \<Rightarrow> Some (normalize_percent (rounding w) p))))"

section \<open>install.ts\<close>

definition ensureExecutable :: "world \<Rightarrow> path \<Rightarrow> state \<Rightarrow> state" where
  "ensureExecutable w filePath s =
     (if platform w = ''win32'' then s
      else
        (case statSync (fault w) filePath (fsys s) of
           Inl e \<Rightarrow> s
         | Inr m \<Rightarrow>
             if m AND 64 = 0 then ignoring (chmodSync (fault w) filePath 493) s
             else s))"

definition ensureClientExecutable :: "world \<Rightarrow> path \<Rightarrow> state \<Rightarrow> state" where
  "ensureClientExecutable w installDir s =
     (case resolveClientPath w installDir (fsys s) of
        Inl e \<Rightarrow> s
      | Inr clientPath \<Rightarrow> ensureExecutable w clientPath s)"

text \<open>\<open>contentLength ? parseInt(contentLength, 10) : undefined\<close>\<close>

definition pwr_total :: "string option \<Rightarrow> total" where
  "pwr_total h =
     (case h of
        None \<Rightarrow> Undefined
      | Some c \<Rightarrow>
          if c = [] then Undefined
          else (case parseInt10 c of None \<Rightarrow> NotANumber | Some n \<Rightarrow> Num n))"

text \<open>The truth value of \<open>totalLength\<close>.\<close>

fun truthy :: "total \<Rightarrow> bool" where
  "truthy (Num n) = (n \<noteq> 0)"
| "truthy _ = False"

definition pwr_event :: "total \<Rightarrow> int \<Rightarrow> nat \<Rightarrow> InstallProgress" where
  "pwr_event t pc n = \<lparr>phase = ''pwr-download'', percent = pc, total = t, current = Some n\<rparr>"

text \<open>The handler of \<open>data\<close> in \<open>downloadPWR\<close>, at \<open>n\<close> bytes so far.\<close>

definition pwr_data_event :: "double_rounding \<Rightarrow> total \<Rightarrow> nat \<Rightarrow> InstallProgress" where
  "pwr_data_event rd t n =
     pwr_event t (case t of Num k \<Rightarrow> if k > 0 then ratio_percent rd n k else - 1 | _ \<Rightarrow> - 1) n"

definition tempPWRPath :: "path \<Rightarrow> GameVersion \<Rightarrow> path" where
  "tempPWRPath gameDir version = gameDir @ [''temp_'' @ show_int (build_index version) @ ''.pwr'']"

text \<open>\<open>downloadPWR\<close> returns the path of the artifact, or \<open>null\<close> for everything it catches.\<close>

definition downloadPWR :: "world \<Rightarrow> path \<Rightarrow> GameVersion \<Rightarrow> state \<Rightarrow> path option \<times> state" where
  "downloadPWR w gameDir version s =
     (let s1 = act (Fetch (url version)) s in
      case fetch w (url version) of
        Inl e \<Rightarrow> (None, s1)
      | Inr r \<Rightarrow>
          if \<not> ok r then (None, s1)
          else
            (case body r of
               None \<Rightarrow> (None, s1)
             | Some b \<Rightarrow>
                 let totalLength = pwr_total (content_length r);
                     s2 = send_progress ''install-progress''
                            (pwr_event totalLength (if truthy totalLength then 0 else - 1) 0
                             # data_events (pwr_data_event (rounding w) totalLength) 0 (chunks b)) s1
                 in
                   (case pipeline (fault w) b (tempPWRPath gameDir version) (fsys s2) of
                      (Some e, d) \<Rightarrow> (None, s2\<lparr>fsys := d\<rparr>)
                    | (None, d) \<Rightarrow>
                        (Some (tempPWRPath gameDir version),
                         send_progress ''install-progress''
                           [pwr_event totalLength 100 (length (concat (chunks b)))]
                           (s2\<lparr>fsys := d\<rparr>)))))"

definition patching_event :: "int \<Rightarrow> InstallProgress" where
  "patching_event pc = \<lparr>phase = ''patching'', percent = pc, total = Undefined, current = None\<rparr>"

text \<open>The events of the line handler over the lines of the tool, in order.\<close>

definition line_events :: "world \<Rightarrow> string list \<Rightarrow> InstallProgress list" where
  "line_events w ls =
     concat (map (\<lambda>l. case on_line w l of
                          None \<Rightarrow> []
                        | Some pc \<Rightarrow> [patching_event pc]) ls)"

definition butler_args :: "path \<Rightarrow> path \<Rightarrow> path \<Rightarrow> arg list" where
  "butler_args stagingDir pwrPath installDir =
     [Word ''apply'', Word ''--json'', Word ''--staging-dir'',
      PathArg stagingDir, PathArg pwrPath, PathArg installDir]"

text \<open>\<open>if (!fs.existsSync(dir)) fs.mkdirSync(dir, { recursive: true })\<close>\<close>

definition ensure_dir :: "world \<Rightarrow> path \<Rightarrow> state \<Rightarrow> (exn + unit) \<times> state" where
  "ensure_dir w dir s =
     (if existsSync (fsys s) dir then (Inr (), s) else on_disk (mkdirSync (fault w) dir) s)"

text \<open>
  \<open>applyPWR\<close>: the promise is rejected when the directories cannot be made or the
  process does not start, and resolved with \<open>installDir\<close> by the handler of \<open>close\<close>,
  whatever the exit code. The lines of the tool reach their handler before \<open>close\<close>.
  What the runtime delivers after a rejection is not part of the model.
\<close>

definition applyPWR ::
  "world \<Rightarrow> path \<Rightarrow> path \<Rightarrow> path \<Rightarrow> state \<Rightarrow> (exn + path) \<times> state" where
  "applyPWR w pwrPath butlerPath installDir s =
     (let stagingDir = installDir @ [''staging-temp''] in
      case ensure_dir w installDir s of
        (Inl e, s1) \<Rightarrow> (Inl e, s1)
      | (Inr u, s1) \<Rightarrow>
          (case ensure_dir w stagingDir s1 of
             (Inl e, s2) \<Rightarrow> (Inl e, s2)
           | (Inr u, s2) \<Rightarrow>
               let s3 = act (Spawn butlerPath (butler_args stagingDir pwrPath installDir))
                          (send_progress ''install-progress'' [patching_event (- 1)] s2)
               in
                 (case spawn w butlerPath (butler_args stagingDir pwrPath installDir) (fsys s3) of
                    SpawnFailed e \<Rightarrow> (Inl e, s3)
                  | Closed code ls d \<Rightarrow>
                      (Inr installDir,
                       send_progress ''install-progress''
                         (line_events w ls @ [patching_event 100]) (s3\<lparr>fsys := d\<rparr>)))))"

section \<open>butler.ts\<close>

definition butler_url :: "string \<Rightarrow> string option" where
  "butler_url pf =
     map_of
       [(''win32'', ''https://broth.itch.zone/butler/windows-amd64/LATEST/archive/default''),
        (''linux'', ''https://broth.itch.zone/butler/linux-amd64/LATEST/archive/default''),
        (''darwin'', ''https://broth.itch.zone/butler/darwin-amd64/LATEST/archive/default'')]
       pf"

text \<open>\<open>await response.arrayBuffer()\<close>\<close>

definition arrayBuffer :: "response \<Rightarrow> exn + string" where
  "arrayBuffer r =
     (case body r of
        None \<Rightarrow> Inr []
      | Some b \<Rightarrow> (case stream_error b of Some e \<Rightarrow> Inl e | None \<Rightarrow> Inr (concat (chunks b))))"

definition butlerPath :: "world \<Rightarrow> path" where
  "butlerPath w = META_DIRECTORY w @ [''tools'', ''butler'']"

definition binPath :: "world \<Rightarrow> path" where
  "binPath w = butlerPath w @ [if platform w = ''win32'' then ''butler.exe'' else ''butler'']"

definition zipPath :: "world \<Rightarrow> path" where
  "zipPath w = butlerPath w @ [''butler.zip'']"

text \<open>The part of \<open>installButler\<close> after the archive has arrived.\<close>

definition unpackButler :: "world \<Rightarrow> string \<Rightarrow> state \<Rightarrow> (exn + unit) \<times> state" where
  "unpackButler w zipData s =
     (case on_disk (writeFile (fault w) (zipPath w) zipData) s of
        (Inl e, s1) \<Rightarrow> (Inl e, s1)
      | (Inr u, s1) \<Rightarrow>
          (case effect (extract_zip w (zipPath w) (butlerPath w)) s1 of
             (Inl e, s2) \<Rightarrow> (Inl e, s2)
           | (Inr u, s2) \<Rightarrow>
               (case (if platform w \<noteq> ''win32''
                      then on_disk (chmodSync (fault w) (binPath w) 493) s2
                      else (Inr (), s2)) of
                  (Inl e, s3) \<Rightarrow> (Inl e, s3)
                | (Inr u, s3) \<Rightarrow> on_disk (unlinkSync (fault w) (zipPath w)) s3)))"

text \<open>The body of the \<open>try\<close> of \<open>installButler\<close>; both returns give \<open>binPath\<close>.\<close>

definition installButler_try :: "world \<Rightarrow> state \<Rightarrow> (exn + unit) \<times> state" where
  "installButler_try w s =
     (case ensure_dir w (butlerPath w) s of
        (Inl e, s1) \<Rightarrow> (Inl e, s1)
      | (Inr u, s1) \<Rightarrow>
          if existsSync (fsys s1) (binPath w) then (Inr (), s1)
          else
            (case butler_url (platform w) of
               None \<Rightarrow> (Inl (JsError (''Unsupported platform for butler: '' @ platform w)), s1)
             | Some downloadUrl \<Rightarrow>
                 let s2 = act (Fetch downloadUrl) s1 in
                 (case fetch w downloadUrl of
                    Inl e \<Rightarrow> (Inl e, s2)
                  | Inr r \<Rightarrow>
                      if \<not> ok r
                      then (Inl (JsError (''Failed to download Butler: '' @ statusText r)), s2)
                      else
                        (case arrayBuffer r of
                           Inl e \<Rightarrow> (Inl e, s2)
                         | Inr zipData \<Rightarrow> unpackButler w zipData s2))))"

definition installButler :: "world \<Rightarrow> state \<Rightarrow> path option \<times> state" where
  "installButler w s =
     (case installButler_try w s of
        (Inl e, s1) \<Rightarrow> (None, s1)
      | (Inr u, s1) \<Rightarrow> (Some (binPath w), s1))"

section \<open>install.ts, the orchestrator\<close>

text \<open>
  Lines 235 to 260 of \<open>installGame\<close>: the build that holds \<open>latest\<close> makes room for
  another one.
\<close>

definition retireLatest :: "world \<Rightarrow> path \<Rightarrow> GameVersion \<Rightarrow> state \<Rightarrow> (exn + unit) \<times> state" where
  "retireLatest w gameDir version s =
     (if vtype version = Release \<and> isLatest version = Some True then
        let latestDir = getLatestDir w gameDir in
        if existsSync (fsys s) latestDir then
          (case readInstallManifest w latestDir (fsys s) of
             None \<Rightarrow> (Inr (), s)
           | Some existing \<Rightarrow>
               if m_build_index existing \<noteq> build_index version then
                 let targetBuildDir = getReleaseBuildDir w gameDir (m_build_index existing) in
                 if existsSync (fsys s) targetBuildDir
                 then on_disk (rmSync (fault w) latestDir) s
                 else
                   (case on_disk (mkdirSync (fault w) (butlast targetBuildDir)) s of
                      (Inl e, s1) \<Rightarrow> (Inl e, s1)
                    | (Inr u, s1) \<Rightarrow> on_disk (renameSync (fault w) latestDir targetBuildDir) s1)
               else (Inr (), s))
        else (Inr (), s)
      else (Inr (), s))"

text \<open>Lines 273 to 278: the runtime is installed when the check did not find it.\<close>

definition ensureJRE :: "world \<Rightarrow> path \<Rightarrow> bool \<Rightarrow> state \<Rightarrow> (exn + unit) \<times> state" where
  "ensureJRE w gameDir found s =
     (if \<not> found then
        let r = installJRE w gameDir (fsys s);
            s1 = (act (RunInstallJRE gameDir) s)\<lparr>fsys := jre_disk r, sent := sent s @ jre_events r\<rparr>
        in (case jre_path r of
              None \<Rightarrow> (Inl (JsError ''Failed to install JRE''), s1)
            | Some jrePath \<Rightarrow> (Inr (), s1))
      else (Inr (), s))"

text \<open>
  Lines 298 to 308 (and 328 to 335): what follows \<open>applyPWR\<close>. An empty path stands for
  the empty string, which \<open>!gameFinalDir\<close> takes as a failure.
\<close>

definition afterApply ::
  "world \<Rightarrow> path \<Rightarrow> path \<Rightarrow> GameVersion \<Rightarrow> path \<Rightarrow> state \<Rightarrow> (exn + unit) \<times> state" where
  "afterApply w tempPath installDir version gameFinalDir s =
     (if gameFinalDir = [] then (Inl (JsError ''Failed to apply PWR''), s)
      else
        (case on_disk (unlinkSync (fault w) tempPath) s of
           (Inl e, s1) \<Rightarrow> (Inl e, s1)
         | (Inr u, s1) \<Rightarrow>
             (case effect (writeInstallManifest w installDir version) s1 of
                (Inl e, s2) \<Rightarrow> (Inl e, s2)
              | (Inr u, s2) \<Rightarrow> (Inr (), ensureClientExecutable w installDir s2))))"

text \<open>
  Lines 286 to 308, which lines 316 to 335 repeat: the patch tool is made available,
  the artifact is downloaded and applied.
\<close>

definition patchBuild ::
  "world \<Rightarrow> path \<Rightarrow> GameVersion \<Rightarrow> path \<Rightarrow> state \<Rightarrow> (exn + unit) \<times> state" where
  "patchBuild w gameDir version installDir s =
     (case installButler w s of
        (None, s1) \<Rightarrow> (Inl (JsError ''Failed to install butler''), s1)
      | (Some butler, s1) \<Rightarrow>
          (case downloadPWR w gameDir version s1 of
             (None, s2) \<Rightarrow> (Inl (JsError ''Failed to download PWR''), s2)
           | (Some tempPath, s2) \<Rightarrow>
               (case applyPWR w tempPath butler installDir s2 of
                  (Inl e, s3) \<Rightarrow> (Inl e, s3)
                | (Inr gameFinalDir, s3) \<Rightarrow>
                    afterApply w tempPath installDir version gameFinalDir s3)))"

text \<open>\<open>installedManifest?.build_index === version.build_index\<close>\<close>

definition alreadyOnThisBuild :: "InstallManifest option \<Rightarrow> GameVersion \<Rightarrow> bool" where
  "alreadyOnThisBuild installedManifest version =
     (case installedManifest of
        None \<Rightarrow> False
      | Some m \<Rightarrow> m_build_index m = build_index version)"

text \<open>The body of the \<open>try\<close> of \<open>installGame\<close>.\<close>

definition installGame_try :: "world \<Rightarrow> path \<Rightarrow> GameVersion \<Rightarrow> state \<Rightarrow> (exn + unit) \<times> state" where
  "installGame_try w gameDir version s =
     (case effect (migrateLegacyChannelInstallIfNeeded w gameDir (vtype version)) s of
        (Inl e, s1) \<Rightarrow> (Inl e, s1)
      | (Inr u, s1) \<Rightarrow>
          (case retireLatest w gameDir version s1 of
             (Inl e, s2) \<Rightarrow> (Inl e, s2)
           | (Inr u, s2) \<Rightarrow>
               let installDir = resolveInstallDir w gameDir version;
                   found = checkGameInstallation w gameDir version (fsys s2);
                   installedManifest = readInstallManifest w installDir (fsys s2)
               in
                 (case on_disk (mkdirSync (fault w) gameDir) s2 of
                    (Inl e, s3) \<Rightarrow> (Inl e, s3)
                  | (Inr u, s3) \<Rightarrow>
                      (case ensureJRE w gameDir (jre found) (send ''install-started'' NoPayload s3) of
                         (Inl e, s4) \<Rightarrow> (Inl e, s4)
                       | (Inr u, s4) \<Rightarrow>
                           if \<not> alreadyOnThisBuild installedManifest version
                           then patchBuild w gameDir version installDir s4
                           else if \<not> client found \<or> \<not> server found
                           then patchBuild w gameDir version installDir s4
                           else (Inr (), s4)))))"

definition installGame :: "world \<Rightarrow> path \<Rightarrow> GameVersion \<Rightarrow> state \<Rightarrow> bool \<times> state" where
  "installGame w gameDir version s =
     (case installGame_try w gameDir version s of
        (Inr u, s1) \<Rightarrow> (True, send ''install-finished'' (VersionPayload version) s1)
      | (Inl e, s1) \<Rightarrow> (False, send ''install-error'' (MessagePayload (message_of e)) s1))"

section \<open>onlinePatch.ts\<close>

definition normalizeHash :: "string \<Rightarrow> string" where
  "normalizeHash h = toUpperCase (trim h)"

definition sha256File :: "world \<Rightarrow> path \<Rightarrow> disk \<Rightarrow> exn + string" where
  "sha256File w filePath d =
     (case readFile (fault w) filePath d of
        Inl e \<Rightarrow> Inl e
      | Inr c \<Rightarrow> Inr (sha256 w c))"

definition getClientPath :: "world \<Rightarrow> path \<Rightarrow> GameVersion \<Rightarrow> path" where
  "getClientPath w gameDir version =
     gameDir @ [''game'', type_name (vtype version), ''Client'',
                if platform w = ''win32'' then ''HytaleClient.exe'' else ''HytaleClient'']"

text \<open>\<open>contentLength ? parseInt(contentLength, 10) : 0\<close>\<close>

definition patch_total :: "string option \<Rightarrow> total" where
  "patch_total h =
     (case h of
        None \<Rightarrow> Num 0
      | Some c \<Rightarrow>
          if c = [] then Num 0
          else (case parseInt10 c of None \<Rightarrow> NotANumber | Some n \<Rightarrow> Num n))"

text \<open>\<open>totalLength > 0\<close>\<close>

fun positive :: "total \<Rightarrow> bool" where
  "positive (Num n) = (n > 0)"
| "positive _ = False"

definition patch_event :: "total \<Rightarrow> int \<Rightarrow> nat \<Rightarrow> InstallProgress" where
  "patch_event t pc n =
     \<lparr>phase = ''online-patch'', percent = pc,
      total = (if positive t then t else Undefined), current = Some n\<rparr>"

definition patch_data_event :: "double_rounding \<Rightarrow> total \<Rightarrow> nat \<Rightarrow> InstallProgress" where
  "patch_data_event rd t n =
     patch_event t (case t of Num k \<Rightarrow> if k > 0 then ratio_percent rd n k else - 1 | _ \<Rightarrow> - 1) n"

text \<open>
  \<open>downloadFileWithProgress\<close>: the first event is sent before the pipeline starts, so
  that a window that has been destroyed ends the call there, with nothing written.
\<close>

definition downloadFileWithProgress ::
  "world \<Rightarrow> string \<Rightarrow> path \<Rightarrow> string \<Rightarrow> state \<Rightarrow> (exn + unit) \<times> state" where
  "downloadFileWithProgress w u outPath progressChannel s =
     (let s1 = act (Fetch u) s in
      case fetch w u of
        Inl e \<Rightarrow> (Inl e, s1)
      | Inr r \<Rightarrow>
          if \<not> ok r
          then (Inl (JsError (''Failed to download patch: '' @ show_nat (status r))), s1)
          else
            (case body r of
               None \<Rightarrow> (Inl (JsError ''No response body''), s1)
             | Some b \<Rightarrow>
                 let totalLength = patch_total (content_length r) in
                 (case win_send_progress w progressChannel
                         (patch_event totalLength (if positive totalLength then 0 else - 1) 0
                          # data_events (patch_data_event (rounding w) totalLength) 0 (chunks b)) s1 of
                    Inl e \<Rightarrow> (Inl e, s1)
                  | Inr s2 \<Rightarrow>
                      (case pipeline (fault w) b outPath (fsys s2) of
                         (Some e, d) \<Rightarrow> (Inl e, s2\<lparr>fsys := d\<rparr>)
                       | (None, d) \<Rightarrow>
                           (case win_send_progress w progressChannel
                                   [patch_event totalLength 100 (length (concat (chunks b)))]
                                   (s2\<lparr>fsys := d\<rparr>) of
                              Inl e \<Rightarrow> (Inl e, s2\<lparr>fsys := d\<rparr>)
                            | Inr s3 \<Rightarrow> (Inr (), s3))))))"

datatype patch_result = Patched | Skipped | UpToDate

definition tempPatchPath :: "world \<Rightarrow> path \<Rightarrow> GameVersion \<Rightarrow> path" where
  "tempPatchPath w clientPath version =
     butlast clientPath
     @ [''temp_online_patch_'' @ show_int (build_index version)
        @ (if platform w = ''win32'' then ''.exe'' else [])]"

text \<open>Lines 133 to 152: the verified file takes the place of the client.\<close>

definition replaceClient :: "world \<Rightarrow> path \<Rightarrow> path \<Rightarrow> state \<Rightarrow> (exn + patch_result) \<times> state" where
  "replaceClient w tempPath clientPath s =
     (let s1 = ignoring (unlinkSync (fault w) clientPath) s in
      case renameSync (fault w) tempPath clientPath (fsys s1) of
        Inr d \<Rightarrow> (Inr Patched, s1\<lparr>fsys := d\<rparr>)
      | Inl e \<Rightarrow>
          (case copyFileSync (fault w) tempPath clientPath (fsys s1) of
             Inl e' \<Rightarrow> (Inl e', s1)
           | Inr d \<Rightarrow> (Inr Patched, ignoring (unlinkSync (fault w) tempPath) (s1\<lparr>fsys := d\<rparr>))))"

text \<open>\<open>currentHash && normalizeHash(currentHash) === normalizeHash(expectedHash)\<close>\<close>

definition hash_matches :: "(exn + string) \<Rightarrow> string \<Rightarrow> bool" where
  "hash_matches currentHash expectedHash =
     (case currentHash of
        Inl e \<Rightarrow> False
      | Inr h \<Rightarrow> h \<noteq> [] \<and> normalizeHash h = normalizeHash expectedHash)"

text \<open>The body of the \<open>try\<close> of \<open>patchOnlineClientIfNeeded\<close>.\<close>

definition patchOnline_try ::
  "world \<Rightarrow> path \<Rightarrow> string \<Rightarrow> string \<Rightarrow> GameVersion \<Rightarrow> string \<Rightarrow> state
   \<Rightarrow> (exn + patch_result) \<times> state" where
  "patchOnline_try w clientPath u expectedHash version progressChannel s =
     (if hash_matches (sha256File w clientPath (fsys s)) expectedHash then (Inr UpToDate, s)
      else
        let tempPath = tempPatchPath w clientPath version in
        (case downloadFileWithProgress w u tempPath progressChannel s of
           (Inl e, s1) \<Rightarrow> (Inl e, s1)
         | (Inr x, s1) \<Rightarrow>
             (case sha256File w tempPath (fsys s1) of
                Inl e \<Rightarrow> (Inl e, s1)
              | Inr downloadedHash \<Rightarrow>
                  if normalizeHash downloadedHash \<noteq> normalizeHash expectedHash
                  then (Inl (JsError ''Patch hash mismatch (SHA256)''),
                        ignoring (unlinkSync (fault w) tempPath) s1)
                  else replaceClient w tempPath clientPath s1)))"

text \<open>
  The result is \<open>Inr\<close> for a promise that is resolved and \<open>Inl\<close> for one that is
  rejected. \<open>!url || !expectedHash\<close> holds of a field that is absent or the empty
  string. The \<open>send\<close> of the \<open>catch\<close> block is outside any \<open>try\<close>: what it throws
  rejects the promise.
\<close>

definition patchOnlineClientIfNeeded ::
  "world \<Rightarrow> path \<Rightarrow> GameVersion \<Rightarrow> string \<Rightarrow> state \<Rightarrow> (exn + patch_result) \<times> state" where
  "patchOnlineClientIfNeeded w gameDir version progressChannel s =
     (if platform w \<noteq> ''win32'' then (Inr Skipped, s)
      else
        (case patch_url version of
           None \<Rightarrow> (Inr Skipped, s)
         | Some u \<Rightarrow>
             (case patch_hash version of
                None \<Rightarrow> (Inr Skipped, s)
              | Some expectedHash \<Rightarrow>
                  if u = [] \<or> expectedHash = [] then (Inr Skipped, s)
                  else
                    let clientPath = getClientPath w gameDir version in
                    if \<not> existsSync (fsys s) clientPath then (Inr Skipped, s)
                    else
                      (case patchOnline_try w clientPath u expectedHash version progressChannel s of
                         (Inr r, s1) \<Rightarrow> (Inr r, s1)
                       | (Inl e, s1) \<Rightarrow>
                           (case win_send w ''online-patch-error''
                                   (MessagePayload (message_of e)) s1 of
                              Inl e' \<Rightarrow> (Inl e', s1)
                            | Inr s2 \<Rightarrow> (Inr Skipped, s2))))))"

section \<open>Observing a run\<close>

text \<open>
  \<open>with_exit_code c w\<close> is the environment \<open>w\<close> in which the patch tool, whenever it
  closes, reports the exit code \<open>c\<close>.
\<close>

definition exit_with :: "int option \<Rightarrow> spawn_result \<Rightarrow> spawn_result" where
  "exit_with c r = (case r of SpawnFailed e \<Rightarrow> SpawnFailed e | Closed c0 ls d \<Rightarrow> Closed c ls d)"

definition with_exit_code :: "int option \<Rightarrow> world \<Rightarrow> world" where
  "with_exit_code c w = w\<lparr>spawn := \<lambda>bin args d. exit_with c (spawn w bin args d)\<rparr>"

text \<open>The events a call has added to those sent before it.\<close>

definition emitted :: "state \<Rightarrow> state \<Rightarrow> event list" where
  "emitted s s' = drop (length (sent s)) (sent s')"

text \<open>The subprocesses among the actions of a run.\<close>

fun is_spawn :: "action \<Rightarrow> bool" where
  "is_spawn (Spawn b a) = True"
| "is_spawn (Fetch u) = False"
| "is_spawn (RunInstallJRE g) = False"

text \<open>
  A percentage is in range when it is \<open>- 1\<close> or at least 0, and at most 100 whenever the
  bytes so far do not exceed a known total.
\<close>

definition percent_in_range :: "InstallProgress \<Rightarrow> bool" where
  "percent_in_range p =
     (percent p = - 1
      \<or> 0 \<le> percent p
        \<and> (\<forall>n t. current p = Some n \<and> total p = Num t \<and> int n \<le> t \<longrightarrow> percent p \<le> 100))"

text \<open>The percentages of the progress events in a list of events.\<close>

definition percents :: "event list \<Rightarrow> int list" where
  "percents es =
     concat (map (\<lambda>e. case snd e of ProgressPayload p \<Rightarrow> [percent p] | _ \<Rightarrow> []) es)"

text \<open>
  The decision of section 4.6, step 4, in the words of the specification: patching is
  required if the manifest's build index differs from the target's, or if the manifest
  matches but the client or the server is missing. No manifest is a manifest that differs.
\<close>

definition spec_patch_required :: "world \<Rightarrow> path \<Rightarrow> GameVersion \<Rightarrow> disk \<Rightarrow> bool" where
  "spec_patch_required w g v d =
     (case readInstallManifest w (resolveInstallDir w g v) d of
        None \<Rightarrow> True
      | Some m \<Rightarrow>
          m_build_index m \<noteq> build_index v
          \<or> m_build_index m = build_index v
            \<and> (\<not> client (checkGameInstallation w g v d) \<or> \<not> server (checkGameInstallation w g v d)))"

section \<open>Example inputs\<close>

text \<open>A line of the patch tool and a parser that knows it.\<close>

definition parse0 :: "string \<Rightarrow> json option" where
  "parse0 t =
     (if t = ''{\"type\":\"Progress\",\"progress\":0.5}''
      then Some (JObj [(''type'', JStr ''Progress''), (''progress'', JNum (Fin (1 / 2)))])
      else None)"

definition line0 :: string where
  "line0 = ''  {\"type\":\"Progress\",\"progress\":0.5} ''"

text \<open>
  An environment on Linux. The layout is the one of section 6 of the specification:
  \<open>game/release/latest\<close> and \<open>game/<type>/build-N\<close> under the game directory. The
  manifest is the file \<open>manifest.json\<close> of the install directory, holding the build
  index. The patch tool writes the client and the server and exits with code 0. The
  numbers met in the examples have products and quotients that are doubles, and the
  window is there.
\<close>

definition demo_version :: GameVersion where
  "demo_version =
     \<lparr>url = ''https://x/b3.patch'', vtype = Release, build_index = 3, build_name = ''b3'',
      isLatest = Some True, patch_url = None, patch_hash = None, original_url = None,
      patch_note = None, installed = None\<rparr>"

definition demo_response :: response where
  "demo_response =
     \<lparr>ok = True, status = 200, statusText = ''OK'', content_length = Some ''10'',
      body = Some \<lparr>chunks = [''abcde'', ''fghij''], stream_error = None\<rparr>\<rparr>"

definition demo_latest :: "path \<Rightarrow> path" where
  "demo_latest g = g @ [''game'', ''release'', ''latest'']"

definition demo_build :: "path \<Rightarrow> VersionType \<Rightarrow> int \<Rightarrow> path" where
  "demo_build g t n = g @ [''game'', type_name t, ''build-'' @ show_int n]"

definition demo_install_dir :: "path \<Rightarrow> GameVersion \<Rightarrow> path" where
  "demo_install_dir g v =
     (if vtype v = Release \<and> isLatest v = Some True then demo_latest g
      else demo_build g (vtype v) (build_index v))"

definition demo_client :: "path \<Rightarrow> path" where
  "demo_client dir = dir @ [''Client'', ''HytaleClient'']"

definition demo_server :: "path \<Rightarrow> path" where
  "demo_server dir = dir @ [''Server'', ''HytaleServer.jar'']"

definition demo_read :: "path \<Rightarrow> disk \<Rightarrow> InstallManifest option" where
  "demo_read dir d =
     (case d (dir @ [''manifest.json'']) of
        Some (File c m) \<Rightarrow>
          (case parseInt10 c of
             Some n \<Rightarrow> Some \<lparr>m_build_index = n, m_build_name = None\<rparr>
           | None \<Rightarrow> None)
      | _ \<Rightarrow> None)"

definition demo_write :: "path \<Rightarrow> GameVersion \<Rightarrow> disk_effect" where
  "demo_write dir v d = (None, d(dir @ [''manifest.json''] \<mapsto> File (show_int (build_index v)) 420))"

definition demo_check :: "path \<Rightarrow> GameVersion \<Rightarrow> disk \<Rightarrow> check" where
  "demo_check g v d =
     \<lparr>client = (d (demo_client (demo_install_dir g v)) \<noteq> None),
      server = (d (demo_server (demo_install_dir g v)) \<noteq> None),
      jre = (d (g @ [''jre'']) \<noteq> None)\<rparr>"

definition demo_tool :: "int option \<Rightarrow> bool \<Rightarrow> path \<Rightarrow> arg list \<Rightarrow> disk \<Rightarrow> spawn_result" where
  "demo_tool code delivers bin args d =
     (case args of
        [a, j, t, PathArg staging, PathArg pwr, PathArg dir] \<Rightarrow>
          Closed code [line0, ''butler: warming up'']
            (if delivers
             then d(dir @ [''Client''] \<mapsto> Dir, demo_client dir \<mapsto> File ''client'' 420,
                    dir @ [''Server''] \<mapsto> Dir, demo_server dir \<mapsto> File ''server'' 420)
             else d)
      | _ \<Rightarrow> SpawnFailed (JsError ''usage''))"

definition demo_jre :: "path \<Rightarrow> disk \<Rightarrow> jre_result" where
  "demo_jre g d = \<lparr>jre_path = Some (g @ [''jre'']), jre_disk = d(g @ [''jre''] \<mapsto> Dir), jre_events = []\<rparr>"

definition demo :: world where
  "demo =
     \<lparr>platform = ''linux'',
      fault = (\<lambda>op. None),
      fetch = (\<lambda>u. if u = ''https://x/b3.patch'' then Inr demo_response
                     else Inl (JsError ''fetch failed'')),
      spawn = demo_tool (Some 0) True,
      JSON_parse = parse0,
      rounding = exact_rounding,
      window_destroyed = False,
      sha256 = (\<lambda>c. c),
      META_DIRECTORY = [''meta''],
      extract_zip = (\<lambda>z dir d. (None, d(dir @ [''butler''] \<mapsto> File ''elf'' 420))),
      migrateLegacyChannelInstallIfNeeded = (\<lambda>g t d. (None, d)),
      getLatestDir = demo_latest,
      getReleaseBuildDir = (\<lambda>g n. demo_build g Release n),
      resolveInstallDir = demo_install_dir,
      resolveClientPath = (\<lambda>dir d. Inr (demo_client dir)),
      readInstallManifest = demo_read,
      writeInstallManifest = demo_write,
      checkGameInstallation = demo_check,
      installJRE = demo_jre\<rparr>"

text \<open>A disk that holds the patch tool and nothing of the game, and a game directory.\<close>

definition disk0 :: disk where
  "disk0 =
     [[] \<mapsto> Dir, [''meta''] \<mapsto> Dir, [''meta'', ''tools''] \<mapsto> Dir,
      [''meta'', ''tools'', ''butler''] \<mapsto> Dir,
      [''meta'', ''tools'', ''butler'', ''butler''] \<mapsto> File ''elf'' 493]"

definition state0 :: state where
  "state0 = \<lparr>fsys = disk0, sent = [], acts = []\<rparr>"

definition game :: path where
  "game = [''hytale'']"

text \<open>The same environment with a patch tool that exits with code 1.\<close>

definition demo_failing :: world where
  "demo_failing = demo\<lparr>spawn := demo_tool (Some 1) True\<rparr>"

text \<open>
  The same environment on Windows, serving a replacement for the client whose hash (the
  identity here) is not the expected one; a version that asks for the hot patch; a disk
  holding a client with the content \<open>c\<close>.
\<close>

definition patch_response :: response where
  "patch_response =
     \<lparr>ok = True, status = 200, statusText = ''OK'', content_length = Some ''3'',
      body = Some \<lparr>chunks = [''bad''], stream_error = None\<rparr>\<rparr>"

definition demo_win :: world where
  "demo_win =
     demo\<lparr>platform := ''win32'',
          fetch := (\<lambda>u. if u = ''https://x/client.exe'' then Inr patch_response
                         else Inl (JsError ''fetch failed''))\<rparr>"

definition patch_version :: GameVersion where
  "patch_version = demo_version\<lparr>patch_url := Some ''https://x/client.exe'', patch_hash := Some ''new''\<rparr>"

definition client_exe :: path where
  "client_exe = [''hytale'', ''game'', ''release'', ''Client'', ''HytaleClient.exe'']"

definition temp_exe :: path where
  "temp_exe = [''hytale'', ''game'', ''release'', ''Client'', ''temp_online_patch_3.exe'']"

definition state_win :: "string \<Rightarrow> state" where
  "state_win c =
     \<lparr>fsys = disk0([''hytale''] \<mapsto> Dir, [''hytale'', ''game''] \<mapsto> Dir,
               [''hytale'', ''game'', ''release''] \<mapsto> Dir,
               [''hytale'', ''game'', ''release'', ''Client''] \<mapsto> Dir,
               client_exe \<mapsto> File c 420),
      sent = [], acts = []\<rparr>"

text \<open>The same environment on Windows once the window has been destroyed.\<close>

definition demo_win_closed :: world where
  "demo_win_closed = demo_win\<lparr>window_destroyed := True\<rparr>"

text \<open>The operating system refuses to unlink the path \<open>p\<close>.\<close>

definition busy :: "path \<Rightarrow> faults" where
  "busy p op = (if op = OpUnlink p then Some (JsError ''EBUSY'') else None)"

text \<open>A version whose replacement cannot be fetched, and an environment that refuses to unlink the downloaded file.\<close>

definition gone_version :: GameVersion where
  "gone_version = patch_version\<lparr>patch_url := Some ''https://x/gone.exe''\<rparr>"

definition demo_win_busy :: world where
  "demo_win_busy = demo_win\<lparr>fault := busy temp_exe\<rparr>"

text \<open>
  A response that announces 10 bytes and delivers 20, and one whose stream breaks after
  5 of 10 bytes.
\<close>

definition long_response :: response where
  "long_response =
     \<lparr>ok = True, status = 200, statusText = ''OK'', content_length = Some ''10'',
      body = Some \<lparr>chunks = [''abcdefghijklmnopqrst''], stream_error = None\<rparr>\<rparr>"

definition broken_response :: response where
  "broken_response =
     \<lparr>ok = True, status = 200, statusText = ''OK'', content_length = Some ''10'',
      body = Some \<lparr>chunks = [''abcde''], stream_error = Some (JsError ''aborted'')\<rparr>\<rparr>"

definition demo_long :: world where
  "demo_long = demo\<lparr>fetch := (\<lambda>u. Inr long_response)\<rparr>"

definition demo_broken :: world where
  "demo_broken = demo\<lparr>fetch := (\<lambda>u. Inr broken_response)\<rparr>"

text \<open>The game directory is there.\<close>

definition state1 :: state where
  "state1 = \<lparr>fsys = disk0([''hytale''] \<mapsto> Dir), sent = [], acts = []\<rparr>"

text \<open>
  A disk on which \<open>latest\<close> holds build 5, the same with the directory of build 5 also
  there, a release and a pre-release that are both the latest of their kind and have the
  build index 6.
\<close>

definition disk5 :: disk where
  "disk5 =
     disk0([''hytale''] \<mapsto> Dir, [''hytale'', ''game''] \<mapsto> Dir,
           [''hytale'', ''game'', ''release''] \<mapsto> Dir,
           [''hytale'', ''game'', ''release'', ''latest''] \<mapsto> Dir,
           [''hytale'', ''game'', ''release'', ''latest'', ''manifest.json''] \<mapsto> File ''5'' 420)"

definition state5 :: state where
  "state5 = \<lparr>fsys = disk5, sent = [], acts = []\<rparr>"

definition state55 :: state where
  "state55 =
     \<lparr>fsys = disk5([''hytale'', ''game'', ''release'', ''build-5''] \<mapsto> Dir,
                  [''hytale'', ''game'', ''release'', ''build-5'', ''kept''] \<mapsto> File ''canonical'' 420),
      sent = [], acts = []\<rparr>"

definition release6 :: GameVersion where
  "release6 = demo_version\<lparr>build_index := 6\<rparr>"

definition prerelease6 :: GameVersion where
  "prerelease6 = demo_version\<lparr>vtype := PreRelease, build_index := 6\<rparr>"

text \<open>
  The environment in which the operating system refuses to unlink the downloaded
  artifact, and the one in which it refuses to read or change the mode of the client.
\<close>

definition demo_busy :: world where
  "demo_busy = demo\<lparr>fault := busy (tempPWRPath game demo_version)\<rparr>"

definition demo_no_chmod :: world where
  "demo_no_chmod =
     demo\<lparr>fault := (\<lambda>op. if op = OpChmod (demo_client (demo_latest game)) 493
                           then Some (JsError ''EPERM'') else None)\<rparr>"

text \<open>
  An environment whose runtime installer fails, and a disk that holds build 3 with its
  manifest, client and server, and no runtime.
\<close>

definition demo_nojre :: world where
  "demo_nojre = demo\<lparr>installJRE := (\<lambda>g d. \<lparr>jre_path = None, jre_disk = d, jre_events = []\<rparr>)\<rparr>"

definition state3 :: state where
  "state3 =
     \<lparr>fsys = disk0([''hytale''] \<mapsto> Dir, [''hytale'', ''game''] \<mapsto> Dir,
                  [''hytale'', ''game'', ''release''] \<mapsto> Dir,
                  [''hytale'', ''game'', ''release'', ''latest''] \<mapsto> Dir,
                  [''hytale'', ''game'', ''release'', ''latest'', ''manifest.json''] \<mapsto> File ''3'' 420,
                  [''hytale'', ''game'', ''release'', ''latest'', ''Client''] \<mapsto> Dir,
                  [''hytale'', ''game'', ''release'', ''latest'', ''Client'', ''HytaleClient'']
                    \<mapsto> File ''client'' 493,
                  [''hytale'', ''game'', ''release'', ''latest'', ''Server''] \<mapsto> Dir,
                  [''hytale'', ''game'', ''release'', ''latest'', ''Server'', ''HytaleServer.jar'']
                    \<mapsto> File ''server'' 420),
      sent = [], acts = []\<rparr>"

text \<open>An environment whose patch tool exits with code 1 and writes nothing.\<close>

definition demo_empty :: world where
  "demo_empty = demo\<lparr>spawn := demo_tool (Some 1) False\<rparr>"

section \<open>Properties of the line handler\<close>

lemma number_of_Some_iff: "number_of x = Some n \<longleftrightarrow> x = Some (JNum n)"
  by (cases x rule: number_of.cases) auto

lemma number_of_None_iff: "number_of x = None \<longleftrightarrow> (\<forall>n. x \<noteq> Some (JNum n))"
  by (cases x rule: number_of.cases) auto

lemma nearest_mono: "x \<le> y \<Longrightarrow> nearest rd x \<le> nearest rd y"
  using Rep_double_rounding [of rd] by (simp add: nearest_def mono_def)

lemma nearest_fixed [simp]: "nearest rd 0 = 0" "nearest rd 1 = 1" "nearest rd 100 = 100"
  using Rep_double_rounding [of rd] by (simp_all add: nearest_def)

lemma nearest_exact [simp]: "nearest exact_rounding x = x"
  by (simp add: nearest_def exact_rounding_def Abs_double_rounding_inverse mono_def)

lemma normalize_percent_range:
  "p \<noteq> NaN \<Longrightarrow> 0 \<le> normalize_percent rd p \<and> normalize_percent rd p \<le> 100"
  by (cases p) (auto simp: normalize_percent_def Math_round_def split: if_splits; linarith)+

lemma on_line_Some_iff:
  "on_line w line = Some k \<longleftrightarrow>
     (trim line \<noteq> [] \<and>
      (\<exists>obj v. JSON_parse w (trim line) = Some obj \<and> isProgress obj \<and> line_percent obj = Some v
         \<and> v \<noteq> NaN \<and> k = normalize_percent (rounding w) v))"
  by (auto simp: on_line_def Let_def split: option.splits jsnum.splits)

lemma line_percent_Some_iff:
  "line_percent obj = Some v \<longleftrightarrow>
     (js_get obj ''percentage'' = Some (JNum v)
      \<or> (\<forall>n. js_get obj ''percentage'' \<noteq> Some (JNum n)) \<and> js_get obj ''percent'' = Some (JNum v)
      \<or> (\<forall>n. js_get obj ''percentage'' \<noteq> Some (JNum n))
          \<and> (\<forall>n. js_get obj ''percent'' \<noteq> Some (JNum n))
          \<and> js_get obj ''progress'' = Some (JNum v))"
  by (auto simp: line_percent_def number_of_Some_iff number_of_None_iff split: option.splits)

lemma normalize_percent_Fin:
  "normalize_percent rd (Fin r)
     = \<lfloor>max 0 (min 100 (if 0 < r \<and> r \<le> 1 then nearest rd (r * 100) else r)) + 1 / 2\<rfloor>"
  by (simp add: normalize_percent_def Math_round_def)

section \<open>Evaluating the example\<close>

lemma show3: "show_int 3 = ''3''"
  by (simp add: show_int_def show_nat.simps [of 3] digit_char_def)

lemmas demo_defs = demo_def demo_version_def demo_response_def demo_latest_def demo_build_def
  demo_install_dir_def demo_client_def demo_server_def demo_read_def demo_write_def demo_check_def
  demo_tool_def demo_jre_def disk0_def state0_def game_def

lemmas run_defs = installGame_def installGame_try_def effect_def retireLatest_def on_disk_def
  ensureJRE_def patchBuild_def installButler_def installButler_try_def ensure_dir_def
  existsSync_def mkdirSync_def butlerPath_def binPath_def downloadPWR_def act_def send_def
  send_progress_def pipeline_def writeFile_def tempPWRPath_def applyPWR_def butler_args_def
  afterApply_def unlinkSync_def ensureClientExecutable_def ensureExecutable_def statSync_def
  chmodSync_def ignoring_def alreadyOnThisBuild_def pwr_total_def pwr_event_def pwr_data_event_def

section \<open>The exit code of the patch tool\<close>

lemma with_exit_code_fields [simp]:
  "platform (with_exit_code c w) = platform w"
  "fault (with_exit_code c w) = fault w"
  "fetch (with_exit_code c w) = fetch w"
  "JSON_parse (with_exit_code c w) = JSON_parse w"
  "rounding (with_exit_code c w) = rounding w"
  "window_destroyed (with_exit_code c w) = window_destroyed w"
  "sha256 (with_exit_code c w) = sha256 w"
  "META_DIRECTORY (with_exit_code c w) = META_DIRECTORY w"
  "extract_zip (with_exit_code c w) = extract_zip w"
  "migrateLegacyChannelInstallIfNeeded (with_exit_code c w) = migrateLegacyChannelInstallIfNeeded w"
  "getLatestDir (with_exit_code c w) = getLatestDir w"
  "getReleaseBuildDir (with_exit_code c w) = getReleaseBuildDir w"
  "resolveInstallDir (with_exit_code c w) = resolveInstallDir w"
  "resolveClientPath (with_exit_code c w) = resolveClientPath w"
  "readInstallManifest (with_exit_code c w) = readInstallManifest w"
  "writeInstallManifest (with_exit_code c w) = writeInstallManifest w"
  "checkGameInstallation (with_exit_code c w) = checkGameInstallation w"
  "installJRE (with_exit_code c w) = installJRE w"
  "spawn (with_exit_code c w) bin args d = exit_with c (spawn w bin args d)"
  by (simp_all add: with_exit_code_def)

lemma ensure_dir_exit [simp]: "ensure_dir (with_exit_code c w) = ensure_dir w"
  by (intro ext) (simp add: ensure_dir_def Let_def cong: sum.case_cong option.case_cong prod.case_cong if_cong)

lemma on_line_exit [simp]: "on_line (with_exit_code c w) = on_line w"
  by (intro ext) (simp add: on_line_def Let_def split: option.splits jsnum.splits)

lemma line_events_exit [simp]: "line_events (with_exit_code c w) = line_events w"
  by (intro ext) (simp add: line_events_def Let_def cong: sum.case_cong option.case_cong prod.case_cong if_cong)

lemma applyPWR_exit [simp]: "applyPWR (with_exit_code c w) = applyPWR w"
  by (intro ext) (simp add: applyPWR_def exit_with_def Let_def split: spawn_result.splits sum.splits prod.splits)

lemma ensureExecutable_exit [simp]: "ensureExecutable (with_exit_code c w) = ensureExecutable w"
  by (intro ext) (simp add: ensureExecutable_def Let_def cong: sum.case_cong option.case_cong prod.case_cong if_cong)

lemma ensureClientExecutable_exit [simp]:
  "ensureClientExecutable (with_exit_code c w) = ensureClientExecutable w"
  by (intro ext) (simp add: ensureClientExecutable_def Let_def cong: sum.case_cong option.case_cong prod.case_cong if_cong)

lemma downloadPWR_exit [simp]: "downloadPWR (with_exit_code c w) = downloadPWR w"
  by (intro ext) (simp add: downloadPWR_def Let_def cong: sum.case_cong option.case_cong prod.case_cong if_cong)

lemma butler_paths_exit [simp]:
  "butlerPath (with_exit_code c w) = butlerPath w"
  "binPath (with_exit_code c w) = binPath w"
  "zipPath (with_exit_code c w) = zipPath w"
  by (simp_all add: butlerPath_def binPath_def zipPath_def)

lemma unpackButler_exit [simp]: "unpackButler (with_exit_code c w) = unpackButler w"
  by (intro ext) (simp add: unpackButler_def Let_def cong: sum.case_cong option.case_cong prod.case_cong if_cong)

lemma installButler_try_exit [simp]: "installButler_try (with_exit_code c w) = installButler_try w"
  by (intro ext) (simp add: installButler_try_def Let_def cong: sum.case_cong option.case_cong prod.case_cong if_cong)

lemma installButler_exit [simp]: "installButler (with_exit_code c w) = installButler w"
  by (intro ext) (simp add: installButler_def Let_def cong: sum.case_cong option.case_cong prod.case_cong if_cong)

lemma afterApply_exit [simp]: "afterApply (with_exit_code c w) = afterApply w"
  by (intro ext) (simp add: afterApply_def Let_def cong: sum.case_cong option.case_cong prod.case_cong if_cong)

lemma patchBuild_exit [simp]: "patchBuild (with_exit_code c w) = patchBuild w"
  by (intro ext) (simp add: patchBuild_def Let_def cong: sum.case_cong option.case_cong prod.case_cong if_cong)

lemma retireLatest_exit [simp]: "retireLatest (with_exit_code c w) = retireLatest w"
  by (intro ext) (simp add: retireLatest_def Let_def cong: sum.case_cong option.case_cong prod.case_cong if_cong)

lemma ensureJRE_exit [simp]: "ensureJRE (with_exit_code c w) = ensureJRE w"
  by (intro ext) (simp add: ensureJRE_def Let_def cong: sum.case_cong option.case_cong prod.case_cong if_cong)

lemma installGame_exit: "installGame (with_exit_code c w) = installGame w"
  by (intro ext) (simp add: installGame_def installGame_try_def Let_def cong: sum.case_cong option.case_cong prod.case_cong if_cong)

text \<open>
  C2: once the directories are there and the patch tool has started, \<open>applyPWR\<close> resolves
  with the install directory when the tool closes, whatever the exit code, and the last
  event it has sent is the \<open>patching\<close> event with \<open>percent = 100\<close>. The exit code
  reaches nothing: \<open>applyPWR\<close> and the whole of \<open>installGame\<close> do the same in the
  environment where the tool reports any other code. What the orchestrator does next does
  not look at it either: once the artifact is unlinked, the manifest is written and the
  executable bit restored, after a failing exit as after a clean one.
\<close>

theorem applyPWR_exit_code_not_fatal:
  assumes "fst (ensure_dir w installDir s) = Inr ()"
      and "fst (ensure_dir w (installDir @ [''staging-temp'']) (snd (ensure_dir w installDir s))) = Inr ()"
      and "spawn w butler (butler_args (installDir @ [''staging-temp'']) pwrPath installDir)
             (fsys (snd (ensure_dir w (installDir @ [''staging-temp''])
                (snd (ensure_dir w installDir s)))))
           = Closed code ls d"
  shows "fst (applyPWR w pwrPath butler installDir s) = Inr installDir
       \<and> last (sent (snd (applyPWR w pwrPath butler installDir s)))
           = (''install-progress'', ProgressPayload (patching_event 100))
       \<and> fsys (snd (applyPWR w pwrPath butler installDir s)) = d
       \<and> applyPWR (with_exit_code c w) pwrPath butler installDir s
           = applyPWR w pwrPath butler installDir s
       \<and> installGame (with_exit_code c w) gameDir version s0 = installGame w gameDir version s0
       \<and> (installDir \<noteq> [] \<and> unlinkSync (fault w) pwrPath d = Inr d1
            \<and> writeInstallManifest w installDir version d1 = (None, d2)
          \<longrightarrow> afterApply w pwrPath installDir version installDir
                (snd (applyPWR w pwrPath butler installDir s))
              = (Inr (), ensureClientExecutable w installDir
                           ((snd (applyPWR w pwrPath butler installDir s))\<lparr>fsys := d2\<rparr>)))"
proof -
  obtain s1 where s1: "ensure_dir w installDir s = (Inr (), s1)"
    using assms(1) by (cases "ensure_dir w installDir s") auto
  obtain s2 where s2: "ensure_dir w (installDir @ [''staging-temp'']) s1 = (Inr (), s2)"
    using assms(2) s1 by (cases "ensure_dir w (installDir @ [''staging-temp'']) s1") auto
  have run: "applyPWR w pwrPath butler installDir s =
      (Inr installDir,
       send_progress ''install-progress'' (line_events w ls @ [patching_event 100])
         ((act (Spawn butler (butler_args (installDir @ [''staging-temp'']) pwrPath installDir))
            (send_progress ''install-progress'' [patching_event (- 1)] s2))\<lparr>fsys := d\<rparr>))"
    using assms(3) s1 s2 by (simp add: applyPWR_def Let_def act_def send_progress_def)
  show ?thesis
    by (simp add: run send_progress_def installGame_exit afterApply_def on_disk_def effect_def)
qed

theorem applyPWR_exit_code_not_fatal_witness:
  "spawn demo_failing (binPath demo_failing)
     (butler_args (demo_latest game @ [''staging-temp'']) (tempPWRPath game demo_version)
        (demo_latest game))
     (fsys (snd (ensure_dir demo_failing (demo_latest game @ [''staging-temp''])
        (snd (ensure_dir demo_failing (demo_latest game) state0)))))
   = Closed (Some 1) [line0, ''butler: warming up'']
       (fsys (snd (applyPWR demo_failing (tempPWRPath game demo_version) (binPath demo_failing)
          (demo_latest game) state0)))
   \<and> fst (applyPWR demo_failing (tempPWRPath game demo_version) (binPath demo_failing)
        (demo_latest game) state0) = Inr (demo_latest game)
   \<and> last (sent (snd (applyPWR demo_failing (tempPWRPath game demo_version) (binPath demo_failing)
        (demo_latest game) state0)))
       = (''install-progress'', ProgressPayload (patching_event 100))
   \<and> fst (installGame demo_failing game demo_version state0) = True
   \<and> readInstallManifest demo_failing (demo_latest game)
        (fsys (snd (installGame demo_failing game demo_version state0)))
       = Some \<lparr>m_build_index = 3, m_build_name = None\<rparr>"
proof -
  let ?dir = "demo_latest game"
  let ?args = "butler_args (?dir @ [''staging-temp'']) (tempPWRPath game demo_version) ?dir"
  let ?s2 = "snd (ensure_dir demo_failing (?dir @ [''staging-temp''])
                (snd (ensure_dir demo_failing ?dir state0)))"
  have d1: "fst (ensure_dir demo_failing ?dir state0) = Inr ()"
    by (simp add: demo_failing_def run_defs demo_defs is_file_def)
  have d2: "fst (ensure_dir demo_failing (?dir @ [''staging-temp''])
              (snd (ensure_dir demo_failing ?dir state0))) = Inr ()"
    by (simp add: demo_failing_def run_defs demo_defs is_file_def)
  obtain d where sp: "spawn demo_failing (binPath demo_failing) ?args (fsys ?s2)
      = Closed (Some 1) [line0, ''butler: warming up''] d"
    by (simp add: demo_failing_def demo_def demo_tool_def butler_args_def)
  note th = applyPWR_exit_code_not_fatal [OF d1 d2 sp, of "Some 0" game demo_version state0]
  have run: "fst (installGame demo_failing game demo_version state0) = True"
    by (simp add: demo_failing_def run_defs demo_defs show3 Let_def is_file_def)
  have man: "readInstallManifest demo_failing ?dir
        (fsys (snd (installGame demo_failing game demo_version state0)))
       = Some \<lparr>m_build_index = 3, m_build_name = None\<rparr>"
    by (simp add: demo_failing_def run_defs demo_defs show3 Let_def is_file_def parseInt10_def
          is_space_def digit_of_def digits_value_def)
  show ?thesis
    using th sp run man by simp
qed


section \<open>The hot patch\<close>

lemma is_space_upper_char: "is_space (upper_char c) = is_space c"
  by (simp add: is_space_def upper_char_def split: option.splits if_splits)

lemma trim_toUpperCase: "trim (toUpperCase s) = toUpperCase (trim s)"
proof -
  have comp: "is_space \<circ> upper_char = is_space"
    by (rule ext) (simp add: is_space_upper_char)
  show ?thesis
    by (simp add: trim_def toUpperCase_def dropWhile_map rev_map comp)
qed

lemma normalizeHash_caseless:
  "toUpperCase a = toUpperCase b \<Longrightarrow> normalizeHash a = normalizeHash b"
  by (simp add: normalizeHash_def trim_toUpperCase [symmetric])

lemma sha256File_Inr:
  "sha256File w p d = Inr h \<Longrightarrow> \<exists>c m. d p = Some (File c m) \<and> h = sha256 w c \<and> fault w (OpRead p) = None"
  by (auto simp: sha256File_def readFile_def split: option.splits node.splits sum.splits)



lemma skipped_other_platform: "platform w \<noteq> ''win32'' \<Longrightarrow> patchOnlineClientIfNeeded w g v ch s = (Inr Skipped, s)"
  by (simp add: patchOnlineClientIfNeeded_def)

lemma skipped_without_metadata: "patch_url v = None \<or> patch_url v = Some [] \<or> patch_hash v = None \<or> patch_hash v = Some []
   \<Longrightarrow> patchOnlineClientIfNeeded w g v ch s = (Inr Skipped, s)"
  by (auto simp: patchOnlineClientIfNeeded_def split: option.splits)


lemma skipped_without_client: "\<not> existsSync (fsys s) (getClientPath w g v)
   \<Longrightarrow> patchOnlineClientIfNeeded w g v ch s = (Inr Skipped, s)"
  by (simp add: patchOnlineClientIfNeeded_def split: option.splits)

lemma win_send_alive [simp]: "\<not> window_destroyed w \<Longrightarrow> win_send w ch p s = Inr (send ch p s)"
  by (simp add: win_send_def)

lemma win_send_closed [simp]: "window_destroyed w \<Longrightarrow> win_send w ch p s = Inl destroyed_error"
  by (simp add: win_send_def)

lemma win_send_progress_alive [simp]:
  "\<not> window_destroyed w \<Longrightarrow> win_send_progress w ch ps s = Inr (send_progress ch ps s)"
  by (simp add: win_send_progress_def)

lemma win_send_progress_closed [simp]:
  "window_destroyed w \<Longrightarrow> win_send_progress w ch ps s = Inl destroyed_error"
  by (simp add: win_send_progress_def)

lemma guarded_run:
  assumes "platform w = ''win32''" "patch_url v = Some u" "u \<noteq> []" "patch_hash v = Some h" "h \<noteq> []"
    and "existsSync (fsys s) (getClientPath w g v)"
  shows "patchOnlineClientIfNeeded w g v ch s =
     (case patchOnline_try w (getClientPath w g v) u h v ch s of
        (Inr r, s1) \<Rightarrow> (Inr r, s1)
      | (Inl e, s1) \<Rightarrow>
          (case win_send w ''online-patch-error'' (MessagePayload (message_of e)) s1 of
             Inl e' \<Rightarrow> (Inl e', s1)
           | Inr s2 \<Rightarrow> (Inr Skipped, s2)))"
  using assms by (simp add: patchOnlineClientIfNeeded_def)

lemmas win_defs = demo_win_def patch_version_def patch_response_def client_exe_def temp_exe_def
  state_win_def busy_def

lemmas patch_defs = patchOnlineClientIfNeeded_def patchOnline_try_def hash_matches_def
  sha256File_def readFile_def normalizeHash_def trim_def is_space_def toUpperCase_def
  upper_char_def getClientPath_def tempPatchPath_def downloadFileWithProgress_def patch_total_def
  parseInt10_def digit_of_def digits_value_def patch_event_def patch_data_event_def
  ratio_percent_def Math_round_def pipeline_def writeFile_def ignoring_def unlinkSync_def
  send_def act_def send_progress_def existsSync_def replaceClient_def renameSync_def
  copyFileSync_def is_file_def win_send_def win_send_progress_def destroyed_error_def

lemma win_paths:
  "getClientPath demo_win game patch_version = client_exe"
  "tempPatchPath demo_win client_exe patch_version = temp_exe"
  by (simp_all add: getClientPath_def tempPatchPath_def win_defs demo_defs show3)

text \<open>
  C7: \<open>patchOnlineClientIfNeeded\<close> returns "skipped", with no network call, no event and
  the disk as it was, whenever the platform is not \<open>win32\<close>, the version has no patch URL or
  no expected hash (absent or empty), or the client binary is not there; and it returns
  "up-to-date", again with nothing fetched, when the hash of the client equals the
  expected hash up to the case of the letters.
\<close>

theorem hot_patch_skipped_or_up_to_date:
  "(platform w \<noteq> ''win32'' \<or> patch_url v = None \<or> patch_url v = Some []
      \<or> patch_hash v = None \<or> patch_hash v = Some []
      \<or> \<not> existsSync (fsys s) (getClientPath w g v)
     \<longrightarrow> patchOnlineClientIfNeeded w g v ch s = (Inr Skipped, s))
   \<and> (platform w = ''win32'' \<and> patch_url v = Some u \<and> u \<noteq> [] \<and> patch_hash v = Some h \<and> h \<noteq> []
       \<and> sha256File w (getClientPath w g v) (fsys s) = Inr cur
       \<and> toUpperCase cur = toUpperCase h
     \<longrightarrow> patchOnlineClientIfNeeded w g v ch s = (Inr UpToDate, s))"
proof (intro conjI impI)
  assume "platform w \<noteq> ''win32'' \<or> patch_url v = None \<or> patch_url v = Some []
      \<or> patch_hash v = None \<or> patch_hash v = Some []
      \<or> \<not> existsSync (fsys s) (getClientPath w g v)"
  then show "patchOnlineClientIfNeeded w g v ch s = (Inr Skipped, s)"
    using skipped_other_platform skipped_without_metadata skipped_without_client by blast
next
  assume a: "platform w = ''win32'' \<and> patch_url v = Some u \<and> u \<noteq> [] \<and> patch_hash v = Some h \<and> h \<noteq> []
       \<and> sha256File w (getClientPath w g v) (fsys s) = Inr cur
       \<and> toUpperCase cur = toUpperCase h"
  then have ex: "existsSync (fsys s) (getClientPath w g v)"
    by (auto simp: existsSync_def dest: sha256File_Inr)
  from a have "length cur = length h"
    by (metis length_map toUpperCase_def)
  with a have "cur \<noteq> []" by auto
  with a normalizeHash_caseless [of cur h]
  have hm: "hash_matches (sha256File w (getClientPath w g v) (fsys s)) h"
    by (simp add: hash_matches_def)
  have tr: "patchOnline_try w (getClientPath w g v) u h v ch s = (Inr UpToDate, s)"
    using hm by (simp add: patchOnline_try_def)
  show "patchOnlineClientIfNeeded w g v ch s = (Inr UpToDate, s)"
    using a ex by (simp add: guarded_run tr)
qed

theorem hot_patch_skipped_or_up_to_date_witness:
  "platform demo \<noteq> ''win32''
   \<and> patchOnlineClientIfNeeded demo game patch_version ''online-patch-progress'' (state_win ''old'')
       = (Inr Skipped, state_win ''old'')
   \<and> sha256File demo_win (getClientPath demo_win game patch_version) (fsys (state_win ''NEW''))
       = Inr ''NEW''
   \<and> toUpperCase ''NEW'' = toUpperCase ''new''
   \<and> patchOnlineClientIfNeeded demo_win game patch_version ''online-patch-progress''
         (state_win ''NEW'')
       = (Inr UpToDate, state_win ''NEW'')"
proof -
  have lin: "platform demo \<noteq> ''win32''"
    by (simp add: demo_def)
  have h: "sha256File demo_win (getClientPath demo_win game patch_version) (fsys (state_win ''NEW''))
       = Inr ''NEW''"
    unfolding win_paths by (simp add: sha256File_def readFile_def win_defs demo_defs)
  have up: "toUpperCase ''NEW'' = toUpperCase ''new''"
    by (simp add: toUpperCase_def upper_char_def)
  have pre: "platform demo_win = ''win32'' \<and> patch_url patch_version = Some ''https://x/client.exe''
      \<and> ''https://x/client.exe'' \<noteq> [] \<and> patch_hash patch_version = Some ''new'' \<and> ''new'' \<noteq> []"
    by (simp add: win_defs demo_defs)
  show ?thesis
    using hot_patch_skipped_or_up_to_date
            [of demo patch_version "state_win ''old''" game "''online-patch-progress''"]
          hot_patch_skipped_or_up_to_date
            [of demo_win patch_version "state_win ''NEW''" game "''online-patch-progress''"
                "''https://x/client.exe''" "''new''" "''NEW''"]
          lin h up pre
    by blast
qed

lemma patchOnline_rejects:
  assumes "fst (patchOnlineClientIfNeeded w g v ch s) = Inl e'"
  shows "window_destroyed w \<and> e' = destroyed_error"
proof (cases "platform w = ''win32'' \<and> (\<exists>u h. patch_url v = Some u \<and> u \<noteq> [] \<and> patch_hash v = Some h \<and> h \<noteq> [])
    \<and> existsSync (fsys s) (getClientPath w g v)")
  case True
  then obtain u h where uh: "patch_url v = Some u" "u \<noteq> []" "patch_hash v = Some h" "h \<noteq> []"
    by blast
  obtain r s1 where run: "patchOnline_try w (getClientPath w g v) u h v ch s = (r, s1)"
    by (cases "patchOnline_try w (getClientPath w g v) u h v ch s") blast
  show ?thesis
    using True uh assms
    by (cases r; cases "window_destroyed w") (simp_all add: guarded_run run)
next
  case False
  then have "patchOnlineClientIfNeeded w g v ch s = (Inr Skipped, s)"
    using skipped_other_platform [of w g v ch s] skipped_without_metadata [of v w g ch s] skipped_without_client [of s w g v ch]
    by (cases "patch_url v"; cases "patch_hash v") auto
  then show ?thesis using assms by simp
qed

lemma patchOnline_total:
  assumes "\<not> window_destroyed w"
  shows "\<exists>r s'. patchOnlineClientIfNeeded w g v ch s = (Inr r, s')"
proof (cases "fst (patchOnlineClientIfNeeded w g v ch s)")
  case (Inl e')
  then show ?thesis using patchOnline_rejects [of w g v ch s e'] assms by simp
next
  case (Inr r)
  then show ?thesis by (metis prod.collapse)
qed

lemma pipeline_frame: "pipeline flt b out d = (r, d') \<Longrightarrow> p \<noteq> out \<Longrightarrow> d' p = d p"
  by (auto simp: pipeline_def writeFile_def split: option.splits sum.splits node.splits if_splits)

lemma downloadFileWithProgress_frame:
  "p \<noteq> out \<Longrightarrow> fsys (snd (downloadFileWithProgress w u out ch s)) p = fsys s p"
  by (cases "window_destroyed w")
     (auto simp: downloadFileWithProgress_def Let_def act_def send_progress_def
        split: sum.splits option.splits prod.splits dest: pipeline_frame)

lemma downloadFileWithProgress_alive:
  "downloadFileWithProgress w u out ch s = (Inr (), s1) \<Longrightarrow> \<not> window_destroyed w"
  by (cases "window_destroyed w")
     (auto simp: downloadFileWithProgress_def Let_def split: sum.splits option.splits prod.splits if_splits)

lemma temp_not_client: "tempPatchPath w (getClientPath w g v) v \<noteq> getClientPath w g v"
  by (simp add: tempPatchPath_def getClientPath_def)

lemma ignoring_unlink_frame: "p \<noteq> q \<Longrightarrow> fsys (ignoring (unlinkSync flt q) s) p = fsys s p"
  by (auto simp: ignoring_def unlinkSync_def split: option.splits sum.splits node.splits)

lemma ignoring_unlink_gone:
  "flt (OpUnlink q) = None \<Longrightarrow> is_file (fsys s q) \<Longrightarrow> fsys (ignoring (unlinkSync flt q) s) q = None"
  by (auto simp: ignoring_def unlinkSync_def is_file_def split: option.splits sum.splits node.splits)

lemma patchOnline_try_mismatch:
  assumes "\<not> hash_matches (sha256File w c (fsys s)) h"
      and "downloadFileWithProgress w u (tempPatchPath w c v) ch s = (Inr (), s1)"
      and "sha256File w (tempPatchPath w c v) (fsys s1) = Inr dh"
      and "normalizeHash dh \<noteq> normalizeHash h"
  shows "patchOnline_try w c u h v ch s =
           (Inl (JsError ''Patch hash mismatch (SHA256)''),
            ignoring (unlinkSync (fault w) (tempPatchPath w c v)) s1)"
  using assms by (simp add: patchOnline_try_def)

lemma mismatch_run:
  assumes "platform w = ''win32''"
      and "patch_url v = Some u" and "u \<noteq> []" and "patch_hash v = Some h" and "h \<noteq> []"
      and "existsSync (fsys s) (getClientPath w g v)"
      and "\<not> hash_matches (sha256File w (getClientPath w g v) (fsys s)) h"
      and "downloadFileWithProgress w u (tempPatchPath w (getClientPath w g v) v) ch s = (Inr (), s1)"
      and "sha256File w (tempPatchPath w (getClientPath w g v) v) (fsys s1) = Inr dh"
      and "normalizeHash dh \<noteq> normalizeHash h"
  shows "fst (patchOnline_try w (getClientPath w g v) u h v ch s)
           = Inl (JsError ''Patch hash mismatch (SHA256)'')
       \<and> fst (patchOnlineClientIfNeeded w g v ch s) = Inr Skipped
       \<and> last (sent (snd (patchOnlineClientIfNeeded w g v ch s)))
           = (''online-patch-error'', MessagePayload ''Patch hash mismatch (SHA256)'')
       \<and> fsys (snd (patchOnlineClientIfNeeded w g v ch s)) (getClientPath w g v)
           = fsys s (getClientPath w g v)
       \<and> (fault w (OpUnlink (tempPatchPath w (getClientPath w g v) v)) = None
            \<longrightarrow> fsys (snd (patchOnlineClientIfNeeded w g v ch s))
                  (tempPatchPath w (getClientPath w g v) v) = None)"
proof -
  let ?c = "getClientPath w g v"
  let ?t = "tempPatchPath w ?c v"
  have tr: "patchOnline_try w ?c u h v ch s =
      (Inl (JsError ''Patch hash mismatch (SHA256)''), ignoring (unlinkSync (fault w) ?t) s1)"
    using assms(7-10) by (rule patchOnline_try_mismatch)
  have alive: "\<not> window_destroyed w"
    using assms(8) by (rule downloadFileWithProgress_alive)
  have run: "patchOnlineClientIfNeeded w g v ch s =
      (Inr Skipped, send ''online-patch-error'' (MessagePayload ''Patch hash mismatch (SHA256)'')
         (ignoring (unlinkSync (fault w) ?t) s1))"
    using assms(1-6) alive by (simp add: guarded_run tr)
  have s1: "fsys s1 ?c = fsys s ?c"
    using downloadFileWithProgress_frame [of ?c ?t w u ch s] temp_not_client [of w g v] assms(8)
    by auto
  have isf: "is_file (fsys s1 ?t)"
    using sha256File_Inr [OF assms(9)] by (auto simp: is_file_def)
  show ?thesis
    using s1 isf temp_not_client [of w g v]
    by (simp add: tr run send_def ignoring_unlink_frame ignoring_unlink_gone)
qed

lemma gone_path: "getClientPath demo_win game gone_version = client_exe"
  by (simp add: getClientPath_def gone_version_def win_defs demo_defs)

lemma gone_path_closed: "getClientPath demo_win_closed game gone_version = client_exe"
  by (simp add: getClientPath_def gone_version_def demo_win_closed_def win_defs demo_defs)

text \<open>
  C10, as stated, fails: the \<open>send\<close> of the \<open>catch\<close> block is outside any \<open>try\<close>. Once
  the window has been destroyed it throws, and when the body has failed (here the
  replacement cannot be fetched) the promise of \<open>patchOnlineClientIfNeeded\<close> is rejected
  with the error of the \<open>send\<close>; no event is sent.
\<close>

theorem hot_patch_rejects_counterexample:
  "patchOnline_try demo_win_closed client_exe ''https://x/gone.exe'' ''new''
     gone_version ''online-patch-progress'' (state_win ''old'')
   = (Inl (JsError ''fetch failed''), act (Fetch ''https://x/gone.exe'') (state_win ''old''))
   \<and> patchOnlineClientIfNeeded demo_win_closed game gone_version ''online-patch-progress''
       (state_win ''old'')
   = (Inl (JsError ''Object has been destroyed''),
      act (Fetch ''https://x/gone.exe'') (state_win ''old''))
   \<and> sent (snd (patchOnlineClientIfNeeded demo_win_closed game gone_version
        ''online-patch-progress'' (state_win ''old''))) = []"
proof -
  have tr: "patchOnline_try demo_win_closed client_exe ''https://x/gone.exe'' ''new''
     gone_version ''online-patch-progress'' (state_win ''old'')
   = (Inl (JsError ''fetch failed''), act (Fetch ''https://x/gone.exe'') (state_win ''old''))"
    by (simp add: patchOnline_try_def hash_matches_def sha256File_def readFile_def normalizeHash_def
          trim_def is_space_def toUpperCase_def upper_char_def downloadFileWithProgress_def
          gone_version_def demo_win_closed_def win_defs demo_defs)
  have pre: "platform demo_win_closed = ''win32'' \<and> patch_url gone_version = Some ''https://x/gone.exe''
      \<and> patch_hash gone_version = Some ''new''
      \<and> existsSync (fsys (state_win ''old'')) client_exe \<and> window_destroyed demo_win_closed"
    by (simp add: existsSync_def gone_version_def demo_win_closed_def win_defs demo_defs)
  have run: "patchOnlineClientIfNeeded demo_win_closed game gone_version ''online-patch-progress''
       (state_win ''old'')
   = (Inl (JsError ''Object has been destroyed''),
      act (Fetch ''https://x/gone.exe'') (state_win ''old''))"
    using pre guarded_run [of demo_win_closed gone_version "''https://x/gone.exe''" "''new''"
            "state_win ''old''" game "''online-patch-progress''"]
    by (simp add: gone_path_closed tr destroyed_error_def)
  show ?thesis
    using tr run by (simp add: act_def state_win_def)
qed

text \<open>
  C10, amended: as long as the window has not been destroyed, \<open>patchOnlineClientIfNeeded\<close>
  never rejects: on every input it resolves with "patched", "skipped" or "up-to-date". It
  rejects only when the window has been destroyed, and then with the error of the
  \<open>send\<close>. An exception of the body of its \<open>try\<close>, the hash mismatch among them, is
  caught: with the window there, an \<open>online-patch-error\<close> event carrying the message is
  the one event added to those sent, nothing else changes, and the call returns
  "skipped", as a deliberate skip does; with the window destroyed, the call rejects.
\<close>

theorem hot_patch_never_rejects:
  "(\<not> window_destroyed w \<longrightarrow> (\<exists>r s'. patchOnlineClientIfNeeded w g v ch s = (Inr r, s')))
   \<and> (fst (patchOnlineClientIfNeeded w g v ch s) = Inl e'
        \<longrightarrow> window_destroyed w \<and> e' = destroyed_error)
   \<and> (platform w = ''win32'' \<and> patch_url v = Some u \<and> u \<noteq> [] \<and> patch_hash v = Some h \<and> h \<noteq> []
        \<and> existsSync (fsys s) (getClientPath w g v)
        \<and> patchOnline_try w (getClientPath w g v) u h v ch s = (Inl e, s1)
      \<longrightarrow> (\<not> window_destroyed w \<longrightarrow>
             fst (patchOnlineClientIfNeeded w g v ch s) = Inr Skipped
           \<and> sent (snd (patchOnlineClientIfNeeded w g v ch s))
               = sent s1 @ [(''online-patch-error'', MessagePayload (message_of e))]
           \<and> fsys (snd (patchOnlineClientIfNeeded w g v ch s)) = fsys s1
           \<and> acts (snd (patchOnlineClientIfNeeded w g v ch s)) = acts s1)
        \<and> (window_destroyed w \<longrightarrow>
             patchOnlineClientIfNeeded w g v ch s = (Inl destroyed_error, s1)))
   \<and> (\<not> hash_matches (sha256File w c (fsys s)) h
        \<and> downloadFileWithProgress w u (tempPatchPath w c v) ch s = (Inr (), s2)
        \<and> sha256File w (tempPatchPath w c v) (fsys s2) = Inr dh
        \<and> normalizeHash dh \<noteq> normalizeHash h
      \<longrightarrow> (\<exists>s3. patchOnline_try w c u h v ch s
                 = (Inl (JsError ''Patch hash mismatch (SHA256)''), s3)))"
proof (intro conjI impI)
  assume "\<not> window_destroyed w"
  then show "\<exists>r s'. patchOnlineClientIfNeeded w g v ch s = (Inr r, s')"
    by (rule patchOnline_total)
next
  assume a: "fst (patchOnlineClientIfNeeded w g v ch s) = Inl e'"
  show "window_destroyed w" using patchOnline_rejects [OF a] by simp
  show "e' = destroyed_error" using patchOnline_rejects [OF a] by simp
next
  assume a: "platform w = ''win32'' \<and> patch_url v = Some u \<and> u \<noteq> [] \<and> patch_hash v = Some h \<and> h \<noteq> []
        \<and> existsSync (fsys s) (getClientPath w g v)
        \<and> patchOnline_try w (getClientPath w g v) u h v ch s = (Inl e, s1)"
  {
    assume alive: "\<not> window_destroyed w"
    have run: "patchOnlineClientIfNeeded w g v ch s
        = (Inr Skipped, send ''online-patch-error'' (MessagePayload (message_of e)) s1)"
      using a alive by (simp add: guarded_run)
    show "fst (patchOnlineClientIfNeeded w g v ch s) = Inr Skipped"
      by (simp add: run)
    show "sent (snd (patchOnlineClientIfNeeded w g v ch s))
               = sent s1 @ [(''online-patch-error'', MessagePayload (message_of e))]"
      by (simp add: run send_def)
    show "fsys (snd (patchOnlineClientIfNeeded w g v ch s)) = fsys s1"
      by (simp add: run send_def)
    show "acts (snd (patchOnlineClientIfNeeded w g v ch s)) = acts s1"
      by (simp add: run send_def)
  }
  {
    assume "window_destroyed w"
    then show "patchOnlineClientIfNeeded w g v ch s = (Inl destroyed_error, s1)"
      using a by (simp add: guarded_run)
  }
next
  assume "\<not> hash_matches (sha256File w c (fsys s)) h
        \<and> downloadFileWithProgress w u (tempPatchPath w c v) ch s = (Inr (), s2)
        \<and> sha256File w (tempPatchPath w c v) (fsys s2) = Inr dh
        \<and> normalizeHash dh \<noteq> normalizeHash h"
  then show "\<exists>s3. patchOnline_try w c u h v ch s
                 = (Inl (JsError ''Patch hash mismatch (SHA256)''), s3)"
    using patchOnline_try_mismatch by blast
qed

theorem hot_patch_never_rejects_witness:
  "\<not> window_destroyed demo_win
   \<and> patchOnline_try demo_win (getClientPath demo_win game gone_version) ''https://x/gone.exe'' ''new''
       gone_version ''online-patch-progress'' (state_win ''old'')
     = (Inl (JsError ''fetch failed''), act (Fetch ''https://x/gone.exe'') (state_win ''old''))
   \<and> fst (patchOnlineClientIfNeeded demo_win game gone_version ''online-patch-progress''
          (state_win ''old'')) = Inr Skipped
   \<and> sent (snd (patchOnlineClientIfNeeded demo_win game gone_version ''online-patch-progress''
          (state_win ''old''))) = [(''online-patch-error'', MessagePayload ''fetch failed'')]
   \<and> window_destroyed demo_win_closed
   \<and> patchOnlineClientIfNeeded demo_win_closed game gone_version ''online-patch-progress''
       (state_win ''old'')
     = (Inl destroyed_error, act (Fetch ''https://x/gone.exe'') (state_win ''old''))"
proof -
  have tr: "patchOnline_try demo_win (getClientPath demo_win game gone_version) ''https://x/gone.exe''
     ''new'' gone_version ''online-patch-progress'' (state_win ''old'')
   = (Inl (JsError ''fetch failed''), act (Fetch ''https://x/gone.exe'') (state_win ''old''))"
    unfolding gone_path
    by (simp add: patchOnline_try_def hash_matches_def sha256File_def readFile_def normalizeHash_def
          trim_def is_space_def toUpperCase_def upper_char_def downloadFileWithProgress_def
          gone_version_def win_defs demo_defs)
  have trc: "patchOnline_try demo_win_closed (getClientPath demo_win_closed game gone_version)
     ''https://x/gone.exe'' ''new'' gone_version ''online-patch-progress'' (state_win ''old'')
   = (Inl (JsError ''fetch failed''), act (Fetch ''https://x/gone.exe'') (state_win ''old''))"
    unfolding gone_path_closed
    by (simp add: patchOnline_try_def hash_matches_def sha256File_def readFile_def normalizeHash_def
          trim_def is_space_def toUpperCase_def upper_char_def downloadFileWithProgress_def
          gone_version_def demo_win_closed_def win_defs demo_defs)
  have pre: "platform demo_win = ''win32'' \<and> patch_url gone_version = Some ''https://x/gone.exe''
      \<and> ''https://x/gone.exe'' \<noteq> [] \<and> patch_hash gone_version = Some ''new'' \<and> ''new'' \<noteq> []
      \<and> existsSync (fsys (state_win ''old'')) (getClientPath demo_win game gone_version)"
    unfolding gone_path by (simp add: existsSync_def gone_version_def win_defs demo_defs)
  have prec: "platform demo_win_closed = ''win32''
      \<and> existsSync (fsys (state_win ''old'')) (getClientPath demo_win_closed game gone_version)"
    unfolding gone_path_closed
    by (simp add: existsSync_def gone_version_def demo_win_closed_def win_defs demo_defs)
  have alive: "\<not> window_destroyed demo_win"
    by (simp add: win_defs demo_defs)
  have closed: "window_destroyed demo_win_closed"
    by (simp add: demo_win_closed_def)
  have s0: "sent (act (Fetch ''https://x/gone.exe'') (state_win ''old'')) = []"
    by (simp add: act_def state_win_def)
  show ?thesis
    using hot_patch_never_rejects
            [of demo_win game gone_version "''online-patch-progress''" "state_win ''old''"
                _ "''https://x/gone.exe''" "''new''" "JsError ''fetch failed''"
                "act (Fetch ''https://x/gone.exe'') (state_win ''old'')"]
          hot_patch_never_rejects
            [of demo_win_closed game gone_version "''online-patch-progress''" "state_win ''old''"
                _ "''https://x/gone.exe''" "''new''" "JsError ''fetch failed''"
                "act (Fetch ''https://x/gone.exe'') (state_win ''old'')"]
          tr trc pre prec alive closed s0
    by simp
qed


lemma renameSync_at_dst:
  "renameSync flt src dst d = Inr d' \<Longrightarrow> d' dst = d src"
  by (auto simp: renameSync_def split: option.splits if_splits)

lemma copyFileSync_at_dst:
  "copyFileSync flt src dst d = Inr d' \<Longrightarrow> d' dst = d src \<and> is_file (d src)"
  by (auto simp: copyFileSync_def is_file_def split: option.splits if_splits node.splits)

lemma ignoring_unlink_at:
  "fsys (ignoring (unlinkSync flt q) s) q = None \<or> fsys (ignoring (unlinkSync flt q) s) q = fsys s q"
  by (auto simp: ignoring_def unlinkSync_def split: option.splits sum.splits node.splits)

lemma replaceClient_client:
  assumes "t \<noteq> cl"
  shows "fsys (snd (replaceClient w t cl s)) cl = fsys s t
       \<or> fsys (snd (replaceClient w t cl s)) cl = fsys s cl
       \<or> fsys (snd (replaceClient w t cl s)) cl = None"
proof -
  let ?s1 = "ignoring (unlinkSync (fault w) cl) s"
  have t: "fsys ?s1 t = fsys s t"
    using assms by (simp add: ignoring_unlink_frame)
  have c: "fsys ?s1 cl = None \<or> fsys ?s1 cl = fsys s cl"
    by (rule ignoring_unlink_at)
  show ?thesis
  proof (cases "renameSync (fault w) t cl (fsys ?s1)")
    case (Inr d)
    then show ?thesis
      using renameSync_at_dst [OF Inr] t by (simp add: replaceClient_def Let_def)
  next
    case (Inl e)
    show ?thesis
    proof (cases "copyFileSync (fault w) t cl (fsys ?s1)")
      case (Inl e')
      then show ?thesis
        using \<open>renameSync (fault w) t cl (fsys ?s1) = Inl e\<close> c
        by (auto simp: replaceClient_def Let_def)
    next
      case (Inr d)
      have "fsys (ignoring (unlinkSync (fault w) t) (?s1\<lparr>fsys := d\<rparr>)) cl = d cl"
        using assms ignoring_unlink_frame [of cl t "fault w" "?s1\<lparr>fsys := d\<rparr>"] by simp
      then show ?thesis
        using \<open>renameSync (fault w) t cl (fsys ?s1) = Inl e\<close> Inr copyFileSync_at_dst [OF Inr] t
        by (simp add: replaceClient_def Let_def)
    qed
  qed
qed

lemma patchOnline_try_client:
  "fsys (snd (patchOnline_try w (getClientPath w g v) u h v ch s)) (getClientPath w g v)
     = fsys s (getClientPath w g v)
   \<or> fsys (snd (patchOnline_try w (getClientPath w g v) u h v ch s)) (getClientPath w g v) = None
   \<or> (\<exists>c m. fsys (snd (patchOnline_try w (getClientPath w g v) u h v ch s)) (getClientPath w g v)
               = Some (File c m)
            \<and> normalizeHash (sha256 w c) = normalizeHash h)"
proof -
  let ?c = "getClientPath w g v"
  let ?t = "tempPatchPath w ?c v"
  have ne: "?t \<noteq> ?c" by (rule temp_not_client)
  show ?thesis
  proof (cases "hash_matches (sha256File w ?c (fsys s)) h")
    case True
    then show ?thesis by (simp add: patchOnline_try_def)
  next
    case False
    obtain r s1 where dl: "downloadFileWithProgress w u ?t ch s = (r, s1)"
      by (cases "downloadFileWithProgress w u ?t ch s") blast
    have s1: "fsys s1 ?c = fsys s ?c"
      using downloadFileWithProgress_frame [of ?c ?t w u ch s] ne dl by auto
    show ?thesis
    proof (cases r)
      case (Inl e)
      then show ?thesis using False dl s1 by (simp add: patchOnline_try_def)
    next
      case (Inr x)
      show ?thesis
      proof (cases "sha256File w ?t (fsys s1)")
        case (Inl e)
        then show ?thesis using False dl s1 Inr by (simp add: patchOnline_try_def)
      next
        case dh: (Inr dh)
        show ?thesis
        proof (cases "normalizeHash dh = normalizeHash h")
          case False
          then show ?thesis
            using \<open>\<not> hash_matches (sha256File w ?c (fsys s)) h\<close> dl s1 Inr dh ne
            by (simp add: patchOnline_try_def ignoring_unlink_frame)
        next
          case True
          obtain c m where f: "fsys s1 ?t = Some (File c m)" "dh = sha256 w c"
            using sha256File_Inr [OF dh] by blast
          have tr: "patchOnline_try w ?c u h v ch s = replaceClient w ?t ?c s1"
            using \<open>\<not> hash_matches (sha256File w ?c (fsys s)) h\<close> dl Inr dh True
            by (simp add: patchOnline_try_def)
          show ?thesis
            using replaceClient_client [OF ne, of w s1] f True s1 by (auto simp: tr)
        qed
      qed
    qed
  qed
qed

lemma never_substituted:
  assumes "patch_hash v = Some h"
  shows "fsys (snd (patchOnlineClientIfNeeded w g v ch s)) (getClientPath w g v)
           = fsys s (getClientPath w g v)
       \<or> fsys (snd (patchOnlineClientIfNeeded w g v ch s)) (getClientPath w g v) = None
       \<or> (\<exists>c m. fsys (snd (patchOnlineClientIfNeeded w g v ch s)) (getClientPath w g v)
                   = Some (File c m)
                \<and> normalizeHash (sha256 w c) = normalizeHash h)"
proof (cases "platform w = ''win32'' \<and> (\<exists>u. patch_url v = Some u \<and> u \<noteq> []) \<and> h \<noteq> []
    \<and> existsSync (fsys s) (getClientPath w g v)")
  case True
  then obtain u where u: "patch_url v = Some u" "u \<noteq> []" by blast
  have "fsys (snd (patchOnlineClientIfNeeded w g v ch s))
      = fsys (snd (patchOnline_try w (getClientPath w g v) u h v ch s))"
    using True u assms
    by (cases "window_destroyed w") (simp_all add: guarded_run send_def split: prod.splits sum.splits)
  then show ?thesis
    using patchOnline_try_client [of w g v u h ch s] by simp
next
  case False
  then have "patchOnlineClientIfNeeded w g v ch s = (Inr Skipped, s)"
    using skipped_other_platform [of w g v ch s] skipped_without_metadata [of v w g ch s] skipped_without_client [of s w g v ch] assms
    by (cases "patch_url v") auto
  then show ?thesis by simp
qed

lemma win_try_fst:
  "fst (patchOnline_try demo_win client_exe ''https://x/client.exe'' ''new'' patch_version
          ''online-patch-progress'' (state_win ''old''))
   = Inl (JsError ''Patch hash mismatch (SHA256)'')"
  by (simp add: patch_defs win_defs demo_defs show3 Let_def)

lemma win_run_fst:
  "fst (patchOnlineClientIfNeeded demo_win game patch_version ''online-patch-progress''
          (state_win ''old'')) = Inr Skipped"
  by (simp add: patch_defs win_defs demo_defs show3 Let_def)

lemma win_busy_temp:
  "fsys (snd (patchOnlineClientIfNeeded demo_win_busy game patch_version ''online-patch-progress''
          (state_win ''old''))) temp_exe = Some (File ''bad'' 420)"
  by (simp add: demo_win_busy_def patch_defs win_defs demo_defs show3 Let_def)

text \<open>
  C6, as stated, fails: the error thrown on a hash mismatch has the message
  "Patch hash mismatch (SHA256)", not "Patch hash mismatch"; it does not leave the
  function, which returns "skipped"; and the downloaded file stays when the operating
  system refuses to unlink it, since that error is ignored.
\<close>

theorem hash_mismatch_counterexample:
  "fst (patchOnline_try demo_win client_exe ''https://x/client.exe'' ''new'' patch_version
          ''online-patch-progress'' (state_win ''old''))
     = Inl (JsError ''Patch hash mismatch (SHA256)'')
   \<and> fst (patchOnline_try demo_win client_exe ''https://x/client.exe'' ''new'' patch_version
          ''online-patch-progress'' (state_win ''old''))
     \<noteq> Inl (JsError ''Patch hash mismatch'')
   \<and> fst (patchOnlineClientIfNeeded demo_win game patch_version ''online-patch-progress''
          (state_win ''old'')) = Inr Skipped
   \<and> fsys (snd (patchOnlineClientIfNeeded demo_win_busy game patch_version ''online-patch-progress''
          (state_win ''old''))) temp_exe = Some (File ''bad'' 420)"
  by (simp add: win_try_fst win_run_fst win_busy_temp)


text \<open>
  C6, amended: when the hash of the downloaded file differs from the expected hash (both
  trimmed and compared without regard to case), an error with the message
  "Patch hash mismatch (SHA256)" is thrown inside \<open>patchOnlineClientIfNeeded\<close>, which
  sends it as an \<open>online-patch-error\<close> event and returns "skipped"; the client binary is
  what it was; the downloaded file is gone unless the operating system refuses the
  unlink. And in every run, a file that has taken the place of the client has the expected
  hash.
\<close>

theorem hash_mismatch_keeps_client:
  assumes "platform w = ''win32''"
      and "patch_url v = Some u" and "u \<noteq> []" and "patch_hash v = Some h" and "h \<noteq> []"
      and "existsSync (fsys s) (getClientPath w g v)"
      and "\<not> hash_matches (sha256File w (getClientPath w g v) (fsys s)) h"
      and "downloadFileWithProgress w u (tempPatchPath w (getClientPath w g v) v) ch s = (Inr (), s1)"
      and "sha256File w (tempPatchPath w (getClientPath w g v) v) (fsys s1) = Inr dh"
      and "normalizeHash dh \<noteq> normalizeHash h"
  shows "fst (patchOnline_try w (getClientPath w g v) u h v ch s)
           = Inl (JsError ''Patch hash mismatch (SHA256)'')
       \<and> fst (patchOnlineClientIfNeeded w g v ch s) = Inr Skipped
       \<and> last (sent (snd (patchOnlineClientIfNeeded w g v ch s)))
           = (''online-patch-error'', MessagePayload ''Patch hash mismatch (SHA256)'')
       \<and> fsys (snd (patchOnlineClientIfNeeded w g v ch s)) (getClientPath w g v)
           = fsys s (getClientPath w g v)
       \<and> (fault w (OpUnlink (tempPatchPath w (getClientPath w g v) v)) = None
            \<longrightarrow> fsys (snd (patchOnlineClientIfNeeded w g v ch s))
                  (tempPatchPath w (getClientPath w g v) v) = None)
       \<and> (\<forall>s0 ch0 c m.
             fsys (snd (patchOnlineClientIfNeeded w g v ch0 s0)) (getClientPath w g v)
               = Some (File c m)
             \<longrightarrow> fsys s0 (getClientPath w g v) = Some (File c m)
                 \<or> normalizeHash (sha256 w c) = normalizeHash h)"
proof -
  have "\<forall>s0 ch0 c m.
             fsys (snd (patchOnlineClientIfNeeded w g v ch0 s0)) (getClientPath w g v)
               = Some (File c m)
             \<longrightarrow> fsys s0 (getClientPath w g v) = Some (File c m)
                 \<or> normalizeHash (sha256 w c) = normalizeHash h"
  proof (intro allI impI)
    fix s0 ch0 c m
    assume a: "fsys (snd (patchOnlineClientIfNeeded w g v ch0 s0)) (getClientPath w g v)
               = Some (File c m)"
    show "fsys s0 (getClientPath w g v) = Some (File c m)
                 \<or> normalizeHash (sha256 w c) = normalizeHash h"
      using never_substituted [OF assms(4), of w g ch0 s0] a by auto
  qed
  then show ?thesis
    using mismatch_run [OF assms] by blast
qed

theorem hash_mismatch_keeps_client_witness:
  "\<not> hash_matches (sha256File demo_win (getClientPath demo_win game patch_version)
        (fsys (state_win ''old''))) ''new''
   \<and> sha256File demo_win (tempPatchPath demo_win (getClientPath demo_win game patch_version) patch_version)
        (fsys (snd (downloadFileWithProgress demo_win ''https://x/client.exe''
           (tempPatchPath demo_win (getClientPath demo_win game patch_version) patch_version)
           ''online-patch-progress'' (state_win ''old'')))) = Inr ''bad''
   \<and> normalizeHash ''bad'' \<noteq> normalizeHash ''new''
   \<and> fst (patchOnlineClientIfNeeded demo_win game patch_version ''online-patch-progress''
        (state_win ''old'')) = Inr Skipped
   \<and> last (sent (snd (patchOnlineClientIfNeeded demo_win game patch_version ''online-patch-progress''
        (state_win ''old''))))
       = (''online-patch-error'', MessagePayload ''Patch hash mismatch (SHA256)'')
   \<and> fsys (snd (patchOnlineClientIfNeeded demo_win game patch_version ''online-patch-progress''
        (state_win ''old''))) client_exe = Some (File ''old'' 420)
   \<and> fsys (snd (patchOnlineClientIfNeeded demo_win game patch_version ''online-patch-progress''
        (state_win ''old''))) temp_exe = None"
proof -
  let ?s = "state_win ''old''"
  let ?dl = "downloadFileWithProgress demo_win ''https://x/client.exe'' temp_exe
               ''online-patch-progress'' ?s"
  have pre: "platform demo_win = ''win32''" "patch_url patch_version = Some ''https://x/client.exe''"
    "''https://x/client.exe'' \<noteq> []" "patch_hash patch_version = Some ''new''" "''new'' \<noteq> []"
    by (simp_all add: win_defs demo_defs)
  have ex: "existsSync (fsys ?s) (getClientPath demo_win game patch_version)"
    unfolding win_paths by (simp add: existsSync_def win_defs demo_defs)
  have cur: "\<not> hash_matches (sha256File demo_win (getClientPath demo_win game patch_version)
      (fsys ?s)) ''new''"
    unfolding win_paths
    by (simp add: hash_matches_def sha256File_def readFile_def normalizeHash_def trim_def
          is_space_def toUpperCase_def upper_char_def win_defs demo_defs)
  have "fst ?dl = Inr ()"
    by (simp add: patch_defs win_defs demo_defs Let_def)
  then have dl: "downloadFileWithProgress demo_win ''https://x/client.exe''
      (tempPatchPath demo_win (getClientPath demo_win game patch_version) patch_version)
      ''online-patch-progress'' ?s = (Inr (), snd ?dl)"
    unfolding win_paths by (metis prod.collapse)
  have dh: "sha256File demo_win
      (tempPatchPath demo_win (getClientPath demo_win game patch_version) patch_version)
      (fsys (snd ?dl)) = Inr ''bad''"
    unfolding win_paths by (simp add: patch_defs win_defs demo_defs Let_def)
  have ne: "normalizeHash ''bad'' \<noteq> normalizeHash ''new''"
    by (simp add: normalizeHash_def trim_def is_space_def toUpperCase_def upper_char_def)
  have flt: "fault demo_win (OpUnlink (tempPatchPath demo_win
      (getClientPath demo_win game patch_version) patch_version)) = None"
    by (simp add: win_defs demo_defs)
  have old: "fsys ?s client_exe = Some (File ''old'' 420)"
    by (simp add: win_defs demo_defs)
  note th = hash_mismatch_keeps_client [OF pre ex cur dl dh ne]
  show ?thesis
    using th cur dh ne flt old unfolding win_paths by simp
qed




section \<open>Progress events\<close>

lemma ratio_percent_nonneg: "0 < k \<Longrightarrow> 0 \<le> ratio_percent rd n k"
proof -
  assume k: "0 < k"
  have "0 \<le> real n / real_of_int k" using k by simp
  then have "0 \<le> nearest rd (real n / real_of_int k)"
    using nearest_mono [of 0 "real n / real_of_int k" rd] by simp
  then have "0 \<le> nearest rd (real n / real_of_int k) * 100" by simp
  then have "0 \<le> nearest rd (nearest rd (real n / real_of_int k) * 100)"
    using nearest_mono [of 0 "nearest rd (real n / real_of_int k) * 100" rd] by simp
  then show ?thesis by (simp add: ratio_percent_def Math_round_def)
qed

lemma ratio_percent_le: "0 < k \<Longrightarrow> int n \<le> k \<Longrightarrow> ratio_percent rd n k \<le> 100"
proof -
  assume k: "0 < k" and n: "int n \<le> k"
  have "real n \<le> real_of_int k" using n by linarith
  then have "real n / real_of_int k \<le> 1" using k by (simp add: divide_le_eq)
  then have "nearest rd (real n / real_of_int k) \<le> 1"
    using nearest_mono [of "real n / real_of_int k" 1 rd] by simp
  then have "nearest rd (real n / real_of_int k) * 100 \<le> 100" by simp
  then have "nearest rd (nearest rd (real n / real_of_int k) * 100) \<le> 100"
    using nearest_mono [of "nearest rd (real n / real_of_int k) * 100" 100 rd] by simp
  then have "nearest rd (nearest rd (real n / real_of_int k) * 100) + 1 / 2 < 101" by linarith
  then have "\<lfloor>nearest rd (nearest rd (real n / real_of_int k) * 100) + 1 / 2\<rfloor> < 101"
    by (simp add: floor_less_iff)
  then show ?thesis by (simp add: ratio_percent_def Math_round_def)
qed

lemma data_events_mk: "p \<in> set (data_events mk n cs) \<Longrightarrow> \<exists>m. p = mk m"
  by (induction cs arbitrary: n) auto

lemma pwr_event_range:
  "pc = - 1 \<or> pc = 0 \<or> pc = 100 \<Longrightarrow> percent_in_range (pwr_event t pc n) \<and> phase (pwr_event t pc n) = ''pwr-download''"
  by (auto simp: percent_in_range_def pwr_event_def)

lemma pwr_data_event_range:
  "percent_in_range (pwr_data_event rd t n) \<and> phase (pwr_data_event rd t n) = ''pwr-download''"
  by (cases t) (auto simp: percent_in_range_def pwr_data_event_def pwr_event_def
        ratio_percent_nonneg ratio_percent_le)

lemma patch_event_range:
  "pc = - 1 \<or> pc = 0 \<or> pc = 100 \<Longrightarrow> percent_in_range (patch_event t pc n) \<and> phase (patch_event t pc n) = ''online-patch''"
  by (auto simp: percent_in_range_def patch_event_def)

lemma patch_data_event_range:
  "percent_in_range (patch_data_event rd t n) \<and> phase (patch_data_event rd t n) = ''online-patch''"
  by (cases t) (auto simp: percent_in_range_def patch_data_event_def patch_event_def
        ratio_percent_nonneg ratio_percent_le)

lemma emitted_append [simp]: "sent s' = sent s @ es \<Longrightarrow> emitted s s' = es"
  by (simp add: emitted_def)

lemma downloadPWR_emitted:
  "\<exists>ps. emitted s (snd (downloadPWR w g v s)) = map (\<lambda>p. (''install-progress'', ProgressPayload p)) ps
     \<and> (\<forall>p\<in>set ps. phase p = ''pwr-download'' \<and> percent_in_range p)
     \<and> (fst (downloadPWR w g v s) \<noteq> None \<longrightarrow> ps \<noteq> [] \<and> percent (last ps) = 100)"
proof (cases "fetch w (url v)")
  case (Inl e)
  then show ?thesis
    by (intro exI [of _ "[]"]) (simp add: downloadPWR_def Let_def act_def emitted_def)
next
  case (Inr r)
  show ?thesis
  proof (cases "ok r \<and> body r \<noteq> None")
    case False
    then show ?thesis using Inr
      by (intro exI [of _ "[]"]) (auto simp: downloadPWR_def Let_def act_def emitted_def)
  next
    case True
    then obtain b where b: "body r = Some b" and ok: "ok r" by auto
    let ?t = "pwr_total (content_length r)"
    let ?ps = "pwr_event ?t (if truthy ?t then 0 else - 1) 0
               # data_events (pwr_data_event (rounding w) ?t) 0 (chunks b)"
    let ?fin = "pwr_event ?t 100 (length (concat (chunks b)))"
    have rng: "\<forall>p\<in>set ?ps. phase p = ''pwr-download'' \<and> percent_in_range p"
      using pwr_event_range [of "if truthy ?t then 0 else - 1" ?t 0]
        pwr_data_event_range [of "rounding w" ?t]
      by (auto dest!: data_events_mk)
    obtain err d where pl: "pipeline (fault w) b (tempPWRPath g v) (fsys s) = (err, d)"
      by (cases "pipeline (fault w) b (tempPWRPath g v) (fsys s)") blast
    show ?thesis
    proof (cases err)
      case (Some e)
      have "emitted s (snd (downloadPWR w g v s)) = map (\<lambda>p. (''install-progress'', ProgressPayload p)) ?ps
          \<and> fst (downloadPWR w g v s) = None"
        using Inr b ok pl Some
        by (simp add: downloadPWR_def Let_def act_def send_progress_def emitted_def)
      then show ?thesis using rng by (intro exI [of _ ?ps]) simp
    next
      case None
      have "emitted s (snd (downloadPWR w g v s))
          = map (\<lambda>p. (''install-progress'', ProgressPayload p)) (?ps @ [?fin])"
        using Inr b ok pl None
        by (simp add: downloadPWR_def Let_def act_def send_progress_def emitted_def)
      moreover have "\<forall>p\<in>set (?ps @ [?fin]). phase p = ''pwr-download'' \<and> percent_in_range p"
        using rng pwr_event_range [of 100 ?t "length (concat (chunks b))"] by auto
      moreover have "percent (last (?ps @ [?fin])) = 100"
        by (simp add: pwr_event_def)
      ultimately show ?thesis by (intro exI [of _ "?ps @ [?fin]"]) simp
    qed
  qed
qed


lemma downloadFileWithProgress_emitted:
  "\<exists>ps. emitted s (snd (downloadFileWithProgress w u out ch s)) = map (\<lambda>p. (ch, ProgressPayload p)) ps
     \<and> (\<forall>p\<in>set ps. phase p = ''online-patch'' \<and> percent_in_range p)
     \<and> (fst (downloadFileWithProgress w u out ch s) = Inr () \<longrightarrow> ps \<noteq> [] \<and> percent (last ps) = 100)"
proof (cases "fetch w u")
  case (Inl e)
  then show ?thesis
    by (intro exI [of _ "[]"]) (simp add: downloadFileWithProgress_def Let_def act_def emitted_def)
next
  case (Inr r)
  show ?thesis
  proof (cases "ok r \<and> body r \<noteq> None \<and> \<not> window_destroyed w")
    case False
    then show ?thesis using Inr
      by (intro exI [of _ "[]"])
         (auto simp: downloadFileWithProgress_def Let_def act_def emitted_def split: option.splits)
  next
    case True
    then obtain b where b: "body r = Some b" and ok: "ok r" and alive: "\<not> window_destroyed w"
      by auto
    let ?t = "patch_total (content_length r)"
    let ?ps = "patch_event ?t (if positive ?t then 0 else - 1) 0
               # data_events (patch_data_event (rounding w) ?t) 0 (chunks b)"
    let ?fin = "patch_event ?t 100 (length (concat (chunks b)))"
    have rng: "\<forall>p\<in>set ?ps. phase p = ''online-patch'' \<and> percent_in_range p"
      using patch_event_range [of "if positive ?t then 0 else - 1" ?t 0]
        patch_data_event_range [of "rounding w" ?t]
      by (auto dest!: data_events_mk)
    obtain err d where pl: "pipeline (fault w) b out (fsys s) = (err, d)"
      by (cases "pipeline (fault w) b out (fsys s)") blast
    show ?thesis
    proof (cases err)
      case (Some e)
      have "emitted s (snd (downloadFileWithProgress w u out ch s)) = map (\<lambda>p. (ch, ProgressPayload p)) ?ps
          \<and> fst (downloadFileWithProgress w u out ch s) = Inl e"
        using Inr b ok alive pl Some
        by (simp add: downloadFileWithProgress_def Let_def act_def send_progress_def emitted_def)
      then show ?thesis using rng by (intro exI [of _ ?ps]) simp
    next
      case None
      have "emitted s (snd (downloadFileWithProgress w u out ch s))
          = map (\<lambda>p. (ch, ProgressPayload p)) (?ps @ [?fin])"
        using Inr b ok alive pl None
        by (simp add: downloadFileWithProgress_def Let_def act_def send_progress_def emitted_def)
      moreover have "\<forall>p\<in>set (?ps @ [?fin]). phase p = ''online-patch'' \<and> percent_in_range p"
        using rng patch_event_range [of 100 ?t "length (concat (chunks b))"] by auto
      moreover have "percent (last (?ps @ [?fin])) = 100"
        by (simp add: patch_event_def)
      ultimately show ?thesis by (intro exI [of _ "?ps @ [?fin]"]) simp
    qed
  qed
qed

lemma on_line_range: "on_line w l = Some k \<Longrightarrow> 0 \<le> k \<and> k \<le> 100"
  using normalize_percent_range
  by (auto simp: on_line_def Let_def split: option.splits jsnum.splits if_splits)

lemma line_events_range:
  "p \<in> set (line_events w ls) \<Longrightarrow> phase p = ''patching'' \<and> 0 \<le> percent p \<and> percent p \<le> 100"
  by (auto simp: line_events_def patching_event_def split: option.splits
        dest: on_line_range [OF sym])

lemma ensure_dir_sent: "sent (snd (ensure_dir w dir s)) = sent s"
  by (simp add: ensure_dir_def on_disk_def split: sum.splits)

lemma applyPWR_emitted:
  "\<exists>ps. emitted s (snd (applyPWR w pwr b dir s)) = map (\<lambda>p. (''install-progress'', ProgressPayload p)) ps
     \<and> (\<forall>p\<in>set ps. phase p = ''patching'' \<and> - 1 \<le> percent p \<and> percent p \<le> 100)
     \<and> ((\<exists>x. fst (applyPWR w pwr b dir s) = Inr x) \<longrightarrow> ps \<noteq> [] \<and> percent (last ps) = 100)"
proof -
  obtain r1 s1 where e1: "ensure_dir w dir s = (r1, s1)"
    by (cases "ensure_dir w dir s") blast
  obtain r2 s2 where e2: "ensure_dir w (dir @ [''staging-temp'']) s1 = (r2, s2)"
    by (cases "ensure_dir w (dir @ [''staging-temp'']) s1") blast
  have s1: "sent s1 = sent s" using ensure_dir_sent [of w dir s] e1 by simp
  have s2: "sent s2 = sent s" using ensure_dir_sent [of w "dir @ [''staging-temp'']" s1] e2 s1 by simp
  show ?thesis
  proof (cases r1)
    case (Inl e)
    then show ?thesis using e1 s1
      by (intro exI [of _ "[]"]) (simp add: applyPWR_def Let_def emitted_def)
  next
    case r1: (Inr u1)
    show ?thesis
    proof (cases r2)
      case (Inl e)
      then show ?thesis using e1 e2 r1 s2
        by (intro exI [of _ "[]"]) (simp add: applyPWR_def Let_def emitted_def)
    next
      case r2: (Inr u2)
      let ?args = "butler_args (dir @ [''staging-temp'']) pwr dir"
      show ?thesis
      proof (cases "spawn w b ?args (fsys s2)")
        case (SpawnFailed e)
        have "emitted s (snd (applyPWR w pwr b dir s))
            = map (\<lambda>p. (''install-progress'', ProgressPayload p)) [patching_event (- 1)]
            \<and> fst (applyPWR w pwr b dir s) = Inl e"
          using e1 e2 r1 r2 s2 SpawnFailed
          by (simp add: applyPWR_def Let_def act_def send_progress_def emitted_def)
        then show ?thesis
          by (intro exI [of _ "[patching_event (- 1)]"]) (simp add: patching_event_def)
      next
        case (Closed code ls d)
        let ?ps = "patching_event (- 1) # line_events w ls @ [patching_event 100]"
        have "emitted s (snd (applyPWR w pwr b dir s))
            = map (\<lambda>p. (''install-progress'', ProgressPayload p)) ?ps"
          using e1 e2 r1 r2 s2 Closed
          by (simp add: applyPWR_def Let_def act_def send_progress_def emitted_def)
        moreover have "\<forall>p\<in>set ?ps. phase p = ''patching'' \<and> - 1 \<le> percent p \<and> percent p \<le> 100"
          using line_events_range [of _ w ls] by (fastforce simp: patching_event_def)
        moreover have "percent (last ?ps) = 100"
          by (simp add: patching_event_def)
        ultimately show ?thesis by (intro exI [of _ ?ps]) simp
      qed
    qed
  qed
qed

lemma percents_map: "percents (map (\<lambda>p. (ch, ProgressPayload p)) ps) = map percent ps"
  by (induction ps) (simp_all add: percents_def)

lemmas c4_defs = demo_long_def demo_broken_def long_response_def broken_response_def state1_def
  emitted_def percents_def ratio_percent_def Math_round_def parseInt10_def digit_of_def
  digits_value_def is_space_def

text \<open>
  C4, as stated, fails: a response that announces 10 bytes and delivers 20 makes
  \<open>downloadPWR\<close> send \<open>percent = 200\<close>, and a download whose stream breaks ends the
  phase on \<open>percent = 50\<close>, with no final event.
\<close>

theorem progress_percent_counterexample:
  "percents (emitted state1 (snd (downloadPWR demo_long game demo_version state1))) = [0, 200, 100]
   \<and> fst (downloadPWR demo_broken game demo_version state1) = None
   \<and> percents (emitted state1 (snd (downloadPWR demo_broken game demo_version state1))) = [0, 50]"
  by (simp add: run_defs demo_defs c4_defs show3 Let_def)

text \<open>
  C4, amended: in each of the three phases every percentage sent is \<open>- 1\<close> or at least 0;
  it is at most 100 in the \<open>patching\<close> phase, and in the two download phases whenever the
  bytes received so far do not exceed the content length; and the last event of a phase
  that completes (the download has landed, the patch tool has closed) has
  \<open>percent = 100\<close>.
\<close>

theorem progress_percent_in_range:
  "(\<exists>ps. emitted s (snd (downloadPWR w g v s))
           = map (\<lambda>p. (''install-progress'', ProgressPayload p)) ps
         \<and> (\<forall>p\<in>set ps. phase p = ''pwr-download'' \<and> percent_in_range p)
         \<and> (fst (downloadPWR w g v s) \<noteq> None \<longrightarrow> ps \<noteq> [] \<and> percent (last ps) = 100))
   \<and> (\<exists>ps. emitted s (snd (downloadFileWithProgress w u out ch s))
           = map (\<lambda>p. (ch, ProgressPayload p)) ps
         \<and> (\<forall>p\<in>set ps. phase p = ''online-patch'' \<and> percent_in_range p)
         \<and> (fst (downloadFileWithProgress w u out ch s) = Inr ()
              \<longrightarrow> ps \<noteq> [] \<and> percent (last ps) = 100))
   \<and> (\<exists>ps. emitted s (snd (applyPWR w pwr b dir s))
           = map (\<lambda>p. (''install-progress'', ProgressPayload p)) ps
         \<and> (\<forall>p\<in>set ps. phase p = ''patching'' \<and> - 1 \<le> percent p \<and> percent p \<le> 100)
         \<and> ((\<exists>x. fst (applyPWR w pwr b dir s) = Inr x) \<longrightarrow> ps \<noteq> [] \<and> percent (last ps) = 100))"
  using downloadPWR_emitted [of s w g v] downloadFileWithProgress_emitted [of s w u out ch]
    applyPWR_emitted [of s w pwr b dir]
  by blast

theorem progress_percent_in_range_witness:
  "fst (downloadPWR demo game demo_version state1) \<noteq> None
   \<and> percents (emitted state1 (snd (downloadPWR demo game demo_version state1))) = [0, 50, 100, 100]
   \<and> last (percents (emitted state1 (snd (downloadPWR demo game demo_version state1)))) = 100"
proof -
  have ok: "fst (downloadPWR demo game demo_version state1) \<noteq> None"
    by (simp add: run_defs demo_defs c4_defs show3 Let_def)
  have ev: "percents (emitted state1 (snd (downloadPWR demo game demo_version state1)))
      = [0, 50, 100, 100]"
    by (simp add: run_defs demo_defs c4_defs show3 Let_def)
  obtain ps where ps: "emitted state1 (snd (downloadPWR demo game demo_version state1))
           = map (\<lambda>p. (''install-progress'', ProgressPayload p)) ps"
      and fin: "fst (downloadPWR demo game demo_version state1) \<noteq> None
         \<longrightarrow> ps \<noteq> [] \<and> percent (last ps) = 100"
    using progress_percent_in_range
            [of state1 demo game demo_version "''u''" "[]" "''c''" "[]" "[]" "[]"]
    by blast
  have "last (percents (emitted state1 (snd (downloadPWR demo game demo_version state1)))) = 100"
    using fin ok by (simp add: ps percents_map last_map)
  then show ?thesis using ok ev by simp
qed


section \<open>The lines of the patch tool\<close>

text \<open>
  C9: a line of the patch tool is forwarded as a \<open>patching\<close> event exactly when, trimmed,
  it is not empty and parses as JSON, its \<open>type\<close> contains "progress" in any case or it
  has a numeric \<open>percentage\<close> or \<open>percent\<close>, and the first numeric field among
  \<open>percentage\<close>, \<open>percent\<close>, \<open>progress\<close> exists and is not \<open>NaN\<close>. The value
  forwarded is that field, multiplied by 100 (the product of doubles, rounded as the
  runtime rounds it) when it lies in (0,1], clamped to [0,100] and rounded to the nearest
  integer, a tie going up. A line that does not parse sends nothing and raises nothing.
  These are the events that \<open>applyPWR\<close> sends: once the directories are there and the
  tool has closed, it has added the \<open>patching\<close> event with \<open>percent = - 1\<close>, then, in
  the order of the lines, one \<open>patching\<close> event for each line that is forwarded, with
  that value, then the \<open>patching\<close> event with \<open>percent = 100\<close>.
\<close>

theorem on_line_forwards_progress:
  "(on_line w line = Some k \<longleftrightarrow>
      trim line \<noteq> [] \<and>
      (\<exists>obj v. JSON_parse w (trim line) = Some obj
         \<and> (str_includes (toLowerCase (string_or_empty (js_get obj ''type''))) ''progress''
              \<or> (\<exists>n. js_get obj ''percentage'' = Some (JNum n))
              \<or> (\<exists>n. js_get obj ''percent'' = Some (JNum n)))
         \<and> (js_get obj ''percentage'' = Some (JNum v)
              \<or> (\<forall>n. js_get obj ''percentage'' \<noteq> Some (JNum n))
                  \<and> js_get obj ''percent'' = Some (JNum v)
              \<or> (\<forall>n. js_get obj ''percentage'' \<noteq> Some (JNum n))
                  \<and> (\<forall>n. js_get obj ''percent'' \<noteq> Some (JNum n))
                  \<and> js_get obj ''progress'' = Some (JNum v))
         \<and> v \<noteq> NaN \<and> k = normalize_percent (rounding w) v))
   \<and> normalize_percent rd (Fin r)
       = \<lfloor>max 0 (min 100 (if 0 < r \<and> r \<le> 1 then nearest rd (r * 100) else r)) + 1 / 2\<rfloor>
   \<and> normalize_percent rd PosInf = 100
   \<and> normalize_percent rd NegInf = 0
   \<and> (on_line w line = Some k \<longrightarrow> 0 \<le> k \<and> k \<le> 100)
   \<and> (JSON_parse w (trim line) = None \<longrightarrow> on_line w line = None)
   \<and> (fst (ensure_dir w installDir s) = Inr ()
        \<and> fst (ensure_dir w (installDir @ [''staging-temp'']) (snd (ensure_dir w installDir s)))
            = Inr ()
        \<and> spawn w butler (butler_args (installDir @ [''staging-temp'']) pwrPath installDir)
             (fsys (snd (ensure_dir w (installDir @ [''staging-temp''])
                (snd (ensure_dir w installDir s)))))
           = Closed code ls d
      \<longrightarrow> emitted s (snd (applyPWR w pwrPath butler installDir s))
          = (''install-progress'',
             ProgressPayload \<lparr>phase = ''patching'', percent = - 1, total = Undefined, current = None\<rparr>)
            # concat (map (\<lambda>l. case on_line w l of
                                 None \<Rightarrow> []
                               | Some pc \<Rightarrow>
                                   [(''install-progress'',
                                     ProgressPayload \<lparr>phase = ''patching'', percent = pc,
                                                      total = Undefined, current = None\<rparr>)]) ls)
            @ [(''install-progress'',
                ProgressPayload \<lparr>phase = ''patching'', percent = 100, total = Undefined,
                                 current = None\<rparr>)])"
proof -
  have range: "on_line w line = Some k \<longrightarrow> 0 \<le> k \<and> k \<le> 100"
    using normalize_percent_range by (auto simp: on_line_Some_iff)
  have fails: "JSON_parse w (trim line) = None \<longrightarrow> on_line w line = None"
    by (simp add: on_line_def Let_def)
  have inf: "normalize_percent rd PosInf = 100" "normalize_percent rd NegInf = 0"
    by (simp_all add: normalize_percent_def Math_round_def)
  have progress: "isProgress obj \<longleftrightarrow>
      (str_includes (toLowerCase (string_or_empty (js_get obj ''type''))) ''progress''
        \<or> (\<exists>n. js_get obj ''percentage'' = Some (JNum n))
        \<or> (\<exists>n. js_get obj ''percent'' = Some (JNum n)))" for obj
    by (auto simp: isProgress_def number_of_None_iff)
  have lines: "map (\<lambda>p. (''install-progress'', ProgressPayload p)) (line_events w ls)
      = concat (map (\<lambda>l. case on_line w l of
                            None \<Rightarrow> []
                          | Some pc \<Rightarrow>
                              [(''install-progress'',
                                ProgressPayload \<lparr>phase = ''patching'', percent = pc,
                                                 total = Undefined, current = None\<rparr>)]) ls)" for ls
    by (induction ls) (simp_all add: line_events_def patching_event_def split: option.splits)
  have events: "emitted s (snd (applyPWR w pwrPath butler installDir s))
          = (''install-progress'',
             ProgressPayload \<lparr>phase = ''patching'', percent = - 1, total = Undefined, current = None\<rparr>)
            # concat (map (\<lambda>l. case on_line w l of
                                 None \<Rightarrow> []
                               | Some pc \<Rightarrow>
                                   [(''install-progress'',
                                     ProgressPayload \<lparr>phase = ''patching'', percent = pc,
                                                      total = Undefined, current = None\<rparr>)]) ls)
            @ [(''install-progress'',
                ProgressPayload \<lparr>phase = ''patching'', percent = 100, total = Undefined,
                                 current = None\<rparr>)]"
    if a: "fst (ensure_dir w installDir s) = Inr ()
        \<and> fst (ensure_dir w (installDir @ [''staging-temp'']) (snd (ensure_dir w installDir s)))
            = Inr ()
        \<and> spawn w butler (butler_args (installDir @ [''staging-temp'']) pwrPath installDir)
             (fsys (snd (ensure_dir w (installDir @ [''staging-temp''])
                (snd (ensure_dir w installDir s)))))
           = Closed code ls d"
  proof -
    obtain s1 where s1: "ensure_dir w installDir s = (Inr (), s1)"
      using a by (cases "ensure_dir w installDir s") auto
    obtain s2 where s2: "ensure_dir w (installDir @ [''staging-temp'']) s1 = (Inr (), s2)"
      using a s1 by (cases "ensure_dir w (installDir @ [''staging-temp'']) s1") auto
    have sent1: "sent s1 = sent s" using ensure_dir_sent [of w installDir s] s1 by simp
    have sent2: "sent s2 = sent s"
      using ensure_dir_sent [of w "installDir @ [''staging-temp'']" s1] s2 sent1 by simp
    have "sent (snd (applyPWR w pwrPath butler installDir s))
        = sent s @ map (\<lambda>p. (''install-progress'', ProgressPayload p))
                     (patching_event (- 1) # line_events w ls @ [patching_event 100])"
      using a s1 s2 sent2 by (simp add: applyPWR_def Let_def act_def send_progress_def)
    then show ?thesis
      by (simp add: emitted_def lines patching_event_def)
  qed
  show ?thesis
    unfolding on_line_Some_iff line_percent_Some_iff progress
    using range fails inf normalize_percent_Fin events
    by (simp add: on_line_Some_iff line_percent_Some_iff progress)
qed

theorem on_line_forwards_progress_witness:
  "on_line demo line0 = Some 50
   \<and> JSON_parse demo (trim ''butler: warming up'') = None
   \<and> on_line demo ''butler: warming up'' = None
   \<and> spawn demo (binPath demo)
       (butler_args (demo_latest game @ [''staging-temp'']) (tempPWRPath game demo_version)
          (demo_latest game))
       (fsys (snd (ensure_dir demo (demo_latest game @ [''staging-temp''])
          (snd (ensure_dir demo (demo_latest game) state0)))))
     = Closed (Some 0) [line0, ''butler: warming up'']
         (fsys (snd (applyPWR demo (tempPWRPath game demo_version) (binPath demo)
            (demo_latest game) state0)))
   \<and> emitted state0 (snd (applyPWR demo (tempPWRPath game demo_version) (binPath demo)
        (demo_latest game) state0))
     = [(''install-progress'', ProgressPayload (patching_event (- 1))),
        (''install-progress'', ProgressPayload (patching_event 50)),
        (''install-progress'', ProgressPayload (patching_event 100))]"
proof -
  let ?dir = "demo_latest game"
  let ?args = "butler_args (?dir @ [''staging-temp'']) (tempPWRPath game demo_version) ?dir"
  let ?s2 = "snd (ensure_dir demo (?dir @ [''staging-temp''])
                (snd (ensure_dir demo ?dir state0)))"
  have t: "trim line0 = ''{\"type\":\"Progress\",\"progress\":0.5}''"
    by (simp add: line0_def trim_def is_space_def)
  have n: "normalize_percent exact_rounding (Fin (1 / 2)) = 50"
    by (simp add: normalize_percent_def Math_round_def)
  have l0: "on_line demo line0 = Some 50"
    unfolding on_line_forwards_progress [of demo line0 50 exact_rounding 0, THEN conjunct1] t
    by (intro conjI exI [of _ "JObj [(''type'', JStr ''Progress''), (''progress'', JNum (Fin (1 / 2)))]"]
          exI [of _ "Fin (1 / 2)"])
       (simp_all add: demo_def parse0_def toLowerCase_def lower_char_def n)
  have p: "JSON_parse demo (trim ''butler: warming up'') = None"
    by (simp add: demo_def parse0_def trim_def is_space_def)
  have l1: "on_line demo ''butler: warming up'' = None"
    using on_line_forwards_progress [of demo "''butler: warming up''" 0 exact_rounding 0] p by blast
  have d1: "fst (ensure_dir demo ?dir state0) = Inr ()"
    by (simp add: run_defs demo_defs is_file_def)
  have d2: "fst (ensure_dir demo (?dir @ [''staging-temp''])
              (snd (ensure_dir demo ?dir state0))) = Inr ()"
    by (simp add: run_defs demo_defs is_file_def)
  obtain d where sp: "spawn demo (binPath demo) ?args (fsys ?s2)
      = Closed (Some 0) [line0, ''butler: warming up''] d"
    by (simp add: demo_def demo_tool_def butler_args_def)
  have fs: "fsys (snd (applyPWR demo (tempPWRPath game demo_version) (binPath demo) ?dir state0)) = d"
    using d1 d2 sp
    by (cases "ensure_dir demo ?dir state0";
        cases "ensure_dir demo (?dir @ [''staging-temp'']) (snd (ensure_dir demo ?dir state0))")
       (simp add: applyPWR_def Let_def send_progress_def act_def)
  note th = on_line_forwards_progress
              [of demo line0 50 exact_rounding 0 ?dir state0 "binPath demo"
                  "tempPWRPath game demo_version" "Some 0" "[line0, ''butler: warming up'']" d]
  have "emitted state0 (snd (applyPWR demo (tempPWRPath game demo_version) (binPath demo) ?dir state0))
     = [(''install-progress'', ProgressPayload (patching_event (- 1))),
        (''install-progress'', ProgressPayload (patching_event 50)),
        (''install-progress'', ProgressPayload (patching_event 100))]"
    using th d1 d2 sp by (simp add: l0 l1 patching_event_def)
  then show ?thesis using l0 p l1 sp fs by simp
qed


section \<open>Retiring the build that holds latest\<close>

lemma on_disk_Inr: "on_disk f s = (Inr u, s') \<Longrightarrow> f (fsys s) = Inr (fsys s')"
  by (auto simp: on_disk_def split: sum.splits)

lemma on_disk_Inl: "on_disk f s = (Inl e, s') \<Longrightarrow> s' = s"
  by (auto simp: on_disk_def split: sum.splits)

lemma rmSync_Inr: "rmSync flt p d = Inr d' \<Longrightarrow> d' q = (if prefix p q then None else d q)"
  by (auto simp: rmSync_def split: option.splits)

lemma mkdirSync_frame: "mkdirSync flt p d = Inr d' \<Longrightarrow> \<not> prefix q p \<Longrightarrow> d' q = d q"
  by (auto simp: mkdirSync_def split: option.splits if_splits)

lemma renameSync_Inr:
  "renameSync flt src dst d = Inr d' \<Longrightarrow>
     d' q = (if prefix dst q then d (src @ drop (length dst) q)
             else if prefix src q then None else d q)"
  by (auto simp: renameSync_def split: option.splits if_splits)

lemma prefix_butlast_imp: "prefix a (butlast b) \<Longrightarrow> prefix a b"
  using prefix_order.trans prefixeq_butlast by blast

lemma retire_guard:
  assumes "vtype v = Release" "isLatest v = Some True"
    and "existsSync (fsys s) (getLatestDir w g)"
    and "readInstallManifest w (getLatestDir w g) (fsys s) = Some m"
    and "m_build_index m \<noteq> build_index v"
  shows "retireLatest w g v s =
     (if existsSync (fsys s) (getReleaseBuildDir w g (m_build_index m))
      then on_disk (rmSync (fault w) (getLatestDir w g)) s
      else (case on_disk (mkdirSync (fault w) (butlast (getReleaseBuildDir w g (m_build_index m)))) s of
              (Inl e, s1) \<Rightarrow> (Inl e, s1)
            | (Inr u, s1) \<Rightarrow>
                on_disk (renameSync (fault w) (getLatestDir w g)
                           (getReleaseBuildDir w g (m_build_index m))) s1))"
  using assms by (simp add: retireLatest_def Let_def)

lemma retire_existing:
  assumes g: "vtype v = Release" "isLatest v = Some True"
    "existsSync (fsys s) (getLatestDir w g)"
    "readInstallManifest w (getLatestDir w g) (fsys s) = Some m"
    "m_build_index m \<noteq> build_index v"
    and ex: "existsSync (fsys s) (getReleaseBuildDir w g (m_build_index m))"
    and np: "\<not> prefix (getLatestDir w g) (getReleaseBuildDir w g (m_build_index m))"
      "\<not> prefix (getReleaseBuildDir w g (m_build_index m)) (getLatestDir w g)"
  shows "(\<forall>q. prefix (getReleaseBuildDir w g (m_build_index m)) q
            \<longrightarrow> fsys (snd (retireLatest w g v s)) q = fsys s q)
       \<and> (fst (retireLatest w g v s) = Inr ()
            \<longrightarrow> (\<forall>q. prefix (getLatestDir w g) q \<longrightarrow> fsys (snd (retireLatest w g v s)) q = None))"
proof -
  let ?L = "getLatestDir w g" and ?T = "getReleaseBuildDir w g (m_build_index m)"
  have run: "retireLatest w g v s = on_disk (rmSync (fault w) ?L) s"
    using retire_guard [OF g] ex by simp
  obtain r s' where r: "on_disk (rmSync (fault w) ?L) s = (r, s')"
    by (cases "on_disk (rmSync (fault w) ?L) s") blast
  show ?thesis
  proof (cases r)
    case (Inl e)
    then have "s' = s" using r on_disk_Inl by blast
    then show ?thesis using run r Inl by simp
  next
    case (Inr u)
    have d: "fsys s' q = (if prefix ?L q then None else fsys s q)" for q
      using on_disk_Inr [of _ s u s'] r Inr rmSync_Inr by blast
    have "\<not> prefix ?L q" if "prefix ?T q" for q
      using that np prefix_same_cases by blast
    then show ?thesis using run r d by simp
  qed
qed

lemma retire_moved:
  assumes g: "vtype v = Release" "isLatest v = Some True"
    "existsSync (fsys s) (getLatestDir w g)"
    "readInstallManifest w (getLatestDir w g) (fsys s) = Some m"
    "m_build_index m \<noteq> build_index v"
    and nex: "\<not> existsSync (fsys s) (getReleaseBuildDir w g (m_build_index m))"
    and np: "\<not> prefix (getLatestDir w g) (getReleaseBuildDir w g (m_build_index m))"
      "\<not> prefix (getReleaseBuildDir w g (m_build_index m)) (getLatestDir w g)"
    and ok: "fst (retireLatest w g v s) = Inr ()"
  shows "(\<forall>r. fsys (snd (retireLatest w g v s)) (getReleaseBuildDir w g (m_build_index m) @ r)
               = fsys s (getLatestDir w g @ r))
       \<and> (\<forall>q. prefix (getLatestDir w g) q \<longrightarrow> fsys (snd (retireLatest w g v s)) q = None)"
proof -
  let ?L = "getLatestDir w g" and ?T = "getReleaseBuildDir w g (m_build_index m)"
  have run: "retireLatest w g v s =
      (case on_disk (mkdirSync (fault w) (butlast ?T)) s of
         (Inl e, s1) \<Rightarrow> (Inl e, s1)
       | (Inr u, s1) \<Rightarrow> on_disk (renameSync (fault w) ?L ?T) s1)"
    using retire_guard [OF g] nex by simp
  obtain r1 s1 where m: "on_disk (mkdirSync (fault w) (butlast ?T)) s = (r1, s1)"
    by (cases "on_disk (mkdirSync (fault w) (butlast ?T)) s") blast
  obtain u1 where r1: "r1 = Inr u1"
    using ok run m by (cases r1) auto
  obtain r2 s2 where rn: "on_disk (renameSync (fault w) ?L ?T) s1 = (r2, s2)"
    by (cases "on_disk (renameSync (fault w) ?L ?T) s1") blast
  have res: "retireLatest w g v s = (r2, s2)"
    using run m r1 rn by simp
  obtain u2 where r2: "r2 = Inr u2"
    using ok res by (cases r2) auto
  have d1: "fsys s1 q = fsys s q" if "\<not> prefix q (butlast ?T)" for q
    using on_disk_Inr [of _ s u1 s1] m r1 mkdirSync_frame that by blast
  have d2: "fsys s2 q = (if prefix ?T q then fsys s1 (?L @ drop (length ?T) q)
                         else if prefix ?L q then None else fsys s1 q)" for q
    using on_disk_Inr [of _ s1 u2 s2] rn r2 renameSync_Inr by blast
  have under: "\<not> prefix (?L @ r) (butlast ?T)" for r
  proof
    assume "prefix (?L @ r) (butlast ?T)"
    then have "prefix (?L @ r) ?T" by (rule prefix_butlast_imp)
    then have "prefix ?L ?T" using append_prefixD by blast
    then show False using np by simp
  qed
  have moved: "fsys s2 (?T @ r) = fsys s (?L @ r)" for r
    using d2 [of "?T @ r"] d1 [OF under [of r]] by simp
  have gone: "fsys s2 q = None" if "prefix ?L q" for q
  proof -
    have "\<not> prefix ?T q" using that np prefix_same_cases by blast
    then show ?thesis using d2 [of q] that by simp
  qed
  show ?thesis using moved gone by (simp add: res)
qed


lemma mkdirSync_keeps: "mkdirSync flt p d = Inr d' \<Longrightarrow> d q \<noteq> None \<Longrightarrow> d' q = d q"
  by (auto simp: mkdirSync_def split: option.splits if_splits)

lemma mkdirSync_makes: "mkdirSync flt p d = Inr d' \<Longrightarrow> d' p = Some Dir"
proof -
  assume a: "mkdirSync flt p d = Inr d'"
  then have nf: "\<not> is_file (d p)"
    by (auto simp: mkdirSync_def list_ex_iff split: option.splits if_splits)
  show ?thesis
  proof (cases "d p")
    case None
    then show ?thesis using a by (auto simp: mkdirSync_def split: option.splits if_splits)
  next
    case (Some n)
    then have "n = Dir" using nf by (cases n) (auto simp: is_file_def)
    then show ?thesis using a Some by (auto simp: mkdirSync_def split: option.splits if_splits)
  qed
qed

lemma retire_succeeds:
  assumes g: "vtype v = Release" "isLatest v = Some True"
    "existsSync (fsys s) (getLatestDir w g)"
    "readInstallManifest w (getLatestDir w g) (fsys s) = Some m"
    "m_build_index m \<noteq> build_index v"
    and np: "\<not> prefix (getLatestDir w g) (getReleaseBuildDir w g (m_build_index m))"
      "\<not> prefix (getReleaseBuildDir w g (m_build_index m)) (getLatestDir w g)"
    and flt: "fault w (OpRm (getLatestDir w g)) = None"
      "fault w (OpMkdir (butlast (getReleaseBuildDir w g (m_build_index m)))) = None"
      "fault w (OpRename (getLatestDir w g) (getReleaseBuildDir w g (m_build_index m))) = None"
    and way: "\<not> list_ex (\<lambda>q. is_file (fsys s q)) (prefixes (butlast (getReleaseBuildDir w g (m_build_index m))))"
  shows "fst (retireLatest w g v s) = Inr ()"
proof (cases "existsSync (fsys s) (getReleaseBuildDir w g (m_build_index m))")
  case True
  then show ?thesis
    using retire_guard [OF g] flt by (simp add: on_disk_def rmSync_def)
next
  case False
  let ?L = "getLatestDir w g" and ?T = "getReleaseBuildDir w g (m_build_index m)"
  obtain d1 where mk: "mkdirSync (fault w) (butlast ?T) (fsys s) = Inr d1"
    using flt way by (simp add: mkdirSync_def)
  have T: "?T \<noteq> []" using np by auto
  have "\<not> prefix ?T (butlast ?T)"
  proof
    assume "prefix ?T (butlast ?T)"
    then have "length ?T \<le> length (butlast ?T)" by (rule prefix_length_le)
    then show False using T by (cases ?T rule: rev_cases) auto
  qed
  then have dT: "d1 ?T = None"
    using mkdirSync_frame [OF mk] False by (simp add: existsSync_def)
  have dL: "d1 ?L \<noteq> None"
    using mkdirSync_keeps [OF mk, of ?L] g(3) by (simp add: existsSync_def)
  have dP: "d1 (butlast ?T) = Some Dir"
    using mkdirSync_makes [OF mk] .
  have "\<exists>d2. renameSync (fault w) ?L ?T d1 = Inr d2"
    using dT dL dP np flt by (simp add: renameSync_def)
  then show ?thesis
    using retire_guard [OF g] False mk by (auto simp: on_disk_def)
qed


lemma show56: "show_int 5 = ''5''" "show_int 6 = ''6''"
  by (simp_all add: show_int_def show_nat.simps [of 5] show_nat.simps [of 6] digit_char_def)

lemmas c8_defs = disk5_def state5_def state55_def release6_def prerelease6_def

lemma demo_retire_pre:
  "vtype release6 = Release" "isLatest release6 = Some True"
  "getLatestDir demo game = [''hytale'', ''game'', ''release'', ''latest'']"
  "getReleaseBuildDir demo game 5 = [''hytale'', ''game'', ''release'', ''build-5'']"
  "build_index release6 = 6"
  "fault demo = (\<lambda>op. None)"
  by (simp_all add: c8_defs demo_defs show56)

lemma demo_read5:
  "readInstallManifest demo [''hytale'', ''game'', ''release'', ''latest''] (fsys state5)
     = Some \<lparr>m_build_index = 5, m_build_name = None\<rparr>"
  "readInstallManifest demo [''hytale'', ''game'', ''release'', ''latest''] (fsys state55)
     = Some \<lparr>m_build_index = 5, m_build_name = None\<rparr>"
  by (simp_all add: c8_defs demo_defs parseInt10_def is_space_def digit_of_def digits_value_def)

text \<open>
  C8, as stated, fails: the retirement is guarded by \<open>version.type === "release"\<close>. A
  pre-release that is the latest of its kind is installed while build 5 holds \<open>latest\<close>,
  and \<open>latest\<close> is neither moved nor deleted.
\<close>

theorem retire_latest_counterexample:
  "isLatest prerelease6 = Some True
   \<and> build_index prerelease6 = 6
   \<and> readInstallManifest demo (getLatestDir demo game) (fsys state5)
       = Some \<lparr>m_build_index = 5, m_build_name = None\<rparr>
   \<and> fst (installGame demo game prerelease6 state5) = True
   \<and> fsys (snd (installGame demo game prerelease6 state5))
        [''hytale'', ''game'', ''release'', ''latest'', ''manifest.json''] = Some (File ''5'' 420)
   \<and> fsys (snd (installGame demo game prerelease6 state5))
        [''hytale'', ''game'', ''release'', ''build-5''] = None
   \<and> fsys (snd (retireLatest demo game prerelease6 state5)) = fsys state5"
proof -
  have a: "isLatest prerelease6 = Some True" "build_index prerelease6 = 6"
    by (simp_all add: c8_defs demo_defs)
  have b: "readInstallManifest demo (getLatestDir demo game) (fsys state5)
       = Some \<lparr>m_build_index = 5, m_build_name = None\<rparr>"
    by (simp add: demo_retire_pre demo_read5)
  have c: "fst (installGame demo game prerelease6 state5) = True"
    by (simp add: run_defs c8_defs demo_defs show56 Let_def is_file_def)
  have d: "fsys (snd (installGame demo game prerelease6 state5))
        [''hytale'', ''game'', ''release'', ''latest'', ''manifest.json''] = Some (File ''5'' 420)"
    by (simp add: run_defs c8_defs demo_defs show56 Let_def is_file_def)
  have e: "fsys (snd (installGame demo game prerelease6 state5))
        [''hytale'', ''game'', ''release'', ''build-5''] = None"
    by (simp add: run_defs c8_defs demo_defs show56 Let_def is_file_def)
  have f: "fsys (snd (retireLatest demo game prerelease6 state5)) = fsys state5"
    by (simp add: retireLatest_def c8_defs)
  show ?thesis using a b c d e f by simp
qed

text \<open>
  C8, amended: when a release that is latest is installed while \<open>latest\<close> holds another
  build, by its manifest, and neither \<open>latest\<close> nor the directory of that build lies
  inside the other: if the numbered directory exists, nothing under it changes, and
  \<open>latest\<close> is deleted when the step completes; if it does not exist and the step
  completes, what was under \<open>latest\<close> is under the numbered directory and nothing is
  left under \<open>latest\<close>. The step completes unless the operating system refuses the call
  or a file is in the way of the parent directory.
\<close>

theorem retire_latest_release:
  assumes "vtype v = Release" and "isLatest v = Some True"
      and "existsSync (fsys s) (getLatestDir w g)"
      and "readInstallManifest w (getLatestDir w g) (fsys s) = Some m"
      and "m_build_index m \<noteq> build_index v"
      and "\<not> prefix (getLatestDir w g) (getReleaseBuildDir w g (m_build_index m))"
      and "\<not> prefix (getReleaseBuildDir w g (m_build_index m)) (getLatestDir w g)"
  shows "(existsSync (fsys s) (getReleaseBuildDir w g (m_build_index m)) \<longrightarrow>
           (\<forall>q. prefix (getReleaseBuildDir w g (m_build_index m)) q
                 \<longrightarrow> fsys (snd (retireLatest w g v s)) q = fsys s q)
           \<and> (fst (retireLatest w g v s) = Inr () \<longrightarrow>
                (\<forall>q. prefix (getLatestDir w g) q \<longrightarrow> fsys (snd (retireLatest w g v s)) q = None)))
       \<and> (\<not> existsSync (fsys s) (getReleaseBuildDir w g (m_build_index m))
            \<and> fst (retireLatest w g v s) = Inr () \<longrightarrow>
           (\<forall>r. fsys (snd (retireLatest w g v s)) (getReleaseBuildDir w g (m_build_index m) @ r)
                 = fsys s (getLatestDir w g @ r))
           \<and> (\<forall>q. prefix (getLatestDir w g) q \<longrightarrow> fsys (snd (retireLatest w g v s)) q = None))
       \<and> (fault w (OpRm (getLatestDir w g)) = None
            \<and> fault w (OpMkdir (butlast (getReleaseBuildDir w g (m_build_index m)))) = None
            \<and> fault w (OpRename (getLatestDir w g) (getReleaseBuildDir w g (m_build_index m))) = None
            \<and> \<not> list_ex (\<lambda>q. is_file (fsys s q))
                   (prefixes (butlast (getReleaseBuildDir w g (m_build_index m))))
           \<longrightarrow> fst (retireLatest w g v s) = Inr ())"
  using retire_existing [OF assms(1-5) _ assms(6,7)] retire_moved [OF assms(1-5) _ assms(6,7)]
    retire_succeeds [OF assms]
  by blast

theorem retire_latest_release_witness:
  "fsys (snd (retireLatest demo game release6 state5))
     [''hytale'', ''game'', ''release'', ''build-5'', ''manifest.json''] = Some (File ''5'' 420)
   \<and> fsys (snd (retireLatest demo game release6 state5))
     [''hytale'', ''game'', ''release'', ''latest'', ''manifest.json''] = None
   \<and> fsys (snd (retireLatest demo game release6 state55))
     [''hytale'', ''game'', ''release'', ''build-5'', ''kept''] = Some (File ''canonical'' 420)
   \<and> fsys (snd (retireLatest demo game release6 state55))
     [''hytale'', ''game'', ''release'', ''latest'', ''manifest.json''] = None"
proof -
  let ?L = "[''hytale'', ''game'', ''release'', ''latest'']"
  let ?T = "[''hytale'', ''game'', ''release'', ''build-5'']"
  let ?m = "\<lparr>m_build_index = 5, m_build_name = None\<rparr>"
  have a: "existsSync (fsys state5) ?L" "\<not> existsSync (fsys state5) ?T"
    "fsys state5 (?L @ [''manifest.json'']) = Some (File ''5'' 420)"
    "\<not> list_ex (\<lambda>q. is_file (fsys state5 q)) (prefixes (butlast ?T))"
    by (simp_all add: existsSync_def c8_defs demo_defs is_file_def)
  have b: "existsSync (fsys state55) ?L" "existsSync (fsys state55) ?T"
    "fsys state55 (?T @ [''kept'']) = Some (File ''canonical'' 420)"
    "\<not> list_ex (\<lambda>q. is_file (fsys state55 q)) (prefixes (butlast ?T))"
    by (simp_all add: existsSync_def c8_defs demo_defs is_file_def)
  have np: "\<not> prefix ?L ?T" "\<not> prefix ?T ?L" by simp_all
  have t5: "(\<not> existsSync (fsys state5) ?T \<and> fst (retireLatest demo game release6 state5) = Inr ()
       \<longrightarrow> (\<forall>r. fsys (snd (retireLatest demo game release6 state5)) (?T @ r) = fsys state5 (?L @ r))
           \<and> (\<forall>q. prefix ?L q \<longrightarrow> fsys (snd (retireLatest demo game release6 state5)) q = None))
     \<and> (\<not> list_ex (\<lambda>q. is_file (fsys state5 q)) (prefixes (butlast ?T))
         \<longrightarrow> fst (retireLatest demo game release6 state5) = Inr ())"
    using retire_latest_release [of release6 state5 demo game ?m] a(1) np
    by (simp add: demo_retire_pre demo_read5)
  have t55: "(existsSync (fsys state55) ?T \<longrightarrow>
           (\<forall>q. prefix ?T q \<longrightarrow> fsys (snd (retireLatest demo game release6 state55)) q = fsys state55 q)
           \<and> (fst (retireLatest demo game release6 state55) = Inr () \<longrightarrow>
                (\<forall>q. prefix ?L q \<longrightarrow> fsys (snd (retireLatest demo game release6 state55)) q = None)))
     \<and> (\<not> list_ex (\<lambda>q. is_file (fsys state55 q)) (prefixes (butlast ?T))
         \<longrightarrow> fst (retireLatest demo game release6 state55) = Inr ())"
    using retire_latest_release [of release6 state55 demo game ?m] b(1) np
    by (simp add: demo_retire_pre demo_read5)
  have m1: "fsys (snd (retireLatest demo game release6 state5)) (?T @ [''manifest.json''])
      = Some (File ''5'' 420)"
    using t5 a by metis
  have m2: "fsys (snd (retireLatest demo game release6 state5)) (?L @ [''manifest.json'']) = None"
    using t5 a by (metis prefixI)
  have m3: "fsys (snd (retireLatest demo game release6 state55)) (?T @ [''kept''])
      = Some (File ''canonical'' 420)"
    using t55 b by (metis prefixI)
  have m4: "fsys (snd (retireLatest demo game release6 state55)) (?L @ [''manifest.json'']) = None"
    using t55 b by (metis prefixI)
  show ?thesis using m1 m2 m3 m4 by simp
qed


section \<open>Best-effort steps of the installation\<close>

text \<open>
  What follows the deletion of the artifact and the writing of the manifest cannot fail:
  \<open>ensureClientExecutable\<close> swallows every error of \<open>statSync\<close> and \<open>chmodSync\<close>.
\<close>

lemma afterApply_best_effort:
  assumes "gameFinalDir \<noteq> []"
      and "unlinkSync (fault w) tempPath (fsys s) = Inr d"
      and "fst (writeInstallManifest w installDir version d) = None"
  shows "fst (afterApply w tempPath installDir version gameFinalDir s) = Inr ()"
  using assms
  by (cases "writeInstallManifest w installDir version d")
     (simp add: afterApply_def on_disk_def effect_def)

text \<open>
  C5 does not hold of the code: \<open>fs.unlinkSync(tempPWRPath)\<close> at lines 301 and 330 is
  outside any \<open>try\<close>. When the operating system refuses to unlink the artifact, the
  installation, whose patch has been applied, sends \<open>install-error\<close>, returns false and
  writes no manifest. A refused \<open>chmodSync\<close> on the client, on the other hand, is
  swallowed and the installation reports success.
\<close>

theorem unlink_failure_fails_install:
  "fst (installGame demo_busy game demo_version state0) = False
   \<and> last (sent (snd (installGame demo_busy game demo_version state0)))
       = (''install-error'', MessagePayload ''EBUSY'')
   \<and> readInstallManifest demo_busy (demo_latest game)
        (fsys (snd (installGame demo_busy game demo_version state0))) = None
   \<and> fsys (snd (installGame demo_busy game demo_version state0)) (demo_client (demo_latest game))
       = Some (File ''client'' 420)
   \<and> fst (installGame demo_no_chmod game demo_version state0) = True"
proof -
  have a: "fst (installGame demo_busy game demo_version state0) = False"
    by (simp add: demo_busy_def busy_def run_defs demo_defs show3 Let_def is_file_def)
  have b: "last (sent (snd (installGame demo_busy game demo_version state0)))
       = (''install-error'', MessagePayload ''EBUSY'')"
    by (simp add: demo_busy_def busy_def run_defs demo_defs show3 Let_def is_file_def)
  have c: "readInstallManifest demo_busy (demo_latest game)
        (fsys (snd (installGame demo_busy game demo_version state0))) = None"
    by (simp add: demo_busy_def busy_def run_defs demo_defs show3 Let_def is_file_def)
  have d: "fsys (snd (installGame demo_busy game demo_version state0)) (demo_client (demo_latest game))
       = Some (File ''client'' 420)"
    by (simp add: demo_busy_def busy_def run_defs demo_defs show3 Let_def is_file_def)
  have e: "fst (installGame demo_no_chmod game demo_version state0) = True"
    by (simp add: demo_no_chmod_def run_defs demo_defs show3 Let_def is_file_def)
  show ?thesis using a b c d e by simp
qed


section \<open>The decision to patch\<close>

lemma effect_acts: "acts (snd (effect f s)) = acts s"
  by (simp add: effect_def split: prod.splits option.splits)

lemma on_disk_acts: "acts (snd (on_disk f s)) = acts s"
  by (simp add: on_disk_def split: sum.splits)

lemma retireLatest_acts: "acts (snd (retireLatest w g v s)) = acts s"
  by (simp add: retireLatest_def Let_def on_disk_def split: option.splits sum.splits)

lemma ensureJRE_acts: "set (acts (snd (ensureJRE w g found s))) \<subseteq> set (acts s) \<union> {RunInstallJRE g}"
  by (auto simp: ensureJRE_def Let_def act_def split: option.splits)

lemma spec_patch_required_iff:
  "spec_patch_required w g v d \<longleftrightarrow>
     (\<not> alreadyOnThisBuild (readInstallManifest w (resolveInstallDir w g v) d) v
      \<or> \<not> client (checkGameInstallation w g v d) \<or> \<not> server (checkGameInstallation w g v d))"
  by (auto simp: spec_patch_required_def alreadyOnThisBuild_def split: option.splits)


lemma decision:
  assumes "effect (migrateLegacyChannelInstallIfNeeded w g (vtype v)) s = (Inr (), s1)"
      and "retireLatest w g v s1 = (Inr (), s2)"
      and "on_disk (mkdirSync (fault w) g) s2 = (Inr (), s3)"
      and "ensureJRE w g (jre (checkGameInstallation w g v (fsys s2)))
             (send ''install-started'' NoPayload s3) = (Inr (), s4)"
  shows "installGame_try w g v s =
           (if spec_patch_required w g v (fsys s2)
            then patchBuild w g v (resolveInstallDir w g v) s4
            else (Inr (), s4))"
  using assms by (simp add: installGame_try_def Let_def spec_patch_required_iff)

lemma send_acts: "acts (send ch p s) = acts s"
  by (simp add: send_def)

lemma no_patch_acts:
  assumes "\<not> spec_patch_required w g v
              (fsys (snd (retireLatest w g v
                 (snd (effect (migrateLegacyChannelInstallIfNeeded w g (vtype v)) s)))))"
  shows "set (acts (snd (installGame w g v s))) \<subseteq> set (acts s) \<union> {RunInstallJRE g}"
proof -
  let ?mig = "effect (migrateLegacyChannelInstallIfNeeded w g (vtype v)) s"
  let ?ret = "retireLatest w g v (snd ?mig)"
  let ?mk = "on_disk (mkdirSync (fault w) g) (snd ?ret)"
  let ?jre = "ensureJRE w g (jre (checkGameInstallation w g v (fsys (snd ?ret))))
                (send ''install-started'' NoPayload (snd ?mk))"
  have a1: "acts (snd ?mig) = acts s" by (rule effect_acts)
  have a2: "acts (snd ?ret) = acts s" using retireLatest_acts [of w g v "snd ?mig"] a1 by simp
  have a3: "acts (snd ?mk) = acts s" using on_disk_acts [of _ "snd ?ret"] a2 by simp
  have a4: "set (acts (snd ?jre)) \<subseteq> set (acts s) \<union> {RunInstallJRE g}"
    using ensureJRE_acts [of w g _ "send ''install-started'' NoPayload (snd ?mk)"] a3
    by (simp add: send_acts)
  have "acts (snd (installGame_try w g v s)) = acts (snd ?mig)
      \<or> acts (snd (installGame_try w g v s)) = acts (snd ?ret)
      \<or> acts (snd (installGame_try w g v s)) = acts (snd ?mk)
      \<or> acts (snd (installGame_try w g v s)) = acts (snd ?jre)"
    using assms
    by (cases ?mig; cases ?ret; cases ?mk; cases ?jre)
       (auto simp: installGame_try_def Let_def spec_patch_required_iff split: sum.splits)
  then have "set (acts (snd (installGame_try w g v s))) \<subseteq> set (acts s) \<union> {RunInstallJRE g}"
    using a1 a2 a3 a4 by auto
  then show ?thesis
    by (cases "installGame_try w g v s") (auto simp: installGame_def send_acts split: sum.splits)
qed


lemma prelude_failure:
  assumes "fst (effect (migrateLegacyChannelInstallIfNeeded w g (vtype v)) s) \<noteq> Inr ()
     \<or> fst (retireLatest w g v (snd (effect (migrateLegacyChannelInstallIfNeeded w g (vtype v)) s)))
         \<noteq> Inr ()
     \<or> fst (on_disk (mkdirSync (fault w) g)
           (snd (retireLatest w g v
              (snd (effect (migrateLegacyChannelInstallIfNeeded w g (vtype v)) s))))) \<noteq> Inr ()
     \<or> fst (ensureJRE w g
           (jre (checkGameInstallation w g v
              (fsys (snd (retireLatest w g v
                 (snd (effect (migrateLegacyChannelInstallIfNeeded w g (vtype v)) s)))))))
           (send ''install-started'' NoPayload
              (snd (on_disk (mkdirSync (fault w) g)
                 (snd (retireLatest w g v
                    (snd (effect (migrateLegacyChannelInstallIfNeeded w g (vtype v)) s)))))))) \<noteq> Inr ()"
  shows "fst (installGame w g v s) = False
       \<and> set (acts (snd (installGame w g v s))) \<subseteq> set (acts s) \<union> {RunInstallJRE g}"
proof -
  let ?mig = "effect (migrateLegacyChannelInstallIfNeeded w g (vtype v)) s"
  let ?ret = "retireLatest w g v (snd ?mig)"
  let ?mk = "on_disk (mkdirSync (fault w) g) (snd ?ret)"
  let ?jre = "ensureJRE w g (jre (checkGameInstallation w g v (fsys (snd ?ret))))
                (send ''install-started'' NoPayload (snd ?mk))"
  have a1: "acts (snd ?mig) = acts s" by (rule effect_acts)
  have a2: "acts (snd ?ret) = acts s" using retireLatest_acts [of w g v "snd ?mig"] a1 by simp
  have a3: "acts (snd ?mk) = acts s" using on_disk_acts [of _ "snd ?ret"] a2 by simp
  have a4: "set (acts (snd ?jre)) \<subseteq> set (acts s) \<union> {RunInstallJRE g}"
    using ensureJRE_acts [of w g _ "send ''install-started'' NoPayload (snd ?mk)"] a3
    by (simp add: send_acts)
  have "\<exists>e. fst (installGame_try w g v s) = Inl e
      \<and> (acts (snd (installGame_try w g v s)) = acts (snd ?mig)
      \<or> acts (snd (installGame_try w g v s)) = acts (snd ?ret)
      \<or> acts (snd (installGame_try w g v s)) = acts (snd ?mk)
      \<or> acts (snd (installGame_try w g v s)) = acts (snd ?jre))"
    using assms
    by (cases ?mig; cases ?ret; cases ?mk; cases ?jre)
       (auto simp: installGame_try_def Let_def split: sum.splits)
  then obtain e where e: "fst (installGame_try w g v s) = Inl e"
    and d: "acts (snd (installGame_try w g v s)) = acts (snd ?mig)
      \<or> acts (snd (installGame_try w g v s)) = acts (snd ?ret)
      \<or> acts (snd (installGame_try w g v s)) = acts (snd ?mk)
      \<or> acts (snd (installGame_try w g v s)) = acts (snd ?jre)"
    by blast
  have "set (acts (snd (installGame_try w g v s))) \<subseteq> set (acts s) \<union> {RunInstallJRE g}"
    using d a1 a2 a3 a4 by auto
  with e show ?thesis
    by (cases "installGame_try w g v s") (auto simp: installGame_def send_acts split: sum.splits)
qed

lemma downloadPWR_fetches: "Fetch (url v) \<in> set (acts (snd (downloadPWR w g v s)))"
  by (auto simp: downloadPWR_def Let_def act_def send_progress_def
        split: sum.splits option.splits prod.splits)

lemma ensure_dir_acts: "acts (snd (ensure_dir w dir s)) = acts s"
  by (simp add: ensure_dir_def on_disk_acts)

lemma applyPWR_acts: "set (acts s) \<subseteq> set (acts (snd (applyPWR w p b dir s)))"
proof -
  obtain r1 s1 where e1: "ensure_dir w dir s = (r1, s1)"
    by (cases "ensure_dir w dir s") blast
  obtain r2 s2 where e2: "ensure_dir w (dir @ [''staging-temp'']) s1 = (r2, s2)"
    by (cases "ensure_dir w (dir @ [''staging-temp'']) s1") blast
  have "acts s1 = acts s" using ensure_dir_acts [of w dir s] e1 by simp
  moreover have "acts s2 = acts s1"
    using ensure_dir_acts [of w "dir @ [''staging-temp'']" s1] e2 by simp
  ultimately show ?thesis using e1 e2
    by (auto simp: applyPWR_def Let_def act_def send_progress_def
          split: sum.splits spawn_result.splits)
qed

lemma ensureClientExecutable_acts: "acts (ensureClientExecutable w dir s) = acts s"
  by (simp add: ensureClientExecutable_def ensureExecutable_def ignoring_def
        split: sum.splits)

lemma afterApply_acts: "acts (snd (afterApply w t dir v f s)) = acts s"
proof -
  obtain r1 s1 where u: "on_disk (unlinkSync (fault w) t) s = (r1, s1)"
    by (cases "on_disk (unlinkSync (fault w) t) s") blast
  obtain r2 s2 where m: "effect (writeInstallManifest w dir v) s1 = (r2, s2)"
    by (cases "effect (writeInstallManifest w dir v) s1") blast
  have "acts s1 = acts s" using on_disk_acts [of "unlinkSync (fault w) t" s] u by simp
  moreover have "acts s2 = acts s1"
    using effect_acts [of "writeInstallManifest w dir v" s1] m by simp
  ultimately show ?thesis using u m
    by (auto simp: afterApply_def ensureClientExecutable_acts split: sum.splits)
qed

lemma patchBuild_fetches:
  assumes "installButler w s = (Some b, s1)"
  shows "Fetch (url v) \<in> set (acts (snd (patchBuild w g v dir s)))"
proof -
  obtain r2 s2 where d: "downloadPWR w g v s1 = (r2, s2)"
    by (cases "downloadPWR w g v s1") blast
  have f: "Fetch (url v) \<in> set (acts s2)"
    using downloadPWR_fetches [of v w g s1] d by simp
  show ?thesis
  proof (cases r2)
    case None
    then show ?thesis using assms d f by (simp add: patchBuild_def)
  next
    case (Some t)
    obtain r3 s3 where a: "applyPWR w t b dir s2 = (r3, s3)"
      by (cases "applyPWR w t b dir s2") blast
    have f3: "Fetch (url v) \<in> set (acts s3)"
      using applyPWR_acts [of s2 w t b dir] a f by auto
    show ?thesis
      using assms d Some a f3 by (cases r3) (simp_all add: patchBuild_def afterApply_acts)
  qed
qed


lemma installGame_acts: "acts (snd (installGame w g v s)) = acts (snd (installGame_try w g v s))"
  by (cases "installGame_try w g v s") (auto simp: installGame_def send_acts split: sum.splits)

lemmas c1_defs = demo_nojre_def state3_def spec_patch_required_def parseInt10_def is_space_def
  digit_of_def digits_value_def

text \<open>
  C1, as stated, fails: the decision is reached only when the steps before it succeed.
  With a runtime installer that fails, an install directory without a manifest is not
  patched (nothing is fetched or spawned), and an install directory whose manifest matches
  and whose client and server are present does not report success.
\<close>

theorem patching_iff_required_counterexample:
  "spec_patch_required demo_nojre game demo_version (fsys state0)
   \<and> fst (installGame demo_nojre game demo_version state0) = False
   \<and> acts (snd (installGame demo_nojre game demo_version state0)) = [RunInstallJRE game]
   \<and> \<not> spec_patch_required demo_nojre game demo_version (fsys state3)
   \<and> fst (installGame demo_nojre game demo_version state3) = False"
proof -
  have a: "spec_patch_required demo_nojre game demo_version (fsys state0)"
    by (simp add: c1_defs demo_defs)
  have b: "fst (installGame demo_nojre game demo_version state0) = False"
    by (simp add: c1_defs run_defs demo_defs show3 Let_def is_file_def)
  have c: "acts (snd (installGame demo_nojre game demo_version state0)) = [RunInstallJRE game]"
    by (simp add: c1_defs run_defs demo_defs show3 Let_def is_file_def)
  have d: "\<not> spec_patch_required demo_nojre game demo_version (fsys state3)"
    by (simp add: c1_defs demo_defs)
  have e: "fst (installGame demo_nojre game demo_version state3) = False"
    by (simp add: c1_defs run_defs demo_defs show3 Let_def is_file_def)
  show ?thesis using a b c d e by simp
qed

text \<open>
  C1, amended: when the steps before the decision succeed (migration, retirement, creation
  of the game directory, installation of a missing runtime), the patch sequence (patch
  tool, download, subprocess) runs if and only if the manifest read from the resolved
  install directory differs from the target's build index, or matches while the client or
  the server is missing; it fetches the artifact as soon as the patch tool is available.
  In the other case the invocation reports success. Whenever patching is not required, and
  whenever a step before the decision fails, the invocation fetches nothing and spawns
  nothing, the runtime installer apart; in the second case it reports failure.
\<close>

theorem patching_iff_required:
  "(effect (migrateLegacyChannelInstallIfNeeded w g (vtype v)) s = (Inr (), s1)
     \<and> retireLatest w g v s1 = (Inr (), s2)
     \<and> on_disk (mkdirSync (fault w) g) s2 = (Inr (), s3)
     \<and> ensureJRE w g (jre (checkGameInstallation w g v (fsys s2)))
          (send ''install-started'' NoPayload s3) = (Inr (), s4)
    \<longrightarrow> (spec_patch_required w g v (fsys s2) \<longrightarrow>
           installGame_try w g v s = patchBuild w g v (resolveInstallDir w g v) s4
           \<and> (\<forall>b s5. installButler w s4 = (Some b, s5)
                 \<longrightarrow> Fetch (url v) \<in> set (acts (snd (installGame w g v s)))))
        \<and> (\<not> spec_patch_required w g v (fsys s2) \<longrightarrow>
           installGame w g v s = (True, send ''install-finished'' (VersionPayload v) s4)))
   \<and> (\<not> spec_patch_required w g v
          (fsys (snd (retireLatest w g v
             (snd (effect (migrateLegacyChannelInstallIfNeeded w g (vtype v)) s)))))
      \<longrightarrow> set (acts (snd (installGame w g v s))) \<subseteq> set (acts s) \<union> {RunInstallJRE g})
   \<and> (fst (effect (migrateLegacyChannelInstallIfNeeded w g (vtype v)) s) \<noteq> Inr ()
     \<or> fst (retireLatest w g v (snd (effect (migrateLegacyChannelInstallIfNeeded w g (vtype v)) s)))
         \<noteq> Inr ()
     \<or> fst (on_disk (mkdirSync (fault w) g)
           (snd (retireLatest w g v
              (snd (effect (migrateLegacyChannelInstallIfNeeded w g (vtype v)) s))))) \<noteq> Inr ()
     \<or> fst (ensureJRE w g
           (jre (checkGameInstallation w g v
              (fsys (snd (retireLatest w g v
                 (snd (effect (migrateLegacyChannelInstallIfNeeded w g (vtype v)) s)))))))
           (send ''install-started'' NoPayload
              (snd (on_disk (mkdirSync (fault w) g)
                 (snd (retireLatest w g v
                    (snd (effect (migrateLegacyChannelInstallIfNeeded w g (vtype v)) s)))))))) \<noteq> Inr ()
      \<longrightarrow> fst (installGame w g v s) = False
          \<and> set (acts (snd (installGame w g v s))) \<subseteq> set (acts s) \<union> {RunInstallJRE g})"
proof (intro conjI impI allI)
  assume p: "effect (migrateLegacyChannelInstallIfNeeded w g (vtype v)) s = (Inr (), s1)
     \<and> retireLatest w g v s1 = (Inr (), s2)
     \<and> on_disk (mkdirSync (fault w) g) s2 = (Inr (), s3)
     \<and> ensureJRE w g (jre (checkGameInstallation w g v (fsys s2)))
          (send ''install-started'' NoPayload s3) = (Inr (), s4)"
  then have d: "installGame_try w g v s =
           (if spec_patch_required w g v (fsys s2)
            then patchBuild w g v (resolveInstallDir w g v) s4
            else (Inr (), s4))"
    using decision by blast
  {
    assume r: "spec_patch_required w g v (fsys s2)"
    show "installGame_try w g v s = patchBuild w g v (resolveInstallDir w g v) s4"
      using d r by simp
    fix b s5
    assume "installButler w s4 = (Some b, s5)"
    then show "Fetch (url v) \<in> set (acts (snd (installGame w g v s)))"
      using patchBuild_fetches [of w s4 b s5 v g "resolveInstallDir w g v"] d r
      by (simp add: installGame_acts)
  }
  {
    assume "\<not> spec_patch_required w g v (fsys s2)"
    then show "installGame w g v s = (True, send ''install-finished'' (VersionPayload v) s4)"
      using d by (simp add: installGame_def)
  }
next
  assume "\<not> spec_patch_required w g v
          (fsys (snd (retireLatest w g v
             (snd (effect (migrateLegacyChannelInstallIfNeeded w g (vtype v)) s)))))"
  then show "set (acts (snd (installGame w g v s))) \<subseteq> set (acts s) \<union> {RunInstallJRE g}"
    by (rule no_patch_acts)
next
  assume a: "fst (effect (migrateLegacyChannelInstallIfNeeded w g (vtype v)) s) \<noteq> Inr ()
     \<or> fst (retireLatest w g v (snd (effect (migrateLegacyChannelInstallIfNeeded w g (vtype v)) s)))
         \<noteq> Inr ()
     \<or> fst (on_disk (mkdirSync (fault w) g)
           (snd (retireLatest w g v
              (snd (effect (migrateLegacyChannelInstallIfNeeded w g (vtype v)) s))))) \<noteq> Inr ()
     \<or> fst (ensureJRE w g
           (jre (checkGameInstallation w g v
              (fsys (snd (retireLatest w g v
                 (snd (effect (migrateLegacyChannelInstallIfNeeded w g (vtype v)) s)))))))
           (send ''install-started'' NoPayload
              (snd (on_disk (mkdirSync (fault w) g)
                 (snd (retireLatest w g v
                    (snd (effect (migrateLegacyChannelInstallIfNeeded w g (vtype v)) s)))))))) \<noteq> Inr ()"
  show "fst (installGame w g v s) = False" using prelude_failure [OF a] by simp
  show "set (acts (snd (installGame w g v s))) \<subseteq> set (acts s) \<union> {RunInstallJRE g}"
    using prelude_failure [OF a] by simp
qed

theorem patching_iff_required_witness:
  "spec_patch_required demo game demo_version (fsys state0)
   \<and> Fetch ''https://x/b3.patch'' \<in> set (acts (snd (installGame demo game demo_version state0)))
   \<and> \<not> spec_patch_required demo game demo_version (fsys state3)
   \<and> set (acts (snd (installGame demo game demo_version state3))) \<subseteq> {RunInstallJRE game}
   \<and> fst (installGame demo game demo_version state3) = True"
proof -
  let ?mig = "effect (migrateLegacyChannelInstallIfNeeded demo game (vtype demo_version)) state0"
  let ?ret = "retireLatest demo game demo_version (snd ?mig)"
  let ?mk = "on_disk (mkdirSync (fault demo) game) (snd ?ret)"
  let ?jre = "ensureJRE demo game (jre (checkGameInstallation demo game demo_version (fsys (snd ?ret))))
                (send ''install-started'' NoPayload (snd ?mk))"
  have "fst ?mig = Inr ()" by (simp add: run_defs demo_defs)
  then have p1: "?mig = (Inr (), snd ?mig)" by (metis prod.collapse)
  have "fst ?ret = Inr ()" by (simp add: run_defs demo_defs)
  then have p2: "?ret = (Inr (), snd ?ret)" by (metis prod.collapse)
  have "fst ?mk = Inr ()" by (simp add: run_defs demo_defs is_file_def)
  then have p3: "?mk = (Inr (), snd ?mk)" by (metis prod.collapse)
  have "fst ?jre = Inr ()" by (simp add: run_defs demo_defs is_file_def)
  then have p4: "?jre = (Inr (), snd ?jre)" by (metis prod.collapse)
  have r0: "spec_patch_required demo game demo_version (fsys (snd ?ret))"
    by (simp add: c1_defs run_defs demo_defs)
  have "fst (installButler demo (snd ?jre)) = Some (binPath demo)"
    by (simp add: run_defs demo_defs is_file_def)
  then have b: "installButler demo (snd ?jre) = (Some (binPath demo), snd (installButler demo (snd ?jre)))"
    by (metis prod.collapse)
  have f: "Fetch (url demo_version) \<in> set (acts (snd (installGame demo game demo_version state0)))"
    using patching_iff_required
            [of demo game demo_version state0 "snd ?mig" "snd ?ret" "snd ?mk" "snd ?jre"]
          p1 p2 p3 p4 r0 b
    by blast
  have r3: "\<not> spec_patch_required demo game demo_version
      (fsys (snd (retireLatest demo game demo_version
         (snd (effect (migrateLegacyChannelInstallIfNeeded demo game (vtype demo_version)) state3)))))"
    by (simp add: c1_defs run_defs demo_defs)
  have a3: "set (acts (snd (installGame demo game demo_version state3)))
      \<subseteq> set (acts state3) \<union> {RunInstallJRE game}"
    using patching_iff_required [of demo game demo_version state3] r3 by blast
  have s0: "spec_patch_required demo game demo_version (fsys state0)"
    by (simp add: c1_defs demo_defs)
  have s3: "\<not> spec_patch_required demo game demo_version (fsys state3)"
    by (simp add: c1_defs demo_defs)
  have skipped_without_client: "fst (installGame demo game demo_version state3) = True"
    by (simp add: c1_defs run_defs demo_defs show3 Let_def is_file_def)
  show ?thesis
    using f a3 s0 s3 skipped_without_client by (simp add: demo_version_def state3_def)
qed


section \<open>Installing twice\<close>

lemma mkdirSync_noop:
  assumes "flt (OpMkdir p) = None" and "\<forall>q\<in>set (prefixes p). d q = Some Dir"
  shows "mkdirSync flt p d = Inr d"
proof -
  have nf: "\<not> list_ex (\<lambda>q. is_file (d q)) (prefixes p)"
    using assms(2) by (auto simp: list_ex_iff is_file_def)
  have "(\<lambda>q. case d q of None \<Rightarrow> if prefix q p then Some Dir else None | Some n \<Rightarrow> Some n) = d"
  proof (rule ext)
    fix q
    show "(case d q of None \<Rightarrow> if prefix q p then Some Dir else None | Some n \<Rightarrow> Some n) = d q"
      using assms(2) by (cases "d q") (auto simp: in_set_prefixes)
  qed
  then show ?thesis using assms(1) nf by (simp add: mkdirSync_def)
qed

lemma retireLatest_same_build:
  assumes "vtype v = Release \<and> isLatest v = Some True \<longrightarrow> resolveInstallDir w g v = getLatestDir w g"
      and "readInstallManifest w (resolveInstallDir w g v) (fsys s) = Some m"
      and "m_build_index m = build_index v"
  shows "retireLatest w g v s = (Inr (), s)"
proof (cases "vtype v = Release \<and> isLatest v = Some True")
  case True
  then have "readInstallManifest w (getLatestDir w g) (fsys s) = Some m"
    using assms(1,2) by simp
  then show ?thesis using assms(3) by (simp add: retireLatest_def Let_def)
next
  case False
  then show ?thesis by (auto simp: retireLatest_def)
qed

lemma installed_run:
  assumes "migrateLegacyChannelInstallIfNeeded w g (vtype v) (fsys s1) = (None, fsys s1)"
      and "vtype v = Release \<and> isLatest v = Some True \<longrightarrow> resolveInstallDir w g v = getLatestDir w g"
      and "readInstallManifest w (resolveInstallDir w g v) (fsys s1) = Some m"
      and "m_build_index m = build_index v"
      and "client (checkGameInstallation w g v (fsys s1))"
      and "server (checkGameInstallation w g v (fsys s1))"
      and "jre (checkGameInstallation w g v (fsys s1))"
      and "fault w (OpMkdir g) = None"
      and "\<forall>q\<in>set (prefixes g). fsys s1 q = Some Dir"
  shows "installGame w g v s1
         = (True, s1\<lparr>sent := sent s1 @ [(''install-started'', NoPayload),
                                       (''install-finished'', VersionPayload v)]\<rparr>)"
proof -
  have mig: "effect (migrateLegacyChannelInstallIfNeeded w g (vtype v)) s1 = (Inr (), s1)"
    using assms(1) by (simp add: effect_def)
  have ret: "retireLatest w g v s1 = (Inr (), s1)"
    using retireLatest_same_build [OF assms(2,3,4)] .
  have mk: "on_disk (mkdirSync (fault w) g) s1 = (Inr (), s1)"
    using mkdirSync_noop [of "fault w" g "fsys s1"] assms(8,9) by (simp add: on_disk_def)
  have jr: "ensureJRE w g (jre (checkGameInstallation w g v (fsys s1)))
      (send ''install-started'' NoPayload s1) = (Inr (), send ''install-started'' NoPayload s1)"
    using assms(7) by (simp add: ensureJRE_def)
  have tr: "installGame_try w g v s1 = (Inr (), send ''install-started'' NoPayload s1)"
    using mig ret mk jr assms(3,4,5,6)
    by (simp add: installGame_try_def Let_def alreadyOnThisBuild_def)
  show ?thesis
    by (simp add: installGame_def tr send_def)
qed

lemmas c3_defs = demo_empty_def parseInt10_def is_space_def digit_of_def digits_value_def

lemma installGame_True:
  assumes "installGame w g v s = (True, s1)"
  shows "\<exists>t. installGame_try w g v s = (Inr (), t)
             \<and> s1 = send ''install-finished'' (VersionPayload v) t"
  using assms
  by (cases "installGame_try w g v s") (auto simp: installGame_def split: sum.splits)

lemma installGame_try_Inr:
  assumes "installGame_try w g v s = (Inr (), t)"
  shows "\<exists>sA sB sC sD.
           effect (migrateLegacyChannelInstallIfNeeded w g (vtype v)) s = (Inr (), sA)
         \<and> retireLatest w g v sA = (Inr (), sB)
         \<and> on_disk (mkdirSync (fault w) g) sB = (Inr (), sC)
         \<and> ensureJRE w g (jre (checkGameInstallation w g v (fsys sB)))
              (send ''install-started'' NoPayload sC) = (Inr (), sD)
         \<and> (if spec_patch_required w g v (fsys sB)
             then patchBuild w g v (resolveInstallDir w g v) sD = (Inr (), t)
             else t = sD)"
proof -
  let ?mig = "effect (migrateLegacyChannelInstallIfNeeded w g (vtype v)) s"
  obtain r1 sA where m: "?mig = (r1, sA)" by (cases ?mig) blast
  obtain r2 sB where r: "retireLatest w g v sA = (r2, sB)"
    by (cases "retireLatest w g v sA") blast
  obtain r3 sC where k: "on_disk (mkdirSync (fault w) g) sB = (r3, sC)"
    by (cases "on_disk (mkdirSync (fault w) g) sB") blast
  obtain r4 sD where j: "ensureJRE w g (jre (checkGameInstallation w g v (fsys sB)))
              (send ''install-started'' NoPayload sC) = (r4, sD)"
    by (cases "ensureJRE w g (jre (checkGameInstallation w g v (fsys sB)))
              (send ''install-started'' NoPayload sC)") blast
  have r1: "r1 = Inr ()" using assms m by (cases r1) (auto simp: installGame_try_def)
  have r2: "r2 = Inr ()" using assms m r r1 by (cases r2) (auto simp: installGame_try_def)
  have r3: "r3 = Inr ()" using assms m r k r1 r2
    by (cases r3) (auto simp: installGame_try_def Let_def)
  have r4: "r4 = Inr ()" using assms m r k j r1 r2 r3
    by (cases r4) (auto simp: installGame_try_def Let_def)
  have d: "installGame_try w g v s =
           (if spec_patch_required w g v (fsys sB)
            then patchBuild w g v (resolveInstallDir w g v) sD
            else (Inr (), sD))"
    using decision [of w g v s sA sB sC sD] m r k j r1 r2 r3 r4 by simp
  show ?thesis
    using m r k j r1 r2 r3 r4 d assms by (intro exI [of _ sA] exI [of _ sB] exI [of _ sC] exI [of _ sD]) (auto split: if_splits)
qed

lemma afterApply_Inr:
  assumes "afterApply w tmp dir v fin s = (Inr (), t)"
  shows "\<exists>d1 d2. unlinkSync (fault w) tmp (fsys s) = Inr d1
               \<and> writeInstallManifest w dir v d1 = (None, d2)
               \<and> t = ensureClientExecutable w dir (s\<lparr>fsys := d2\<rparr>)"
  using assms
  by (auto simp: afterApply_def on_disk_def effect_def
        split: if_splits sum.splits prod.splits option.splits)

lemma patchBuild_Inr:
  assumes "patchBuild w g v dir s = (Inr (), t)"
  shows "\<exists>b sE tmp sF fin sG d1 d2.
           installButler w s = (Some b, sE)
         \<and> downloadPWR w g v sE = (Some tmp, sF)
         \<and> applyPWR w tmp b dir sF = (Inr fin, sG)
         \<and> unlinkSync (fault w) tmp (fsys sG) = Inr d1
         \<and> writeInstallManifest w dir v d1 = (None, d2)
         \<and> t = ensureClientExecutable w dir (sG\<lparr>fsys := d2\<rparr>)"
proof -
  obtain r1 sE where b: "installButler w s = (r1, sE)" by (cases "installButler w s") blast
  obtain bp where r1: "r1 = Some bp" using assms b by (cases r1) (auto simp: patchBuild_def)
  obtain r2 sF where d: "downloadPWR w g v sE = (r2, sF)" by (cases "downloadPWR w g v sE") blast
  obtain tmp where r2: "r2 = Some tmp" using assms b r1 d by (cases r2) (auto simp: patchBuild_def)
  obtain r3 sG where a: "applyPWR w tmp bp dir sF = (r3, sG)"
    by (cases "applyPWR w tmp bp dir sF") blast
  obtain fin where r3: "r3 = Inr fin" using assms b r1 d r2 a by (cases r3) (auto simp: patchBuild_def)
  have "afterApply w tmp dir v fin sG = (Inr (), t)"
    using assms b r1 d r2 a r3 by (simp add: patchBuild_def)
  from afterApply_Inr [OF this] show ?thesis
    using b r1 d r2 a r3 by blast
qed

lemma ensureJRE_acts_eq:
  "acts (snd (ensureJRE w g found s)) = acts s @ (if found then [] else [RunInstallJRE g])"
  by (simp add: ensureJRE_def Let_def act_def split: option.splits)

lemma unpackButler_acts: "acts (snd (unpackButler w z s)) = acts s"
  by (auto simp: unpackButler_def on_disk_def effect_def
        split: sum.splits prod.splits option.splits if_splits)

lemma installButler_acts:
  "acts (snd (installButler w s)) = acts s
   \<or> (\<exists>u. butler_url (platform w) = Some u \<and> acts (snd (installButler w s)) = acts s @ [Fetch u])"
proof -
  obtain r1 s1 where e: "ensure_dir w (butlerPath w) s = (r1, s1)"
    by (cases "ensure_dir w (butlerPath w) s") blast
  have a1: "acts s1 = acts s" using ensure_dir_acts [of w "butlerPath w" s] e by simp
  have "acts (snd (installButler_try w s)) = acts s
   \<or> (\<exists>u. butler_url (platform w) = Some u \<and> acts (snd (installButler_try w s)) = acts s @ [Fetch u])"
    using e a1 unpackButler_acts [of w]
    by (auto simp: installButler_try_def Let_def act_def split: sum.splits option.splits)
  then show ?thesis
    by (cases "installButler_try w s") (auto simp: installButler_def split: sum.splits)
qed

lemma downloadPWR_acts: "acts (snd (downloadPWR w g v s)) = acts s @ [Fetch (url v)]"
  by (auto simp: downloadPWR_def Let_def act_def send_progress_def
        split: sum.splits option.splits prod.splits)

lemma applyPWR_Inr_acts:
  assumes "applyPWR w tmp b dir s = (Inr fin, s')"
  shows "acts s' = acts s @ [Spawn b (butler_args (dir @ [''staging-temp'']) tmp dir)]"
proof -
  obtain r1 s1 where e1: "ensure_dir w dir s = (r1, s1)"
    by (cases "ensure_dir w dir s") blast
  obtain r2 s2 where e2: "ensure_dir w (dir @ [''staging-temp'']) s1 = (r2, s2)"
    by (cases "ensure_dir w (dir @ [''staging-temp'']) s1") blast
  have "acts s1 = acts s" using ensure_dir_acts [of w dir s] e1 by simp
  moreover have "acts s2 = acts s1"
    using ensure_dir_acts [of w "dir @ [''staging-temp'']" s1] e2 by simp
  ultimately show ?thesis using e1 e2 assms
    by (auto simp: applyPWR_def Let_def act_def send_progress_def
          split: sum.splits spawn_result.splits)
qed

lemma mkdir_fault:
  assumes "on_disk (mkdirSync (fault w) g) s = (Inr (), s')"
  shows "fault w (OpMkdir g) = None"
  using on_disk_Inr [OF assms] by (auto simp: mkdirSync_def split: option.splits)

text \<open>The second run, from a state that needs no patch.\<close>

lemma idle_run_acts:
  assumes "migrateLegacyChannelInstallIfNeeded w g (vtype v) (fsys s1) = (None, fsys s1)"
      and "vtype v = Release \<and> isLatest v = Some True \<longrightarrow> resolveInstallDir w g v = getLatestDir w g"
      and "alreadyOnThisBuild (readInstallManifest w (resolveInstallDir w g v) (fsys s1)) v"
      and "client (checkGameInstallation w g v (fsys s1))"
      and "server (checkGameInstallation w g v (fsys s1))"
  shows "acts (snd (installGame w g v s1)) = acts s1
       \<or> \<not> jre (checkGameInstallation w g v (fsys s1))
         \<and> acts (snd (installGame w g v s1)) = acts s1 @ [RunInstallJRE g]"
proof -
  obtain m where m: "readInstallManifest w (resolveInstallDir w g v) (fsys s1) = Some m"
      "m_build_index m = build_index v"
    using assms(3) by (auto simp: alreadyOnThisBuild_def split: option.splits)
  have mig: "effect (migrateLegacyChannelInstallIfNeeded w g (vtype v)) s1 = (Inr (), s1)"
    using assms(1) by (simp add: effect_def)
  have ret: "retireLatest w g v s1 = (Inr (), s1)"
    using retireLatest_same_build [OF assms(2) m] .
  obtain r3 s3 where k: "on_disk (mkdirSync (fault w) g) s1 = (r3, s3)"
    by (cases "on_disk (mkdirSync (fault w) g) s1") blast
  have a3: "acts s3 = acts s1" using on_disk_acts [of "mkdirSync (fault w) g" s1] k by simp
  let ?found = "jre (checkGameInstallation w g v (fsys s1))"
  obtain r4 s4 where j: "ensureJRE w g ?found (send ''install-started'' NoPayload s3) = (r4, s4)"
    by (cases "ensureJRE w g ?found (send ''install-started'' NoPayload s3)") blast
  have a4: "acts s4 = acts s1 @ (if ?found then [] else [RunInstallJRE g])"
    using ensureJRE_acts_eq [of w g ?found "send ''install-started'' NoPayload s3"] j a3
    by (simp add: send_acts)
  have "acts (snd (installGame_try w g v s1)) = acts s3
      \<or> acts (snd (installGame_try w g v s1)) = acts s4"
    using mig ret k j assms(3,4,5)
    by (cases r3; cases r4) (auto simp: installGame_try_def Let_def)
  then show ?thesis
    using a3 a4 by (auto simp: installGame_acts split: if_splits)
qed

text \<open>
  C3, as stated, fails. The exit code of the patch tool is not looked at: with a tool that
  exits with code 1 and writes nothing, the first invocation reports success and writes
  the manifest; the second finds the manifest and no client, and downloads and spawns
  again. And on a tree that already holds the build, neither invocation downloads or
  spawns: the cycle has run zero times, not once.
\<close>

theorem second_install_counterexample:
  "fst (installGame demo_empty game demo_version state0) = True
   \<and> fst (installGame demo_empty game demo_version
          (snd (installGame demo_empty game demo_version state0))) = True
   \<and> acts (snd (installGame demo_empty game demo_version
          (snd (installGame demo_empty game demo_version state0))))
       = [RunInstallJRE game,
          Fetch ''https://x/b3.patch'',
          Spawn (binPath demo_empty)
            (butler_args (demo_latest game @ [''staging-temp'']) (tempPWRPath game demo_version)
               (demo_latest game)),
          Fetch ''https://x/b3.patch'',
          Spawn (binPath demo_empty)
            (butler_args (demo_latest game @ [''staging-temp'']) (tempPWRPath game demo_version)
               (demo_latest game))]
   \<and> fst (installGame demo game demo_version state3) = True
   \<and> fst (installGame demo game demo_version
          (snd (installGame demo game demo_version state3))) = True
   \<and> acts (snd (installGame demo game demo_version
          (snd (installGame demo game demo_version state3)))) = [RunInstallJRE game]"
proof -
  have a: "fst (installGame demo_empty game demo_version state0) = True"
    by (simp add: c3_defs run_defs demo_defs show3 Let_def is_file_def)
  have b: "fst (installGame demo_empty game demo_version
          (snd (installGame demo_empty game demo_version state0))) = True"
    by (simp add: c3_defs run_defs demo_defs show3 Let_def is_file_def)
  have c: "acts (snd (installGame demo_empty game demo_version
          (snd (installGame demo_empty game demo_version state0))))
       = [RunInstallJRE game,
          Fetch ''https://x/b3.patch'',
          Spawn (binPath demo_empty)
            (butler_args (demo_latest game @ [''staging-temp'']) (tempPWRPath game demo_version)
               (demo_latest game)),
          Fetch ''https://x/b3.patch'',
          Spawn (binPath demo_empty)
            (butler_args (demo_latest game @ [''staging-temp'']) (tempPWRPath game demo_version)
               (demo_latest game))]"
    by (simp add: c3_defs run_defs demo_defs show3 Let_def is_file_def)
  have d: "fst (installGame demo game demo_version state3) = True"
    by (simp add: c3_defs state3_def run_defs demo_defs show3 Let_def is_file_def)
  have e: "fst (installGame demo game demo_version
          (snd (installGame demo game demo_version state3))) = True"
    by (simp add: c3_defs state3_def run_defs demo_defs show3 Let_def is_file_def)
  have f: "acts (snd (installGame demo game demo_version
          (snd (installGame demo game demo_version state3)))) = [RunInstallJRE game]"
    by (simp add: c3_defs state3_def run_defs demo_defs show3 Let_def is_file_def)
  show ?thesis using a b c d e f by simp
qed


text \<open>
  C3, amended: when the first invocation had to patch and has reported success, and the
  patch tool has delivered the client and the server (the check finds them afterwards),
  then the first invocation has fetched the artifact once and spawned the patch tool
  once, after the runtime installer and the bootstrap of the patch tool if they ran; the
  manifest read after it has the target's build index; and the second invocation fetches
  nothing and spawns nothing: it adds no action, or the runtime installer alone when the
  check does not find the runtime. So the patch tool has been spawned once over the two
  invocations. If moreover the runtime is found and the game directory is still there, the
  second invocation leaves the disk as it is, sends \<open>install-started\<close> and
  \<open>install-finished\<close> and reports success. What is used of the modules that are not
  among the sources: the manifest store reads back the build index it has written, also
  after the executable bit of the client has been restored; the migration has nothing left
  to do after the first invocation; and the install directory of a release that is latest
  is the directory \<open>latest\<close>.
\<close>

theorem second_install_is_idle:
  assumes "installGame w g v s = (True, s1)"
      and "spec_patch_required w g v
             (fsys (snd (retireLatest w g v
                (snd (effect (migrateLegacyChannelInstallIfNeeded w g (vtype v)) s)))))"
      and "\<forall>d d'. writeInstallManifest w (resolveInstallDir w g v) v d = (None, d')
             \<longrightarrow> alreadyOnThisBuild (readInstallManifest w (resolveInstallDir w g v) d') v"
      and "\<forall>s'. readInstallManifest w (resolveInstallDir w g v)
                  (fsys (ensureClientExecutable w (resolveInstallDir w g v) s'))
               = readInstallManifest w (resolveInstallDir w g v) (fsys s')"
      and "client (checkGameInstallation w g v (fsys s1))"
      and "server (checkGameInstallation w g v (fsys s1))"
      and "migrateLegacyChannelInstallIfNeeded w g (vtype v) (fsys s1) = (None, fsys s1)"
      and "vtype v = Release \<and> isLatest v = Some True \<longrightarrow> resolveInstallDir w g v = getLatestDir w g"
  shows "(\<exists>pre b a. acts s1 = acts s @ pre @ [Fetch (url v), Spawn b a]
            \<and> set pre \<subseteq> {RunInstallJRE g} \<union> Fetch ` set_option (butler_url (platform w)))
       \<and> alreadyOnThisBuild (readInstallManifest w (resolveInstallDir w g v) (fsys s1)) v
       \<and> (acts (snd (installGame w g v s1)) = acts s1
          \<or> \<not> jre (checkGameInstallation w g v (fsys s1))
            \<and> acts (snd (installGame w g v s1)) = acts s1 @ [RunInstallJRE g])
       \<and> length (filter is_spawn (acts (snd (installGame w g v s1))))
           = Suc (length (filter is_spawn (acts s)))
       \<and> (jre (checkGameInstallation w g v (fsys s1))
            \<and> (\<forall>q\<in>set (prefixes g). fsys s1 q = Some Dir)
          \<longrightarrow> installGame w g v s1
              = (True, s1\<lparr>sent := sent s1 @ [(''install-started'', NoPayload),
                                            (''install-finished'', VersionPayload v)]\<rparr>))"
proof -
  let ?dir = "resolveInstallDir w g v"
  obtain t where t: "installGame_try w g v s = (Inr (), t)"
      and s1: "s1 = send ''install-finished'' (VersionPayload v) t"
    using installGame_True [OF assms(1)] by blast
  obtain sA sB sC sD where
        mig: "effect (migrateLegacyChannelInstallIfNeeded w g (vtype v)) s = (Inr (), sA)"
    and ret: "retireLatest w g v sA = (Inr (), sB)"
    and mk: "on_disk (mkdirSync (fault w) g) sB = (Inr (), sC)"
    and jr: "ensureJRE w g (jre (checkGameInstallation w g v (fsys sB)))
              (send ''install-started'' NoPayload sC) = (Inr (), sD)"
    and dec: "if spec_patch_required w g v (fsys sB)
             then patchBuild w g v ?dir sD = (Inr (), t) else t = sD"
    using installGame_try_Inr [OF t] by blast
  have req: "spec_patch_required w g v (fsys sB)"
    using assms(2) mig ret by simp
  then have pb: "patchBuild w g v ?dir sD = (Inr (), t)" using dec by simp
  obtain b sE tmp sF fin sG d1 d2 where
        ib: "installButler w sD = (Some b, sE)"
    and dl: "downloadPWR w g v sE = (Some tmp, sF)"
    and ap: "applyPWR w tmp b ?dir sF = (Inr fin, sG)"
    and wr: "writeInstallManifest w ?dir v d1 = (None, d2)"
    and tt: "t = ensureClientExecutable w ?dir (sG\<lparr>fsys := d2\<rparr>)"
    using patchBuild_Inr [OF pb] by blast
  have aA: "acts sA = acts s"
    using effect_acts [of "migrateLegacyChannelInstallIfNeeded w g (vtype v)" s] mig by simp
  have aB: "acts sB = acts s" using retireLatest_acts [of w g v sA] ret aA by simp
  have aC: "acts sC = acts s" using on_disk_acts [of "mkdirSync (fault w) g" sB] mk aB by simp
  let ?j = "if jre (checkGameInstallation w g v (fsys sB)) then [] else [RunInstallJRE g]"
  have aD: "acts sD = acts s @ ?j"
    using ensureJRE_acts_eq [of w g "jre (checkGameInstallation w g v (fsys sB))"
            "send ''install-started'' NoPayload sC"] jr aC
    by (simp add: send_acts)
  obtain bf where aE: "acts sE = acts sD @ bf"
      and bf: "set bf \<subseteq> Fetch ` set_option (butler_url (platform w))"
    using installButler_acts [of w sD] ib by auto
  have aF: "acts sF = acts sE @ [Fetch (url v)]"
    using downloadPWR_acts [of w g v sE] dl by simp
  have aG: "acts sG = acts sF @ [Spawn b (butler_args (?dir @ [''staging-temp'']) tmp ?dir)]"
    using applyPWR_Inr_acts [OF ap] .
  have a1: "acts s1 = acts s @ (?j @ bf) @ [Fetch (url v),
      Spawn b (butler_args (?dir @ [''staging-temp'']) tmp ?dir)]"
    using aD aE aF aG by (simp add: s1 tt send_acts ensureClientExecutable_acts)
  have first: "\<exists>pre b a. acts s1 = acts s @ pre @ [Fetch (url v), Spawn b a]
            \<and> set pre \<subseteq> {RunInstallJRE g} \<union> Fetch ` set_option (butler_url (platform w))"
    using a1 bf by (intro exI [of _ "?j @ bf"] exI [of _ b]
        exI [of _ "butler_args (?dir @ [''staging-temp'']) tmp ?dir"]) auto
  have fs1: "fsys s1 = fsys (ensureClientExecutable w ?dir (sG\<lparr>fsys := d2\<rparr>))"
    by (simp add: s1 tt send_def)
  have man: "alreadyOnThisBuild (readInstallManifest w ?dir (fsys s1)) v"
    using assms(3) wr assms(4) [rule_format, of "sG\<lparr>fsys := d2\<rparr>"] by (simp add: fs1)
  have second: "acts (snd (installGame w g v s1)) = acts s1
          \<or> \<not> jre (checkGameInstallation w g v (fsys s1))
            \<and> acts (snd (installGame w g v s1)) = acts s1 @ [RunInstallJRE g]"
    using idle_run_acts [OF assms(7,8) man assms(5,6)] .
  have nsp: "filter is_spawn (?j @ bf) = []"
    using bf by (auto simp: filter_empty_conv)
  have cnt1: "length (filter is_spawn (acts s1)) = Suc (length (filter is_spawn (acts s)))"
    using nsp by (simp add: a1)
  have cnt: "length (filter is_spawn (acts (snd (installGame w g v s1))))
           = Suc (length (filter is_spawn (acts s)))"
    using second cnt1 by auto
  have flt: "fault w (OpMkdir g) = None" using mkdir_fault [OF mk] .
  have full: "installGame w g v s1
              = (True, s1\<lparr>sent := sent s1 @ [(''install-started'', NoPayload),
                                            (''install-finished'', VersionPayload v)]\<rparr>)"
    if j: "jre (checkGameInstallation w g v (fsys s1))"
      and dirs: "\<forall>q\<in>set (prefixes g). fsys s1 q = Some Dir"
  proof -
    obtain m where m: "readInstallManifest w ?dir (fsys s1) = Some m"
      "m_build_index m = build_index v"
      using man by (auto simp: alreadyOnThisBuild_def split: option.splits)
    show ?thesis
      using installed_run [OF assms(7,8) m assms(5,6) j flt dirs] .
  qed
  show ?thesis
    using first man second cnt full by blast
qed

theorem second_install_is_idle_witness:
  "fst (installGame demo game demo_version state0) = True
   \<and> spec_patch_required demo game demo_version (fsys state0)
   \<and> client (checkGameInstallation demo game demo_version
        (fsys (snd (installGame demo game demo_version state0))))
   \<and> server (checkGameInstallation demo game demo_version
        (fsys (snd (installGame demo game demo_version state0))))
   \<and> jre (checkGameInstallation demo game demo_version
        (fsys (snd (installGame demo game demo_version state0))))
   \<and> readInstallManifest demo (resolveInstallDir demo game demo_version)
        (fsys (snd (installGame demo game demo_version state0)))
       = Some \<lparr>m_build_index = 3, m_build_name = None\<rparr>
   \<and> installGame demo game demo_version (snd (installGame demo game demo_version state0))
       = (True, (snd (installGame demo game demo_version state0))
                  \<lparr>sent := sent (snd (installGame demo game demo_version state0))
                     @ [(''install-started'', NoPayload),
                        (''install-finished'', VersionPayload demo_version)]\<rparr>)
   \<and> acts (snd (installGame demo game demo_version
          (snd (installGame demo game demo_version state0))))
       = [RunInstallJRE game,
          Fetch ''https://x/b3.patch'',
          Spawn (binPath demo)
            (butler_args (demo_latest game @ [''staging-temp'']) (tempPWRPath game demo_version)
               (demo_latest game))]"
proof -
  let ?s1 = "snd (installGame demo game demo_version state0)"
  let ?dir = "resolveInstallDir demo game demo_version"
  have f1: "fst (installGame demo game demo_version state0) = True"
    by (simp add: run_defs demo_defs show3 Let_def is_file_def)
  then have h1: "installGame demo game demo_version state0 = (True, ?s1)"
    by (metis prod.collapse)
  have dec: "snd (retireLatest demo game demo_version
                (snd (effect (migrateLegacyChannelInstallIfNeeded demo game (vtype demo_version)) state0)))
             = state0"
    by (simp add: run_defs demo_defs)
  have r0: "spec_patch_required demo game demo_version (fsys state0)"
    by (simp add: c1_defs demo_defs)
  have h2: "spec_patch_required demo game demo_version
             (fsys (snd (retireLatest demo game demo_version
                (snd (effect (migrateLegacyChannelInstallIfNeeded demo game (vtype demo_version)) state0)))))"
    unfolding dec by (rule r0)
  have h3: "\<forall>d d'. writeInstallManifest demo ?dir demo_version d = (None, d')
             \<longrightarrow> alreadyOnThisBuild (readInstallManifest demo ?dir d') demo_version"
    by (auto simp: demo_defs show3 alreadyOnThisBuild_def c3_defs)
  have h4: "\<forall>s'. readInstallManifest demo ?dir (fsys (ensureClientExecutable demo ?dir s'))
               = readInstallManifest demo ?dir (fsys s')"
    by (auto simp: demo_defs ensureClientExecutable_def ensureExecutable_def ignoring_def
          statSync_def chmodSync_def split: sum.splits option.splits node.splits)
  have h5: "client (checkGameInstallation demo game demo_version (fsys ?s1))"
    by (simp add: run_defs demo_defs show3 Let_def is_file_def)
  have h6: "server (checkGameInstallation demo game demo_version (fsys ?s1))"
    by (simp add: run_defs demo_defs show3 Let_def is_file_def)
  have h7: "migrateLegacyChannelInstallIfNeeded demo game (vtype demo_version) (fsys ?s1)
      = (None, fsys ?s1)"
    by (simp add: demo_def)
  have h8: "vtype demo_version = Release \<and> isLatest demo_version = Some True
      \<longrightarrow> resolveInstallDir demo game demo_version = getLatestDir demo game"
    by (simp add: demo_defs)
  have j: "jre (checkGameInstallation demo game demo_version (fsys ?s1))"
    by (simp add: run_defs demo_defs show3 Let_def is_file_def)
  have dirs: "\<forall>q\<in>set (prefixes game). fsys ?s1 q = Some Dir"
    by (simp add: run_defs demo_defs show3 Let_def is_file_def)
  have man: "readInstallManifest demo ?dir (fsys ?s1) = Some \<lparr>m_build_index = 3, m_build_name = None\<rparr>"
    by (simp add: c3_defs run_defs demo_defs show3 Let_def is_file_def)
  note th = second_install_is_idle [OF h1 h2 h3 h4 h5 h6 h7 h8]
  have a1: "acts ?s1
       = [RunInstallJRE game,
          Fetch ''https://x/b3.patch'',
          Spawn (binPath demo)
            (butler_args (demo_latest game @ [''staging-temp'']) (tempPWRPath game demo_version)
               (demo_latest game))]"
    by (simp add: run_defs demo_defs show3 Let_def is_file_def)
  have run2: "installGame demo game demo_version ?s1
       = (True, ?s1\<lparr>sent := sent ?s1 @ [(''install-started'', NoPayload),
                                        (''install-finished'', VersionPayload demo_version)]\<rparr>)"
    using th j dirs by blast
  show ?thesis
    using f1 r0 h5 h6 j man a1 by (simp add: run2)
qed

end
